theory Spec2Isabelle
  imports Main "HOL-Library.List_Lexorder" "HOL-Library.Char_ord"
begin

section \<open>NearInitializationModule (pynpoint/readwrite/near.py)\<close>

text \<open>
  The module reads the FITS files of a directory in sorted order, splits the frames of
  every file into chop A and chop B, and appends them, with attributes taken from the
  header, to four output ports: nod A/chop A, nod A/chop B, nod B/chop A, nod B/chop B.

  Python exceptions are values of \<open>error\<close>; a method that can raise returns
  \<open>error + 'a\<close>. What the methods write with \<open>warnings.warn\<close> and the
  "tag is empty" lines written to stdout are collected, in order, in the field
  \<open>messages\<close> of the state. Every call of \<open>warnings.warn\<close> is one message (the
  filter that may hide repeated warnings is outside the module); a call made inside
  \<open>warnings.catch_warnings()\<close> with \<open>simplefilter("ignore")\<close> gives none.
  Progress output, the decompression pass (\<open>uncompress\<close>, threads and subprocesses) and
  floating-point header values are not modelled; pixel values are integers, so the cast
  of the chop buffers to float32 is the identity.
\<close>

subsection \<open>Python values and exceptions\<close>

datatype error =
    ValueError string
  | AssertionError string
  | KeyError string
  | IndexError
  | UnboundLocalError string
  | AttributeError string
  | IOError string

datatype hval = HStr string | HInt int | HBool bool | HNone

definition ebind :: "error + 'a \<Rightarrow> ('a \<Rightarrow> error + 'b) \<Rightarrow> error + 'b" where
  "ebind r f = (case r of Inl e \<Rightarrow> Inl e | Inr x \<Rightarrow> f x)"

text \<open>\<open>bool(v)\<close> and \<open>isinstance(v, bool)\<close>.\<close>

fun truthy :: "hval \<Rightarrow> bool" where
  "truthy (HBool b) = b"
| "truthy (HInt n) = (n \<noteq> 0)"
| "truthy (HStr s) = (s \<noteq> [])"
| "truthy HNone = False"

fun is_bool :: "hval \<Rightarrow> bool" where
  "is_bool (HBool b) = True"
| "is_bool v = False"

text \<open>\<open>str(v)\<close>: decimal digits for an integer.\<close>

fun nat_to_dec :: "nat \<Rightarrow> string" where
  "nat_to_dec n =
     (if n < 10 then [char_of (48 + n)]
      else nat_to_dec (n div 10) @ [char_of (48 + n mod 10)])"

declare nat_to_dec.simps [simp del]

fun py_str :: "hval \<Rightarrow> string" where
  "py_str (HStr s) = s"
| "py_str (HInt n) = (if n < 0 then CHR ''-'' # nat_to_dec (nat (- n)) else nat_to_dec (nat n))"
| "py_str (HBool b) = (if b then ''True'' else ''False'')"
| "py_str HNone = ''None''"

text \<open>
  \<open>int(v)\<close>: a string is stripped of surrounding white space and read as an optional
  sign and decimal digits, single underscores allowed between digits; anything else
  raises ValueError, \<open>int(None)\<close> raises TypeError (here ValueError as well).
\<close>

definition digit_val :: "char \<Rightarrow> nat option" where
  "digit_val c =
     (let n = (of_char c :: nat) in if 48 \<le> n \<and> n \<le> 57 then Some (n - 48) else None)"

fun parse_dec :: "bool \<Rightarrow> nat \<Rightarrow> string \<Rightarrow> nat option" where
  "parse_dec d acc [] = (if d then Some acc else None)"
| "parse_dec d acc (c # cs) =
     (if c = CHR ''_'' then (if d \<and> cs \<noteq> [] then parse_dec False acc cs else None)
      else (case digit_val c of
              None \<Rightarrow> None
            | Some v \<Rightarrow> parse_dec True (10 * acc + v) cs))"

definition is_space :: "char \<Rightarrow> bool" where
  "is_space c = (let n = (of_char c :: nat) in (9 \<le> n \<and> n \<le> 13) \<or> (28 \<le> n \<and> n \<le> 32))"

definition strip :: "string \<Rightarrow> string" where
  "strip s = rev (dropWhile is_space (rev (dropWhile is_space s)))"

definition parse_int :: "string \<Rightarrow> int option" where
  "parse_int s =
     (case strip s of
        [] \<Rightarrow> None
      | c # cs \<Rightarrow>
          if c = CHR ''-'' then map_option (\<lambda>n. - int n) (parse_dec False 0 cs)
          else if c = CHR ''+'' then map_option int (parse_dec False 0 cs)
          else map_option int (parse_dec False 0 (c # cs)))"

fun py_int :: "hval \<Rightarrow> error + int" where
  "py_int (HInt n) = Inr n"
| "py_int (HBool b) = Inr (if b then 1 else 0)"
| "py_int (HStr s) =
     (case parse_int s of None \<Rightarrow> Inl (ValueError ''invalid literal for int()'') | Some n \<Rightarrow> Inr n)"
| "py_int HNone = Inl (ValueError ''int() argument must be a string or a number'')"

subsection \<open>FITS headers and files\<close>

text \<open>
  A header is the list of its cards, keyword and value, in order. A keyword may occur on
  several cards; a lookup reads the first. Keywords are stored without the prefix
  \<open>HIERARCH\<close>, which a lookup strips from the key it is given, and in upper case.
\<close>

type_synonym header = "(string \<times> hval) list"

definition strip_hierarch :: "string \<Rightarrow> string" where
  "strip_hierarch k = (if take 9 k = ''HIERARCH '' then drop 9 k else k)"

definition header_contains :: "header \<Rightarrow> string \<Rightarrow> bool" where
  "header_contains h k = (map_of h (strip_hierarch k) \<noteq> None)"

definition header_get :: "header \<Rightarrow> string \<Rightarrow> error + hval" where
  "header_get h k =
     (case map_of h (strip_hierarch k) of None \<Rightarrow> Inl (KeyError k) | Some v \<Rightarrow> Inr v)"

text \<open>\<open>header[k] = v\<close> on one card: the first card of the keyword, or a new last card.\<close>

fun header_set :: "header \<Rightarrow> string \<Rightarrow> hval \<Rightarrow> header" where
  "header_set [] k v = [(k, v)]"
| "header_set ((k', v') # h) k v =
     (if k' = k then (k, v) # h else (k', v') # header_set h k v)"

text \<open>\<open>header.update(other)\<close> and \<open>header.insert(i, card)\<close>.\<close>

definition header_update :: "header \<Rightarrow> header \<Rightarrow> header" where
  "header_update h other = foldl (\<lambda>acc (k, v). header_set acc k v) h other"

definition header_insert :: "nat \<Rightarrow> string \<times> hval \<Rightarrow> header \<Rightarrow> header" where
  "header_insert i c h = take i h @ [c] @ drop i h"

text \<open>
  An image is the list of its rows. One HDU has a header and an image; \<open>hdulist[0]\<close> is
  the primary HDU, the last HDU holds the average of the frames.
\<close>

type_synonym frame = "int list list"

record hdu =
  hdu_header :: header
  hdu_data :: frame

definition shape0 :: "frame \<Rightarrow> nat" where
  "shape0 f = length f"

definition shape1 :: "frame \<Rightarrow> nat" where
  "shape1 f = (case f of [] \<Rightarrow> 0 | r # _ \<Rightarrow> length r)"

definition zeros :: "nat \<Rightarrow> nat \<Rightarrow> frame" where
  "zeros h w = replicate h (replicate w 0)"

text \<open>
  \<open>images[i - 1, :, :] = data\<close>: the image is broadcast to the shape of the slot, a
  single row or column repeated; any other shape raises ValueError.
\<close>

definition broadcast_to :: "nat \<Rightarrow> nat \<Rightarrow> frame \<Rightarrow> error + frame" where
  "broadcast_to h w f =
     (if (shape0 f = h \<or> shape0 f = 1) \<and> (shape1 f = w \<or> shape1 f = 1)
      then Inr (map (\<lambda>r. if shape1 f = w then r else replicate w (hd r))
                    (if shape0 f = h then f else replicate h (hd f)))
      else Inl (ValueError ''could not broadcast input array''))"

fun load_images :: "nat \<Rightarrow> nat \<Rightarrow> hdu list \<Rightarrow> error + frame list" where
  "load_images h w [] = Inr []"
| "load_images h w (x # xs) =
     ebind (broadcast_to h w (hdu_data x)) (\<lambda>f.
     ebind (load_images h w xs) (\<lambda>fs. Inr (f # fs)))"

subsection \<open>Messages\<close>

datatype message =
    WarnNodposMissing string
  | WarnChopDisabled
  | WarnCycskip int
  | WarnAveraged
  | WarnChopNotFound nat
  | WarnChopUnequal
  | WarnStaticChanged string string string
  | WarnStaticNotFound string string
  | WarnNodNotAB
  | StdoutTagEmpty string string

subsection \<open>Header Composer: the first half of \<open>open_fit\<close>\<close>

definition compose_header :: "nat \<Rightarrow> header \<Rightarrow> header \<Rightarrow> error + header" where
  "compose_header nimages head head_small =
     ebind (header_get head_small ''NAXIS1'') (\<lambda>n1.
     ebind (py_int n1) (\<lambda>naxis1.
     ebind (header_get head_small ''NAXIS2'') (\<lambda>n2.
     ebind (py_int n2) (\<lambda>naxis2.
       Inr (header_insert 5 (''NAXIS3'', HInt (int nimages))
           (header_insert 4 (''NAXIS2'', HInt naxis2)
           (header_insert 4 (''NAXIS1'', HInt naxis1)
           (header_insert 3 (''NAXIS'', HInt 3)
           (header_update head head_small)))))))))"

text \<open>
  The nod of the file: the header's value, or without the key the position of the file
  in the sequence. \<open>None\<close> is the local variable left unbound (a scheme that is neither
  literal); \<open>open_fit\<close> raises at its \<open>return\<close> then.
\<close>

definition determine_nod :: "string \<Rightarrow> header \<Rightarrow> nat \<Rightarrow> hval option \<times> message list" where
  "determine_nod scheme header number =
     (case header_get header ''ESO SEQ NODPOS'' of
        Inr v \<Rightarrow> (Some v, [])
      | Inl e \<Rightarrow>
          (let w = (if number = 0 then [WarnNodposMissing scheme] else []);
               nod0 = None;
               nod =
                 (if scheme = ''ABBA'' then
                    (let n1 = (if number mod 4 = 0 \<or> number mod 4 = 3
                               then Some (HStr ''A'') else nod0)
                     in if number mod 4 = 1 \<or> number mod 4 = 2 then Some (HStr ''B'') else n1)
                  else if scheme = ''ABAB'' then
                    (let n1 = (if number mod 2 = 0 then Some (HStr ''A'') else nod0)
                     in if number mod 2 = 1 then Some (HStr ''B'') else n1)
                  else nod0)
           in (nod, w)))"

definition check_header :: "header \<Rightarrow> error + message list" where
  "check_header head =
     ebind (header_get head ''ESO DET CHOP ST'') (\<lambda>st.
     (let w1 = (if py_str st = ''F'' then [WarnChopDisabled] else []) in
     ebind (header_get head ''ESO DET CHOP CYCSKIP'') (\<lambda>sk.
     ebind (py_int sk) (\<lambda>skipped.
     (let w2 = (if skipped \<noteq> 0 then [WarnCycskip skipped] else []) in
     ebind (header_get head ''ESO DET CHOP CYCSUM'') (\<lambda>cs.
     (let w3 = (if py_str cs = ''T'' then [WarnAveraged] else []) in
       Inr (w1 @ w2 @ w3))))))))"

subsection \<open>Frame Classifier: the second half of \<open>open_fit\<close>\<close>

record chop_acc =
  chopa :: "frame list"
  count_im_1 :: nat
  chopb :: "frame list"
  count_im_2 :: nat
  chop_warn :: "message list"

text \<open>\<open>buf[count, :, :] = image\<close>; an index past the buffer raises IndexError.\<close>

definition buf_write :: "frame list \<Rightarrow> nat \<Rightarrow> frame \<Rightarrow> error + frame list" where
  "buf_write buf n f = (if n < length buf then Inr (buf[n := f]) else Inl IndexError)"

fun classify :: "nat \<Rightarrow> (header \<times> frame) list \<Rightarrow> chop_acc \<Rightarrow> error + chop_acc" where
  "classify i [] acc = Inr acc"
| "classify i ((hs, im) # rest) acc =
     ebind (header_get hs ''HIERARCH ESO DET FRAM TYPE'') (\<lambda>cycle.
       if cycle = HStr ''HCYCLE1'' then
         ebind (buf_write (chopa acc) (count_im_1 acc) im) (\<lambda>buf.
           classify (Suc i) rest (acc\<lparr>chopa := buf, count_im_1 := Suc (count_im_1 acc)\<rparr>))
       else if cycle = HStr ''HCYCLE2'' then
         ebind (buf_write (chopb acc) (count_im_2 acc) im) (\<lambda>buf.
           classify (Suc i) rest (acc\<lparr>chopb := buf, count_im_2 := Suc (count_im_2 acc)\<rparr>))
       else classify (Suc i) rest (acc\<lparr>chop_warn := chop_warn acc @ [WarnChopNotFound i]\<rparr>))"

text \<open>
  \<open>buf[buf[:, 0, 0] != 0, :, :]\<close>: the frames whose pixel at row 0, column 0 is not
  zero. Reading that pixel of images without rows or without columns raises IndexError.
\<close>

definition pixel00 :: "frame \<Rightarrow> int" where
  "pixel00 f = hd (hd f)"

definition trim :: "nat \<Rightarrow> nat \<Rightarrow> frame list \<Rightarrow> error + frame list" where
  "trim h w buf = (if h = 0 \<or> w = 0 then Inl IndexError else Inr (filter (\<lambda>f. pixel00 f \<noteq> 0) buf))"

fun dump_header :: "header \<Rightarrow> string list \<Rightarrow> error + string list" where
  "dump_header header [] = Inr []"
| "dump_header header (key # keys) =
     ebind (header_get header key) (\<lambda>v.
     ebind (dump_header header keys) (\<lambda>rest. Inr ((key @ '' = '' @ py_str v) # rest)))"

subsection \<open>Output ports\<close>

text \<open>
  Modelled from the spec: the class OutputPort (pynpoint.core.dataio) is not part of the
  source file. The spec gives every output stream "its accumulated frame stack and its
  Static/NonStatic/Extra attributes", owned by that stream alone. A port has its tag, the
  frame stack (\<open>None\<close> while nothing was ever appended: the tag is empty), the static
  attributes, the non-static attributes as one list of values per name (\<open>[]\<close> for a name
  never appended to), the number of flushes, the history and whether it was closed.
\<close>

record port =
  tag :: string
  images :: "frame list option"
  attrs :: "string \<rightharpoonup> hval"
  header_data :: "string \<Rightarrow> hval list"
  flushes :: nat
  history :: "(string \<times> string) list"
  closed :: bool

text \<open>
  Modelled from the spec: \<open>OutputPort.append\<close>, "accepts frame stacks and metadata
  records and appends them"; the stack exists from the first append on.
\<close>

definition port_append :: "port \<Rightarrow> frame list \<Rightarrow> port" where
  "port_append p fs =
     p\<lparr>images := Some ((case images p of None \<Rightarrow> [] | Some old \<Rightarrow> old) @ fs)\<rparr>"

text \<open>
  Modelled from the spec: \<open>OutputPort.check_static_attribute\<close>, the test of
  recordStatic: "if the stream has no recorded value for name" (status 1), "present and
  equal" (status 0), "present and different" (status -1). The KeyError that
  \<open>_static_attributes\<close> catches is the port whose tag is empty, as the message printed
  there says.
\<close>

definition check_static_attribute :: "port \<Rightarrow> string \<Rightarrow> hval \<Rightarrow> error + int" where
  "check_static_attribute p name v =
     (case images p of
        None \<Rightarrow> Inl (KeyError (tag p))
      | Some fs \<Rightarrow>
          (case attrs p name of
             None \<Rightarrow> Inr 1
           | Some old \<Rightarrow> if old = v then Inr 0 else Inr (- 1)))"

text \<open>
  Modelled from the spec: \<open>OutputPort.add_attribute\<close> with \<open>static=True\<close>, the
  "create it" and "overwrite" of recordStatic: the value is recorded under the name.
\<close>

definition add_attribute :: "port \<Rightarrow> string \<Rightarrow> hval \<Rightarrow> port" where
  "add_attribute p name v = p\<lparr>attrs := (attrs p)(name \<mapsto> v)\<rparr>"

text \<open>
  Modelled from the spec: \<open>OutputPort.append_attribute_data\<close>, appendNonStatic:
  "always appends".
\<close>

definition append_attribute_data :: "port \<Rightarrow> string \<Rightarrow> hval \<Rightarrow> port" where
  "append_attribute_data p name v =
     p\<lparr>header_data := (header_data p)(name := header_data p name @ [v])\<rparr>"

text \<open>
  Modelled from the spec: \<open>OutputPort.del_all_data\<close> and
  \<open>OutputPort.del_all_attributes\<close>, "cleared of prior data": the frame stack is removed,
  and so are the static and the non-static attributes.
\<close>

definition del_all_data :: "port \<Rightarrow> port" where
  "del_all_data p = p\<lparr>images := None\<rparr>"

definition del_all_attributes :: "port \<Rightarrow> port" where
  "del_all_attributes p = p\<lparr>attrs := Map.empty, header_data := (\<lambda>name. [])\<rparr>"

text \<open>
  Modelled from the spec: \<open>OutputPort.flush\<close>, \<open>add_history\<close> and \<open>close_port\<close>:
  "flushed (persisted) after each source file", "closed with a provenance tag at run
  end".
\<close>

definition flush :: "port \<Rightarrow> port" where
  "flush p = p\<lparr>flushes := Suc (flushes p)\<rparr>"

definition add_history :: "port \<Rightarrow> string \<Rightarrow> string \<Rightarrow> port" where
  "add_history p name info = p\<lparr>history := history p @ [(name, info)]\<rparr>"

definition close_port :: "port \<Rightarrow> port" where
  "close_port p = p\<lparr>closed := True\<rparr>"

subsection \<open>The module and its state\<close>

text \<open>
  Modelled from the spec: \<open>get_attributes()\<close> (pynpoint.core.attributes) and the
  configuration port are not part of the source file: "a lookup table mapping each
  supported attribute name to either the literal instrument header key to read it from,
  or a sentinel meaning not applicable", and the pixel scale. \<open>m_attributes\<close> is the
  table of \<open>get_attributes()\<close> with the two fields the module reads, \<open>cfg_fitskey\<close> is
  \<open>_m_config_port.get_attribute\<close> on an attribute name (the sentinel is the string
  None) and \<open>cfg_pixscale\<close> its value for PIXSCALE. \<open>output_tag\<close> is \<open>self.output.tag\<close>:
  the class never assigns \<open>output\<close>, so it is \<open>None\<close> unless the base class provides
  it.
\<close>

record attr_info =
  attr_config :: string
  attr_attribute :: string

record near_module =
  m_im_dir :: string
  m_check :: hval
  m_overwrite :: hval
  m_scheme :: string
  m_static :: "string list"
  m_non_static :: "string list"
  m_attributes :: "(string \<times> attr_info) list"
  cfg_fitskey :: "string \<Rightarrow> string"
  cfg_pixscale :: hval
  output_tag :: "string option"

text \<open>
  The mutable part: the four output ports (a port is never \<open>None\<close>), the frame counter
  \<open>m_count\<close>, the messages written so far and the header ports \<open>fits_header/<file>\<close>
  with their lines.
\<close>

record state =
  m_image_out_port_1 :: port
  m_image_out_port_2 :: port
  m_image_out_port_3 :: port
  m_image_out_port_4 :: port
  m_count :: nat
  messages :: "message list"
  header_out :: "(string \<times> string list) list"

text \<open>\<open>__init__\<close>: the lists of static and non-static attribute names.\<close>

definition near_init ::
  "string \<Rightarrow> string \<Rightarrow> hval \<Rightarrow> hval \<Rightarrow> (string \<times> attr_info) list \<Rightarrow>
   (string \<Rightarrow> string) \<Rightarrow> hval \<Rightarrow> string option \<Rightarrow> near_module" where
  "near_init image_in_dir scheme check overwrite attributes fitskey pixscale otag =
     \<lparr>m_im_dir = image_in_dir, m_check = check, m_overwrite = overwrite, m_scheme = scheme,
      m_static = map fst (filter (\<lambda>(key, v). attr_config v = ''header'' \<and>
                                              attr_attribute v = ''static'') attributes),
      m_non_static = map fst (filter (\<lambda>(key, v). attr_attribute v = ''non-static'') attributes),
      m_attributes = attributes, cfg_fitskey = fitskey, cfg_pixscale = pixscale,
      output_tag = otag\<rparr>"

definition warn :: "message list \<Rightarrow> state \<Rightarrow> state" where
  "warn ws s = s\<lparr>messages := messages s @ ws\<rparr>"

subsection \<open>\<open>_initialize\<close>\<close>

fun check_tags :: "string list \<Rightarrow> string list \<Rightarrow> error + unit" where
  "check_tags seen [] = Inr ()"
| "check_tags seen (i # rest) =
     (if i \<in> set seen then Inl (ValueError ''Output ports should have different tags'')
      else check_tags (i # seen) rest)"

definition clear_port :: "port \<Rightarrow> port" where
  "clear_port p = del_all_attributes (del_all_data p)"

definition initialize :: "near_module \<Rightarrow> state \<Rightarrow> error + state" where
  "initialize m s =
     ebind (check_tags [] [tag (m_image_out_port_1 s), tag (m_image_out_port_2 s),
                           tag (m_image_out_port_3 s), tag (m_image_out_port_4 s)]) (\<lambda>u.
     if m_scheme m \<noteq> ''ABBA'' \<and> m_scheme m \<noteq> ''ABAB''
       then Inl (ValueError ''Scheme keyword should be set to ABBA or ABAB'')
     else if \<not> is_bool (m_check m)
       then Inl (ValueError ''Check port should be set to True or False'')
     else if \<not> is_bool (m_overwrite m)
       then Inl (ValueError ''Overwrite port should be set to True or False'')
     else Inr (s\<lparr>m_image_out_port_1 := clear_port (m_image_out_port_1 s),
                 m_image_out_port_2 := clear_port (m_image_out_port_2 s),
                 m_image_out_port_3 := clear_port (m_image_out_port_3 s),
                 m_image_out_port_4 := clear_port (m_image_out_port_4 s)\<rparr>))"

subsection \<open>\<open>_static_attributes\<close>\<close>

text \<open>
  The local variables of the method: the four flags \<open>a\<close>, \<open>b\<close>, \<open>c\<close>, \<open>d\<close> and
  \<open>status\<close>, which is unbound (\<open>None\<close>) until one of the four checks returns.
\<close>

record static_locals =
  flag_a :: nat
  flag_b :: nat
  flag_c :: nat
  flag_d :: nat
  status :: "int option"

text \<open>
  One \<open>try: status = port.check_static_attribute(item, value) except KeyError: ...\<close>:
  the result is the flag, the status and the messages to write.
\<close>

definition try_check ::
  "port \<Rightarrow> string \<Rightarrow> string \<Rightarrow> hval \<Rightarrow> bool \<Rightarrow> nat \<Rightarrow> int option \<Rightarrow>
   error + (nat \<times> int option \<times> message list)" where
  "try_check p nodpos item v is_last flag st =
     (case check_static_attribute p item v of
        Inr r \<Rightarrow> Inr (flag, Some r, [])
      | Inl e \<Rightarrow>
          (case e of
             KeyError k \<Rightarrow>
               if is_last \<and> flag = 0 then Inr (1, st, [StdoutTagEmpty (tag p) nodpos])
               else Inr (flag, st, [])
           | _ \<Rightarrow> Inl e))"

definition add_attribute_all :: "string \<Rightarrow> hval \<Rightarrow> state \<Rightarrow> state" where
  "add_attribute_all item v s =
     s\<lparr>m_image_out_port_1 := add_attribute (m_image_out_port_1 s) item v,
       m_image_out_port_2 := add_attribute (m_image_out_port_2 s) item v,
       m_image_out_port_3 := add_attribute (m_image_out_port_3 s) item v,
       m_image_out_port_4 := add_attribute (m_image_out_port_4 s) item v\<rparr>"

definition static_item ::
  "near_module \<Rightarrow> string \<Rightarrow> header \<Rightarrow> nat \<Rightarrow> nat \<Rightarrow> string \<Rightarrow>
   static_locals \<times> state \<Rightarrow> error + (static_locals \<times> state)" where
  "static_item m fits_file header iteration end_it item ls =
     (let l = fst ls; s = snd ls in
      if truthy (m_check m) then
        (let fitskey = cfg_fitskey m item in
         if fitskey \<noteq> ''None'' then
           if header_contains header fitskey then
             ebind (header_get header fitskey) (\<lambda>v.
             ebind (try_check (m_image_out_port_1 s) ''A'' item v (iteration = end_it)
                      (flag_a l) (status l)) (\<lambda>(a, st1, w1).
             ebind (try_check (m_image_out_port_2 s) ''A'' item v (iteration = end_it)
                      (flag_b l) st1) (\<lambda>(b, st2, w2).
             ebind (try_check (m_image_out_port_3 s) ''B'' item v (iteration = end_it)
                      (flag_c l) st2) (\<lambda>(c, st3, w3).
             ebind (try_check (m_image_out_port_4 s) ''B'' item v (iteration = end_it)
                      (flag_d l) st3) (\<lambda>(d, st4, w4).
             (let l' = \<lparr>flag_a = a, flag_b = b, flag_c = c, flag_d = d, status = st4\<rparr>;
                  s0 = warn (w1 @ w2 @ w3 @ w4) s
              in case st4 of
                   None \<Rightarrow> Inl (UnboundLocalError ''status'')
                 | Some st \<Rightarrow>
                     (let s1 = (if st = 1 then add_attribute_all item v s0 else s0) in
                      if st = - 1 then
                        (case output_tag m of
                           None \<Rightarrow> Inl (AttributeError ''output'')
                         | Some t \<Rightarrow> Inr (l', warn [WarnStaticChanged fitskey fits_file t] s1))
                      else Inr (l', s1))))))))
           else Inr (l, warn [WarnStaticNotFound item fitskey] s)
         else Inr (l, s))
      else Inr (l, s))"

fun static_loop ::
  "near_module \<Rightarrow> string \<Rightarrow> header \<Rightarrow> nat \<Rightarrow> nat \<Rightarrow> string list \<Rightarrow>
   static_locals \<times> state \<Rightarrow> error + (static_locals \<times> state)" where
  "static_loop m fits_file header iteration end_it [] ls = Inr ls"
| "static_loop m fits_file header iteration end_it (item # items) ls =
     ebind (static_item m fits_file header iteration end_it item ls)
           (static_loop m fits_file header iteration end_it items)"

definition static_attributes ::
  "near_module \<Rightarrow> string \<Rightarrow> header \<Rightarrow> nat \<Rightarrow> nat \<Rightarrow> state \<Rightarrow> error + state" where
  "static_attributes m fits_file header iteration end_it s =
     ebind (static_loop m fits_file header iteration end_it (m_static m)
              (\<lparr>flag_a = 0, flag_b = 0, flag_c = 0, flag_d = 0, status = None\<rparr>, s))
           (\<lambda>ls. Inr (snd ls))"

subsection \<open>\<open>_non_static_attributes\<close>\<close>

definition append_all :: "string \<Rightarrow> hval \<Rightarrow> state \<Rightarrow> state" where
  "append_all item v s =
     s\<lparr>m_image_out_port_1 := append_attribute_data (m_image_out_port_1 s) item v,
       m_image_out_port_2 := append_attribute_data (m_image_out_port_2 s) item v,
       m_image_out_port_3 := append_attribute_data (m_image_out_port_3 s) item v,
       m_image_out_port_4 := append_attribute_data (m_image_out_port_4 s) item v\<rparr>"

definition attributes_get :: "(string \<times> attr_info) list \<Rightarrow> string \<Rightarrow> error + attr_info" where
  "attributes_get al item =
     (case map_of al item of None \<Rightarrow> Inl (KeyError item) | Some info \<Rightarrow> Inr info)"

definition non_static_item :: "near_module \<Rightarrow> header \<Rightarrow> string \<Rightarrow> state \<Rightarrow> error + state" where
  "non_static_item m header item s =
     (if truthy (m_check m) then
        if header_contains header item then
          ebind (header_get header item) (\<lambda>v. Inr (append_all item v s))
        else
          ebind (attributes_get (m_attributes m) item) (\<lambda>info.
            if attr_config info = ''header'' then
              (let fitskey = cfg_fitskey m item in
               if fitskey \<noteq> ''None'' then
                 if header_contains header fitskey then
                   ebind (header_get header fitskey) (\<lambda>v. Inr (append_all item v s))
                 else Inr s
               else Inr s)
            else Inr s)
      else Inr s)"

fun non_static_loop :: "near_module \<Rightarrow> header \<Rightarrow> string list \<Rightarrow> state \<Rightarrow> error + state" where
  "non_static_loop m header [] s = Inr s"
| "non_static_loop m header (item # items) s =
     ebind (non_static_item m header item s) (non_static_loop m header items)"

definition non_static_attributes :: "near_module \<Rightarrow> header \<Rightarrow> state \<Rightarrow> error + state" where
  "non_static_attributes m header s = non_static_loop m header (m_non_static m) s"

subsection \<open>\<open>_extra_attributes\<close>\<close>

definition append_index :: "hval \<Rightarrow> state \<Rightarrow> nat \<Rightarrow> state" where
  "append_index nod s item =
     (if nod = HStr ''A'' then
        s\<lparr>m_image_out_port_1 :=
            append_attribute_data (m_image_out_port_1 s) ''INDEX'' (HInt (int item)),
          m_image_out_port_2 :=
            append_attribute_data (m_image_out_port_2 s) ''INDEX'' (HInt (int item))\<rparr>
      else if nod = HStr ''B'' then
        s\<lparr>m_image_out_port_3 :=
            append_attribute_data (m_image_out_port_3 s) ''INDEX'' (HInt (int item)),
          m_image_out_port_4 :=
            append_attribute_data (m_image_out_port_4 s) ''INDEX'' (HInt (int item))\<rparr>
      else s)"

definition extra_attributes ::
  "near_module \<Rightarrow> string \<Rightarrow> string \<Rightarrow> nat list \<Rightarrow> hval \<Rightarrow> state \<Rightarrow> error + state" where
  "extra_attributes m fits_file location shape nod s =
     (let pixscale = cfg_pixscale m in
      if length shape \<noteq> 2 \<and> length shape \<noteq> 3 then Inl (UnboundLocalError ''nimages'')
      else
        (let nimages = (if length shape = 2 then 1 else shape ! 0);
             index = [m_count s ..< m_count s + nimages];
             s1 = foldl (append_index nod) s index;
             s2 =
               (if nod = HStr ''A'' then
                  s1\<lparr>m_image_out_port_1 :=
                       add_attribute (append_attribute_data (m_image_out_port_1 s1) ''FILES''
                                        (HStr (location @ fits_file))) ''PIXSCALE'' pixscale,
                     m_image_out_port_2 :=
                       add_attribute (append_attribute_data (m_image_out_port_2 s1) ''FILES''
                                        (HStr (location @ fits_file))) ''PIXSCALE'' pixscale\<rparr>
                else if nod = HStr ''B'' then
                  s1\<lparr>m_image_out_port_3 :=
                       add_attribute (append_attribute_data (m_image_out_port_3 s1) ''FILES''
                                        (HStr (location @ fits_file))) ''PIXSCALE'' pixscale,
                     m_image_out_port_4 :=
                       add_attribute (append_attribute_data (m_image_out_port_4 s1) ''FILES''
                                        (HStr (location @ fits_file))) ''PIXSCALE'' pixscale\<rparr>
                else warn [WarnNodNotAB] s1)
         in Inr (s2\<lparr>m_count := m_count s2 + nimages\<rparr>)))"

subsection \<open>\<open>open_fit\<close>\<close>

text \<open>
  The file system maps a path to the HDU list that \<open>fits.open\<close> returns, \<open>None\<close> for a
  path that cannot be opened. The result of \<open>open_fit\<close> is the tuple of the source:
  chop A, chop B, nod, composite header, shape of the frame stack.
\<close>

type_synonym filesystem = "string \<Rightarrow> hdu list option"

type_synonym fit = "frame list \<times> frame list \<times> hval \<times> header \<times> nat list"

definition open_fit ::
  "near_module \<Rightarrow> filesystem \<Rightarrow> string \<Rightarrow> string \<Rightarrow> nat \<Rightarrow> state \<Rightarrow> error + (fit \<times> state)" where
  "open_fit m fs location image_file number s =
     (case fs (location @ image_file) of
        None \<Rightarrow> Inl (IOError (location @ image_file))
      | Some hdulist \<Rightarrow>
          if length hdulist < 2 then Inl IndexError
          else
            (let image = hdu_data (hdulist ! 1);
                 nimages = length hdulist - 2;
                 head = hdu_header (hdulist ! 0);
                 head_small = hdu_header (hdulist ! 1)
             in
             ebind (compose_header nimages head head_small) (\<lambda>header.
             (let nw = determine_nod (m_scheme m) header number in
             ebind (check_header header) (\<lambda>w1.
             (let h = shape0 image; w = shape1 image; frames = take nimages (tl hdulist) in
             ebind (load_images h w frames) (\<lambda>imgs.
             ebind (classify 0 (zip (map hdu_header frames) imgs)
                      \<lparr>chopa = replicate nimages (zeros h w), count_im_1 = 0,
                       chopb = replicate nimages (zeros h w), count_im_2 = 0,
                       chop_warn = []\<rparr>) (\<lambda>acc.
             ebind (trim h w (chopa acc)) (\<lambda>ca.
             ebind (trim h w (chopb acc)) (\<lambda>cb.
             (let w2 = (if length ca \<noteq> length cb then [WarnChopUnequal] else []) in
             ebind (dump_header header (map fst header)) (\<lambda>fits_header.
             (let s' = (warn (snd nw @ w1 @ chop_warn acc @ w2) s)
                         \<lparr>header_out := header_out s @
                                          [(''fits_header/'' @ image_file, fits_header)]\<rparr>
              in case fst nw of
                   None \<Rightarrow> Inl (UnboundLocalError ''nod'')
                 | Some nod \<Rightarrow> Inr ((ca, cb, nod, header, [nimages, h, w]), s'))))))))))))))"

subsection \<open>\<open>run\<close>\<close>

definition append_images :: "hval \<Rightarrow> frame list \<Rightarrow> frame list \<Rightarrow> state \<Rightarrow> state" where
  "append_images nod ca cb s =
     (let s1 = (if nod = HStr ''A'' then
                  s\<lparr>m_image_out_port_1 := port_append (m_image_out_port_1 s) ca,
                    m_image_out_port_2 := port_append (m_image_out_port_2 s) cb\<rparr>
                else s)
      in if nod = HStr ''B'' then
           s1\<lparr>m_image_out_port_3 := port_append (m_image_out_port_3 s1) ca,
              m_image_out_port_4 := port_append (m_image_out_port_4 s1) cb\<rparr>
         else s1)"

definition flush_ports :: "hval \<Rightarrow> state \<Rightarrow> state" where
  "flush_ports nod s =
     (let s1 = (if nod = HStr ''A'' then
                  s\<lparr>m_image_out_port_1 := flush (m_image_out_port_1 s),
                    m_image_out_port_2 := flush (m_image_out_port_2 s)\<rparr>
                else s)
      in if nod = HStr ''B'' then
           s1\<lparr>m_image_out_port_3 := flush (m_image_out_port_3 s1),
              m_image_out_port_4 := flush (m_image_out_port_4 s1)\<rparr>
         else s1)"

text \<open>The body of the loop over the files, for the file \<open>im\<close> at index \<open>i\<close>.\<close>

definition run_file ::
  "near_module \<Rightarrow> filesystem \<Rightarrow> string \<Rightarrow> nat \<Rightarrow> nat \<Rightarrow> string \<Rightarrow> state \<Rightarrow> error + state" where
  "run_file m fs location end_it i im s =
     ebind (open_fit m fs location im i s) (\<lambda>((ca, cb, nod, header, shape), s0).
     (let s1 = append_images nod ca cb s0 in
     ebind (static_attributes m im header i end_it s1) (\<lambda>s2.
     ebind (non_static_attributes m header s2) (\<lambda>s3.
     ebind (extra_attributes m im location shape nod s3) (\<lambda>s4.
       Inr (flush_ports nod s4))))))"

fun run_files ::
  "near_module \<Rightarrow> filesystem \<Rightarrow> string \<Rightarrow> nat \<Rightarrow> nat \<Rightarrow> string list \<Rightarrow> state \<Rightarrow>
   error + state" where
  "run_files m fs location end_it i [] s = Inr s"
| "run_files m fs location end_it i (im # rest) s =
     ebind (run_file m fs location end_it i im s)
           (run_files m fs location end_it (Suc i) rest)"

text \<open>\<open>os.path.join(m_im_dir, '')\<close> and \<open>filename.endswith('.fits')\<close>.\<close>

definition join_dir :: "string \<Rightarrow> string" where
  "join_dir d = (if d = [] \<or> last d = CHR ''/'' then d else d @ ''/'')"

definition endswith :: "string \<Rightarrow> string \<Rightarrow> bool" where
  "endswith s suf = (length suf \<le> length s \<and> drop (length s - length suf) s = suf)"

definition finish_port :: "string \<Rightarrow> port \<Rightarrow> port" where
  "finish_port info p = close_port (add_history p ''NearInitializationModule'' info)"

definition finish :: "state \<Rightarrow> state" where
  "finish s =
     s\<lparr>m_image_out_port_1 := finish_port ''Nod A, Chop A'' (m_image_out_port_1 s),
       m_image_out_port_2 := finish_port ''Nod A, Chop B'' (m_image_out_port_2 s),
       m_image_out_port_3 := finish_port ''Nod B, Chop A'' (m_image_out_port_3 s),
       m_image_out_port_4 := finish_port ''Nod B, Chop B'' (m_image_out_port_4 s)\<rparr>"

text \<open>
  \<open>run\<close>, with the names that \<open>os.listdir\<close> returns for the input directory once the
  compressed files are unpacked, and the file system.
\<close>

definition run :: "near_module \<Rightarrow> string list \<Rightarrow> filesystem \<Rightarrow> state \<Rightarrow> error + state" where
  "run m listing fs s =
     ebind (initialize m s) (\<lambda>s1.
     (let location = join_dir (m_im_dir m);
          files = sort (filter (\<lambda>filename. endswith filename ''.fits'') listing)
      in if files = [] then Inl (AssertionError ''No FITS files found'')
         else ebind (run_files m fs location (length files - 1) 0 files s1)
                    (\<lambda>s2. Inr (finish s2))))"

subsection \<open>Relations between states\<close>

text \<open>
  Two ports, and two states, that differ at most in the static attributes (and, for the
  states, in the messages); and the number of ports that can still write the "tag is
  empty" line \<open>StdoutTagEmpty t n\<close> in a call of \<open>_static_attributes\<close>.
\<close>

definition same_port :: "port \<Rightarrow> port \<Rightarrow> bool" where
  "same_port p p' \<longleftrightarrow>
     images p' = images p \<and> header_data p' = header_data p \<and> flushes p' = flushes p
     \<and> tag p' = tag p \<and> history p' = history p \<and> closed p' = closed p"

definition same_frame :: "state \<Rightarrow> state \<Rightarrow> bool" where
  "same_frame s s' \<longleftrightarrow>
     m_count s' = m_count s \<and> header_out s' = header_out s
     \<and> same_port (m_image_out_port_1 s) (m_image_out_port_1 s')
     \<and> same_port (m_image_out_port_2 s) (m_image_out_port_2 s')
     \<and> same_port (m_image_out_port_3 s) (m_image_out_port_3 s')
     \<and> same_port (m_image_out_port_4 s) (m_image_out_port_4 s')"

definition tag_budget :: "static_locals \<Rightarrow> state \<Rightarrow> string \<Rightarrow> string \<Rightarrow> nat" where
  "tag_budget l s t n =
     (if flag_a l = 0 \<and> tag (m_image_out_port_1 s) = t \<and> n = ''A'' then 1 else 0)
     + (if flag_b l = 0 \<and> tag (m_image_out_port_2 s) = t \<and> n = ''A'' then 1 else 0)
     + (if flag_c l = 0 \<and> tag (m_image_out_port_3 s) = t \<and> n = ''B'' then 1 else 0)
     + (if flag_d l = 0 \<and> tag (m_image_out_port_4 s) = t \<and> n = ''B'' then 1 else 0)"

text \<open>
  The values, none or one, that one round of the loop of \<open>_non_static_attributes\<close>
  appends for an attribute; and the number of frames of a file, \<open>len(hdulist) - 2\<close>.
\<close>

definition non_static_value :: "near_module \<Rightarrow> header \<Rightarrow> string \<Rightarrow> hval list" where
  "non_static_value m header item =
     (if truthy (m_check m) then
        if header_contains header item then
          (case header_get header item of Inr v \<Rightarrow> [v] | Inl e \<Rightarrow> [])
        else
          (case map_of (m_attributes m) item of
             None \<Rightarrow> []
           | Some info \<Rightarrow>
               if attr_config info = ''header'' \<and> cfg_fitskey m item \<noteq> ''None''
                  \<and> header_contains header (cfg_fitskey m item)
               then (case header_get header (cfg_fitskey m item) of Inr v \<Rightarrow> [v] | Inl e \<Rightarrow> [])
               else [])
      else [])"

definition nframes :: "filesystem \<Rightarrow> string \<Rightarrow> nat" where
  "nframes fs path = (case fs path of None \<Rightarrow> 0 | Some hdulist \<Rightarrow> length hdulist - 2)"

text \<open>Two states that differ at most in the non-static attributes of their ports.\<close>

definition same_static :: "state \<Rightarrow> state \<Rightarrow> bool" where
  "same_static s s' \<longleftrightarrow>
     m_count s' = m_count s \<and> messages s' = messages s \<and> header_out s' = header_out s
     \<and> images (m_image_out_port_1 s') = images (m_image_out_port_1 s)
     \<and> images (m_image_out_port_2 s') = images (m_image_out_port_2 s)
     \<and> images (m_image_out_port_3 s') = images (m_image_out_port_3 s)
     \<and> images (m_image_out_port_4 s') = images (m_image_out_port_4 s)
     \<and> attrs (m_image_out_port_1 s') = attrs (m_image_out_port_1 s)
     \<and> attrs (m_image_out_port_2 s') = attrs (m_image_out_port_2 s)
     \<and> attrs (m_image_out_port_3 s') = attrs (m_image_out_port_3 s)
     \<and> attrs (m_image_out_port_4 s') = attrs (m_image_out_port_4 s)
     \<and> flushes (m_image_out_port_1 s') = flushes (m_image_out_port_1 s)
     \<and> flushes (m_image_out_port_2 s') = flushes (m_image_out_port_2 s)
     \<and> flushes (m_image_out_port_3 s') = flushes (m_image_out_port_3 s)
     \<and> flushes (m_image_out_port_4 s') = flushes (m_image_out_port_4 s)"

subsection \<open>A small data set\<close>

text \<open>
  Five files with frames of one row and two columns, a configuration with one static
  attribute (INSTRUMENT, read from INSTRUME) and one non-static attribute (NDIT, read
  from ESO DET NDIT), and four ports that hold nothing yet.
\<close>

definition ex_port :: "string \<Rightarrow> port" where
  "ex_port t = \<lparr>tag = t, images = None, attrs = Map.empty, header_data = (\<lambda>name. []),
               flushes = 0, history = [], closed = False\<rparr>"

definition ex_state :: state where
  "ex_state =
     \<lparr>m_image_out_port_1 = ex_port ''noda_chopa'', m_image_out_port_2 = ex_port ''noda_chopb'',
      m_image_out_port_3 = ex_port ''nodb_chopa'', m_image_out_port_4 = ex_port ''nodb_chopb'',
      m_count = 0, messages = [], header_out = []\<rparr>"

text \<open>Four ports that hold a frame stack without frames, and no attribute.\<close>

definition ex_loaded :: state where
  "ex_loaded =
     ex_state\<lparr>m_image_out_port_1 := (ex_port ''noda_chopa'')\<lparr>images := Some []\<rparr>,
              m_image_out_port_2 := (ex_port ''noda_chopb'')\<lparr>images := Some []\<rparr>,
              m_image_out_port_3 := (ex_port ''nodb_chopa'')\<lparr>images := Some []\<rparr>,
              m_image_out_port_4 := (ex_port ''nodb_chopb'')\<lparr>images := Some []\<rparr>\<rparr>"

text \<open>Four ports left by an earlier run: one frame and attributes in each.\<close>

definition ex_prior_port :: "string \<Rightarrow> port" where
  "ex_prior_port t =
     \<lparr>tag = t, images = Some [[[1, 2]]], attrs = [''INSTRUMENT'' \<mapsto> HStr ''VISIR''],
      header_data = (\<lambda>name. if name = ''NDIT'' then [HInt 7] else []),
      flushes = 1, history = [], closed = True\<rparr>"

definition ex_prior :: state where
  "ex_prior =
     \<lparr>m_image_out_port_1 = ex_prior_port ''noda_chopa'',
      m_image_out_port_2 = ex_prior_port ''noda_chopb'',
      m_image_out_port_3 = ex_prior_port ''nodb_chopa'',
      m_image_out_port_4 = ex_prior_port ''nodb_chopb'',
      m_count = 0, messages = [], header_out = []\<rparr>"

definition ex_attributes :: "(string \<times> attr_info) list" where
  "ex_attributes =
     [(''INSTRUMENT'', \<lparr>attr_config = ''header'', attr_attribute = ''static''\<rparr>),
      (''NDIT'', \<lparr>attr_config = ''header'', attr_attribute = ''non-static''\<rparr>),
      (''INDEX'', \<lparr>attr_config = ''None'', attr_attribute = ''non-static''\<rparr>),
      (''FILES'', \<lparr>attr_config = ''None'', attr_attribute = ''non-static''\<rparr>),
      (''PIXSCALE'', \<lparr>attr_config = ''settings'', attr_attribute = ''static''\<rparr>)]"

definition ex_fitskey :: "string \<Rightarrow> string" where
  "ex_fitskey item =
     (if item = ''INSTRUMENT'' then ''INSTRUME''
      else if item = ''NDIT'' then ''ESO DET NDIT'' else ''None'')"

definition ex_module :: "hval \<Rightarrow> hval \<Rightarrow> near_module" where
  "ex_module check overwrite =
     near_init ''im_in'' ''ABBA'' check overwrite ex_attributes ex_fitskey (HInt 45)
       (Some ''out'')"

definition ex_head :: "header \<Rightarrow> header" where
  "ex_head cards =
     [(''SIMPLE'', HBool True), (''ESO DET CHOP ST'', HStr ''T''),
      (''ESO DET CHOP CYCSKIP'', HInt 0), (''ESO DET CHOP CYCSUM'', HStr ''F'')] @ cards"

definition ex_frame :: "string \<Rightarrow> int \<Rightarrow> hdu" where
  "ex_frame cycle p =
     \<lparr>hdu_header = [(''NAXIS1'', HInt 2), (''NAXIS2'', HInt 1),
                    (''ESO DET FRAM TYPE'', HStr cycle)],
      hdu_data = [[p, p + 1]]\<rparr>"

definition ex_file :: "header \<Rightarrow> (string \<times> int) list \<Rightarrow> hdu list" where
  "ex_file cards frames =
     \<lparr>hdu_header = ex_head cards, hdu_data = []\<rparr> #
     map (\<lambda>(cycle, p). ex_frame cycle p) frames @ [ex_frame ''AVERAGE'' 9]"

definition ex_fs :: filesystem where
  "ex_fs path =
     (if path = ''im_in/a.fits'' then
        Some (ex_file [(''INSTRUME'', HStr ''VISIR''), (''ESO DET NDIT'', HInt 7),
                       (''ESO SEQ NODPOS'', HStr ''A'')]
                      [(''HCYCLE1'', 1), (''HCYCLE1'', 3), (''OTHER'', 5)])
      else if path = ''im_in/b.fits'' then
        Some (ex_file [(''INSTRUME'', HStr ''VISIR''), (''ESO DET NDIT'', HInt 7)]
                      [(''HCYCLE1'', 0), (''HCYCLE2'', 3)])
      else if path = ''im_in/c.fits'' then
        Some (ex_file [(''INSTRUME'', HStr ''NACO''), (''ESO DET NDIT'', HInt 8),
                       (''ESO SEQ NODPOS'', HStr ''A'')]
                      [(''HCYCLE1'', 1), (''HCYCLE2'', 3)])
      else if path = ''im_in/d.fits'' then
        Some (ex_file [(''INSTRUME'', HStr ''VISIR''), (''ESO DET NDIT'', HInt 7),
                       (''ESO SEQ NODPOS'', HStr ''C'')]
                      [(''HCYCLE1'', 1), (''HCYCLE2'', 3)])
      else if path = ''im_in/e.fits'' then
        Some (ex_file [(''ESO DET NDIT'', HInt 7), (''ESO SEQ NODPOS'', HStr ''A'')]
                      [(''HCYCLE1'', 1), (''HCYCLE2'', 3)])
      else None)"

text \<open>
  A sequence of four files whose headers have no key ESO SEQ NODPOS, and the module of
  the data set with the nod scheme left open.
\<close>

definition ex_seq_module :: "string \<Rightarrow> near_module" where
  "ex_seq_module scheme =
     near_init ''im_in'' scheme (HBool True) (HBool True) ex_attributes ex_fitskey (HInt 45)
       (Some ''out'')"

definition ex_seq_fs :: filesystem where
  "ex_seq_fs path =
     (if path \<in> set [''im_in/n0.fits'', ''im_in/n1.fits'', ''im_in/n2.fits'', ''im_in/n3.fits'']
      then Some (ex_file [(''INSTRUME'', HStr ''VISIR''), (''ESO DET NDIT'', HInt 7)]
                         [(''HCYCLE1'', 1), (''HCYCLE2'', 3)])
      else None)"

section \<open>Properties\<close>

subsection \<open>Error propagation\<close>

lemma ebind_Inl [simp]: "ebind (Inl e) f = Inl e"
  by (simp add: ebind_def)

lemma ebind_Inr [simp]: "ebind (Inr x) f = f x"
  by (simp add: ebind_def)

lemma ebind_eq_Inr: "ebind r f = Inr y \<longleftrightarrow> (\<exists>x. r = Inr x \<and> f x = Inr y)"
  by (cases r) simp_all

subsection \<open>Configuration faults\<close>

lemma check_tags_Inr: "check_tags seen xs = Inr u \<longleftrightarrow> distinct xs \<and> set xs \<inter> set seen = {}"
  by (induction xs arbitrary: seen) auto

lemma check_tags_Inl:
  "check_tags seen xs = Inl e \<Longrightarrow> e = ValueError ''Output ports should have different tags''"
  by (induction xs arbitrary: seen) (auto split: if_splits)

lemma initialize_fault:
  assumes "\<not> distinct [tag (m_image_out_port_1 s), tag (m_image_out_port_2 s),
                        tag (m_image_out_port_3 s), tag (m_image_out_port_4 s)]
           \<or> (m_scheme m \<noteq> ''ABBA'' \<and> m_scheme m \<noteq> ''ABAB'')
           \<or> \<not> is_bool (m_check m) \<or> \<not> is_bool (m_overwrite m)"
  shows "\<exists>msg. initialize m s = Inl (ValueError msg)"
proof (cases "check_tags [] [tag (m_image_out_port_1 s), tag (m_image_out_port_2 s),
                             tag (m_image_out_port_3 s), tag (m_image_out_port_4 s)]")
  case (Inl e)
  then show ?thesis
    using check_tags_Inl [OF Inl] by (simp add: initialize_def)
next
  case (Inr u)
  then have "distinct [tag (m_image_out_port_1 s), tag (m_image_out_port_2 s),
                       tag (m_image_out_port_3 s), tag (m_image_out_port_4 s)]"
    using check_tags_Inr by blast
  with assms Inr show ?thesis
    by (auto simp: initialize_def)
qed

text \<open>
  C9. Two equal output tags, a scheme other than ABBA and ABAB, or a check or overwrite
  flag that is not a boolean make \<open>run\<close> raise a ValueError that depends neither on the
  directory listing nor on the content of any file: it is raised before a file is read.
  A listing without a name ending in \<open>.fits\<close> makes \<open>run\<close> raise whatever the files
  hold, and the error is the failed assertion once the configuration is accepted.
\<close>

theorem config_faults_abort_before_reading:
  "((\<not> distinct [tag (m_image_out_port_1 s), tag (m_image_out_port_2 s),
                  tag (m_image_out_port_3 s), tag (m_image_out_port_4 s)]
     \<or> (m_scheme m \<noteq> ''ABBA'' \<and> m_scheme m \<noteq> ''ABAB'')
     \<or> \<not> is_bool (m_check m) \<or> \<not> is_bool (m_overwrite m))
    \<longrightarrow> (\<exists>msg. \<forall>listing fs. run m listing fs s = Inl (ValueError msg)))
   \<and> (filter (\<lambda>filename. endswith filename ''.fits'') listing = []
    \<longrightarrow> (\<exists>e. \<forall>fs. run m listing fs s = Inl e)
        \<and> (\<forall>s1 fs. initialize m s = Inr s1
              \<longrightarrow> run m listing fs s = Inl (AssertionError ''No FITS files found'')))"
proof (intro conjI impI)
  assume "\<not> distinct [tag (m_image_out_port_1 s), tag (m_image_out_port_2 s),
                       tag (m_image_out_port_3 s), tag (m_image_out_port_4 s)]
     \<or> (m_scheme m \<noteq> ''ABBA'' \<and> m_scheme m \<noteq> ''ABAB'')
     \<or> \<not> is_bool (m_check m) \<or> \<not> is_bool (m_overwrite m)"
  then obtain msg where "initialize m s = Inl (ValueError msg)"
    using initialize_fault by blast
  then have "\<forall>listing fs. run m listing fs s = Inl (ValueError msg)"
    by (simp add: run_def)
  then show "\<exists>msg. \<forall>listing fs. run m listing fs s = Inl (ValueError msg)" ..
next
  assume nofits: "filter (\<lambda>filename. endswith filename ''.fits'') listing = []"
  show "\<exists>e. \<forall>fs. run m listing fs s = Inl e"
    by (cases "initialize m s") (simp_all add: run_def nofits)
  show "\<forall>s1 fs. initialize m s = Inr s1
          \<longrightarrow> run m listing fs s = Inl (AssertionError ''No FITS files found'')"
    by (simp add: run_def nofits)
qed

theorem config_faults_abort_before_reading_witness:
  "(\<exists>msg. \<forall>listing fs.
      run ((ex_module (HBool True) (HBool True))\<lparr>m_scheme := ''AABB''\<rparr>) listing fs ex_state
        = Inl (ValueError msg))
   \<and> (\<forall>fs. run (ex_module (HBool True) (HBool True)) [''notes.txt'', ''a.fits.Z''] fs ex_state
            = Inl (AssertionError ''No FITS files found''))"
proof -
  have a: "m_scheme ((ex_module (HBool True) (HBool True))\<lparr>m_scheme := ''AABB''\<rparr>) \<noteq> ''ABBA''
         \<and> m_scheme ((ex_module (HBool True) (HBool True))\<lparr>m_scheme := ''AABB''\<rparr>) \<noteq> ''ABAB''"
    by simp
  have b: "filter (\<lambda>filename. endswith filename ''.fits'') [''notes.txt'', ''a.fits.Z''] = []"
    by (simp add: endswith_def)
  obtain s1 where c: "initialize (ex_module (HBool True) (HBool True)) ex_state = Inr s1"
    by (simp add: initialize_def ex_module_def near_init_def ex_state_def ex_port_def)
  from a b c
    config_faults_abort_before_reading
      [of ex_state "(ex_module (HBool True) (HBool True))\<lparr>m_scheme := ''AABB''\<rparr>"
          "[''notes.txt'', ''a.fits.Z'']"]
    config_faults_abort_before_reading
      [of ex_state "ex_module (HBool True) (HBool True)" "[''notes.txt'', ''a.fits.Z'']"]
  show ?thesis by blast
qed

subsection \<open>The overwrite flag\<close>

text \<open>
  C7. The claim: the four streams are cleared before the run if and only if the
  overwrite flag is True. The code at the input of the claim's other half: with
  \<open>overwrite = False\<close> and four ports that hold a frame, a static and a non-static
  attribute, \<open>_initialize\<close> returns normally and has removed all three from the ports.
\<close>

theorem overwrite_false_still_clears:
  "is_bool (m_overwrite (ex_module (HBool True) (HBool False)))
   \<and> \<not> truthy (m_overwrite (ex_module (HBool True) (HBool False)))
   \<and> images (m_image_out_port_1 ex_prior) = Some [[[1, 2]]]
   \<and> attrs (m_image_out_port_1 ex_prior) ''INSTRUMENT'' = Some (HStr ''VISIR'')
   \<and> header_data (m_image_out_port_1 ex_prior) ''NDIT'' = [HInt 7]
   \<and> (case initialize (ex_module (HBool True) (HBool False)) ex_prior of
         Inl e \<Rightarrow> False
       | Inr s \<Rightarrow> images (m_image_out_port_1 s) = None
                 \<and> attrs (m_image_out_port_1 s) ''INSTRUMENT'' = None
                 \<and> header_data (m_image_out_port_1 s) ''NDIT'' = []
                 \<and> images (m_image_out_port_4 s) = None
                 \<and> attrs (m_image_out_port_4 s) ''INSTRUMENT'' = None
                 \<and> header_data (m_image_out_port_4 s) ''NDIT'' = [])"
  by code_simp

subsection \<open>Trimming the chop buffers\<close>

text \<open>
  C3. The claim: every frame tagged HCYCLE1 is retained in chop A, and only the slots
  never written are excluded. The code on the file \<open>b.fits\<close>, whose first frame is
  tagged HCYCLE1 and has the pixels 0 and 1: the frame is written to the chop A buffer
  and then removed with the unwritten slots, so chop A is returned empty.
\<close>

theorem zero_first_pixel_frame_is_trimmed:
  "map (\<lambda>h. (header_get (hdu_header h) ''HIERARCH ESO DET FRAM TYPE'', hdu_data h))
       (take 2 (tl (the (ex_fs ''im_in/b.fits''))))
     = [(Inr (HStr ''HCYCLE1''), [[0, 1]]), (Inr (HStr ''HCYCLE2''), [[3, 4]])]
   \<and> (case open_fit (ex_module (HBool True) (HBool True)) ex_fs ''im_in/'' ''b.fits'' 1
              ex_state of
         Inl e \<Rightarrow> False
       | Inr (r, s) \<Rightarrow> fst r = [] \<and> fst (snd r) = [[[3, 4]]]
                      \<and> messages s = [WarnChopUnequal])"
  by code_simp

subsection \<open>A static attribute that changes\<close>

text \<open>
  C5. The claim: a later file with a different value of a static attribute gives one
  warning and the later value is retained. The code on the files \<open>a.fits\<close> and
  \<open>c.fits\<close>, both of nod A, with INSTRUME VISIR and then NACO: the warning
  "Attribute value is updated" is written once, and the ports of nod A still hold VISIR.
\<close>

theorem changed_static_value_is_not_updated:
  "(case run_files (ex_module (HBool True) (HBool True)) ex_fs ''im_in/'' 1 0
           [''a.fits'', ''c.fits''] ex_state of
      Inl e \<Rightarrow> False
    | Inr s \<Rightarrow>
        attrs (m_image_out_port_1 s) ''INSTRUMENT'' = Some (HStr ''VISIR'')
        \<and> attrs (m_image_out_port_2 s) ''INSTRUMENT'' = Some (HStr ''VISIR'')
        \<and> count_list (messages s) (WarnStaticChanged ''INSTRUME'' ''c.fits'' ''out'') = 1)
   \<and> map_of (hdu_header (hd (the (ex_fs ''im_in/c.fits'')))) ''INSTRUME''
       = Some (HStr ''NACO'')"
  by code_simp

subsection \<open>The check flag\<close>

lemma static_loop_lenient:
  "\<not> truthy (m_check m) \<Longrightarrow> static_loop m fits_file header iteration end_it items ls = Inr ls"
  by (induction items) (simp_all add: static_item_def)

lemma non_static_loop_lenient:
  "\<not> truthy (m_check m) \<Longrightarrow> non_static_loop m header items s = Inr s"
  by (induction items) (simp_all add: non_static_item_def)

text \<open>
  C6, as stated, fails: with \<open>check = False\<close> the loop body on \<open>a.fits\<close>, whose header
  has the keys of both configured attributes, records neither INSTRUMENT nor NDIT, while
  with \<open>check = True\<close> it records both.
\<close>

theorem lenient_validates_no_key:
  "m_static (ex_module (HBool False) (HBool True)) = [''INSTRUMENT'']
   \<and> m_non_static (ex_module (HBool False) (HBool True)) = [''NDIT'', ''INDEX'', ''FILES'']
   \<and> (case run_file (ex_module (HBool False) (HBool True)) ex_fs ''im_in/'' 0 0 ''a.fits''
              ex_state of
         Inl e \<Rightarrow> False
       | Inr s \<Rightarrow> attrs (m_image_out_port_1 s) ''INSTRUMENT'' = None
                 \<and> header_data (m_image_out_port_1 s) ''NDIT'' = []
                 \<and> images (m_image_out_port_1 s) = Some [[[1, 2]], [[3, 4]]])
   \<and> (case run_file (ex_module (HBool True) (HBool True)) ex_fs ''im_in/'' 0 0 ''a.fits''
              ex_state of
         Inl e \<Rightarrow> False
       | Inr s \<Rightarrow> attrs (m_image_out_port_1 s) ''INSTRUMENT'' = Some (HStr ''VISIR'')
                 \<and> header_data (m_image_out_port_1 s) ''NDIT'' = [HInt 7])"
  by code_simp

text \<open>
  C6, amended. When the check flag is false, \<open>_static_attributes\<close> and
  \<open>_non_static_attributes\<close> return the state they were given, for every header and
  every configured list: no key is looked up, no attribute is written and no message
  is emitted.
\<close>

theorem lenient_skips_attributes:
  "\<not> truthy (m_check m) \<Longrightarrow>
     static_attributes m fits_file header iteration end_it s = Inr s
     \<and> non_static_attributes m header s = Inr s"
  by (simp add: static_attributes_def non_static_attributes_def static_loop_lenient
        non_static_loop_lenient)

theorem lenient_skips_attributes_witness:
  "\<not> truthy (m_check (ex_module (HBool False) (HBool True)))
   \<and> static_attributes (ex_module (HBool False) (HBool True)) ''a.fits''
        (ex_head [(''INSTRUME'', HStr ''VISIR'')]) 0 0 ex_loaded = Inr ex_loaded
   \<and> non_static_attributes (ex_module (HBool False) (HBool True))
        (ex_head [(''INSTRUME'', HStr ''VISIR'')]) ex_loaded = Inr ex_loaded"
proof -
  have a: "\<not> truthy (m_check (ex_module (HBool False) (HBool True)))"
    by (simp add: ex_module_def near_init_def)
  from a lenient_skips_attributes [OF a] show ?thesis by simp
qed

subsection \<open>What \<open>open_fit\<close> returns\<close>

lemma header_get_absent: "\<not> header_contains h k \<Longrightarrow> header_get h k = Inl (KeyError k)"
  by (simp add: header_contains_def header_get_def)

lemma determine_nod_fallback:
  assumes "\<not> header_contains header ''ESO SEQ NODPOS''"
  shows "determine_nod ''ABBA'' header number =
           (Some (if number mod 4 = 0 \<or> number mod 4 = 3 then HStr ''A'' else HStr ''B''),
            if number = 0 then [WarnNodposMissing ''ABBA''] else [])"
    and "determine_nod ''ABAB'' header number =
           (Some (if number mod 2 = 0 then HStr ''A'' else HStr ''B''),
            if number = 0 then [WarnNodposMissing ''ABAB''] else [])"
    and "snd (determine_nod scheme header number) =
           (if number = 0 then [WarnNodposMissing scheme] else [])"
proof -
  have m4: "number mod 4 = 0 \<or> number mod 4 = 1 \<or> number mod 4 = 2 \<or> number mod 4 = 3"
    by arith
  show "determine_nod ''ABBA'' header number =
           (Some (if number mod 4 = 0 \<or> number mod 4 = 3 then HStr ''A'' else HStr ''B''),
            if number = 0 then [WarnNodposMissing ''ABBA''] else [])"
    using m4 by (auto simp: determine_nod_def header_get_absent [OF assms] Let_def)
  show "determine_nod ''ABAB'' header number =
           (Some (if number mod 2 = 0 then HStr ''A'' else HStr ''B''),
            if number = 0 then [WarnNodposMissing ''ABAB''] else [])"
    by (auto simp: determine_nod_def header_get_absent [OF assms] Let_def)
  show "snd (determine_nod scheme header number) =
           (if number = 0 then [WarnNodposMissing scheme] else [])"
    by (simp add: determine_nod_def header_get_absent [OF assms] Let_def)
qed

lemma check_header_messages:
  "check_header h = Inr ws \<Longrightarrow> WarnNodposMissing x \<notin> set ws"
  by (auto simp: check_header_def ebind_eq_Inr Let_def split: if_splits)

lemma classify_messages:
  "classify i xs acc = Inr acc' \<Longrightarrow>
     \<exists>ws. chop_warn acc' = chop_warn acc @ ws \<and> (\<forall>w \<in> set ws. \<exists>j. w = WarnChopNotFound j)"
proof (induction xs arbitrary: i acc)
  case Nil
  then show ?case by simp
next
  case (Cons x xs)
  obtain hs im where x: "x = (hs, im)" by (cases x)
  from Cons.prems have
    "(\<exists>buf. classify (Suc i) xs (acc\<lparr>chopa := buf, count_im_1 := Suc (count_im_1 acc)\<rparr>) = Inr acc')
     \<or> (\<exists>buf. classify (Suc i) xs (acc\<lparr>chopb := buf, count_im_2 := Suc (count_im_2 acc)\<rparr>) = Inr acc')
     \<or> classify (Suc i) xs (acc\<lparr>chop_warn := chop_warn acc @ [WarnChopNotFound i]\<rparr>) = Inr acc'"
    by (auto simp: x ebind_eq_Inr split: if_splits)
  then show ?case
  proof (elim disjE exE)
    fix buf
    assume "classify (Suc i) xs (acc\<lparr>chopa := buf, count_im_1 := Suc (count_im_1 acc)\<rparr>) = Inr acc'"
    from Cons.IH [OF this] show ?thesis by simp
  next
    fix buf
    assume "classify (Suc i) xs (acc\<lparr>chopb := buf, count_im_2 := Suc (count_im_2 acc)\<rparr>) = Inr acc'"
    from Cons.IH [OF this] show ?thesis by simp
  next
    assume "classify (Suc i) xs (acc\<lparr>chop_warn := chop_warn acc @ [WarnChopNotFound i]\<rparr>) = Inr acc'"
    from Cons.IH [OF this] obtain ws where
      ws: "chop_warn acc' = (chop_warn acc @ [WarnChopNotFound i]) @ ws"
          "\<forall>w \<in> set ws. \<exists>j. w = WarnChopNotFound j"
      by auto
    have "chop_warn acc' = chop_warn acc @ (WarnChopNotFound i # ws)"
      using ws(1) by simp
    moreover have "\<forall>w \<in> set (WarnChopNotFound i # ws). \<exists>j. w = WarnChopNotFound j"
      using ws(2) by simp
    ultimately show ?thesis by blast
  qed
qed


lemma open_fit_Inr:
  assumes "open_fit m fs location image_file number s = Inr ((ca, cb, nod, header, shape), s')"
  shows "\<exists>hdulist wn w1 imgs acc.
    fs (location @ image_file) = Some hdulist
    \<and> 2 \<le> length hdulist
    \<and> compose_header (length hdulist - 2) (hdu_header (hdulist ! 0)) (hdu_header (hdulist ! 1))
       = Inr header
    \<and> determine_nod (m_scheme m) header number = (Some nod, wn)
    \<and> check_header header = Inr w1
    \<and> load_images (shape0 (hdu_data (hdulist ! 1))) (shape1 (hdu_data (hdulist ! 1)))
       (take (length hdulist - 2) (tl hdulist)) = Inr imgs
    \<and> classify 0 (zip (map hdu_header (take (length hdulist - 2) (tl hdulist))) imgs)
       \<lparr>chopa = replicate (length hdulist - 2)
                  (zeros (shape0 (hdu_data (hdulist ! 1))) (shape1 (hdu_data (hdulist ! 1)))),
        count_im_1 = 0,
        chopb = replicate (length hdulist - 2)
                  (zeros (shape0 (hdu_data (hdulist ! 1))) (shape1 (hdu_data (hdulist ! 1)))),
        count_im_2 = 0, chop_warn = []\<rparr> = Inr acc
    \<and> trim (shape0 (hdu_data (hdulist ! 1))) (shape1 (hdu_data (hdulist ! 1))) (chopa acc) = Inr ca
    \<and> trim (shape0 (hdu_data (hdulist ! 1))) (shape1 (hdu_data (hdulist ! 1))) (chopb acc) = Inr cb
    \<and> shape = [length hdulist - 2, shape0 (hdu_data (hdulist ! 1)), shape1 (hdu_data (hdulist ! 1))]
    \<and> messages s' = messages s @ wn @ w1 @ chop_warn acc @
                 (if length ca \<noteq> length cb then [WarnChopUnequal] else [])
    \<and> m_count s' = m_count s
    \<and> m_image_out_port_1 s' = m_image_out_port_1 s
    \<and> m_image_out_port_2 s' = m_image_out_port_2 s
    \<and> m_image_out_port_3 s' = m_image_out_port_3 s
    \<and> m_image_out_port_4 s' = m_image_out_port_4 s"
  using assms
  apply (simp add: open_fit_def split: option.splits if_splits)
  apply (simp add: Let_def ebind_eq_Inr split: option.splits prod.splits)
  apply (elim exE conjE)
  apply (cases "determine_nod (m_scheme m) header number")
  apply (auto simp: warn_def)
  done


lemma open_fit_nod:
  assumes "open_fit m fs location image_file number s = Inr ((ca, cb, nod, header, shape), s')"
  shows "fst (determine_nod (m_scheme m) header number) = Some nod"
  using open_fit_Inr [OF assms] by (elim exE conjE) simp

lemma open_fit_frame:
  assumes "open_fit m fs location image_file number s = Inr ((ca, cb, nod, header, shape), s')"
  shows "m_count s' = m_count s"
    and "m_image_out_port_1 s' = m_image_out_port_1 s"
    and "m_image_out_port_2 s' = m_image_out_port_2 s"
    and "m_image_out_port_3 s' = m_image_out_port_3 s"
    and "m_image_out_port_4 s' = m_image_out_port_4 s"
  using open_fit_Inr [OF assms] by (elim exE conjE, simp)+

lemma open_fit_shape:
  assumes "open_fit m fs location image_file number s = Inr ((ca, cb, nod, header, shape), s')"
  shows "\<exists>hdulist. fs (location @ image_file) = Some hdulist \<and> 2 \<le> length hdulist
           \<and> shape = [length hdulist - 2, shape0 (hdu_data (hdulist ! 1)),
                       shape1 (hdu_data (hdulist ! 1))]"
  using open_fit_Inr [OF assms] by (elim exE conjE) simp

lemma open_fit_messages:
  assumes "open_fit m fs location image_file number s = Inr ((ca, cb, nod, header, shape), s')"
  shows "\<exists>w1 ws. check_header header = Inr w1
           \<and> messages s' = messages s @ snd (determine_nod (m_scheme m) header number) @ w1 @ ws
           \<and> (\<forall>w \<in> set ws. (\<exists>j. w = WarnChopNotFound j) \<or> w = WarnChopUnequal)"
proof -
  from open_fit_Inr [OF assms] show ?thesis
  proof (elim exE conjE)
    fix hdulist wn w1 imgs acc
    assume nod: "determine_nod (m_scheme m) header number = (Some nod, wn)"
      and chk: "check_header header = Inr w1"
      and cls: "classify 0 (zip (map hdu_header (take (length hdulist - 2) (tl hdulist))) imgs)
       \<lparr>chopa = replicate (length hdulist - 2)
                  (zeros (shape0 (hdu_data (hdulist ! 1))) (shape1 (hdu_data (hdulist ! 1)))),
        count_im_1 = 0,
        chopb = replicate (length hdulist - 2)
                  (zeros (shape0 (hdu_data (hdulist ! 1))) (shape1 (hdu_data (hdulist ! 1)))),
        count_im_2 = 0, chop_warn = []\<rparr> = Inr acc"
      and msgs: "messages s' = messages s @ wn @ w1 @ chop_warn acc @
                 (if length ca \<noteq> length cb then [WarnChopUnequal] else [])"
    from classify_messages [OF cls]
    have c: "\<forall>w \<in> set (chop_warn acc). \<exists>j. w = WarnChopNotFound j"
      by auto
    let ?ws = "chop_warn acc @ (if length ca \<noteq> length cb then [WarnChopUnequal] else [])"
    have "messages s' = messages s @ snd (determine_nod (m_scheme m) header number) @ w1 @ ?ws"
      using msgs nod by simp
    moreover have "\<forall>w \<in> set ?ws. (\<exists>j. w = WarnChopNotFound j) \<or> w = WarnChopUnequal"
      using c by auto
    ultimately show ?thesis using chk by blast
  qed
qed


subsection \<open>\<open>_static_attributes\<close>: frame, messages, writes\<close>

lemma try_check_empty:
  "images p = None \<Longrightarrow>
     try_check p n item v lst flag st =
       Inr (if lst \<and> flag = 0 then (1, st, [StdoutTagEmpty (tag p) n]) else (flag, st, []))"
  by (simp add: try_check_def check_static_attribute_def)

lemma try_check_loaded:
  "images p = Some fs \<Longrightarrow>
     try_check p n item v lst flag st =
       Inr (flag, Some (case attrs p item of None \<Rightarrow> 1 | Some old \<Rightarrow> if old = v then 0 else - 1), [])"
  by (simp add: try_check_def check_static_attribute_def split: option.splits)

lemma try_check_Inr:
  "\<exists>flag' st' w. try_check p n item v lst flag st = Inr (flag', st', w)"
  by (cases "images p") (simp_all add: try_check_empty try_check_loaded)

lemma header_contains_get: "header_contains h k \<Longrightarrow> \<exists>v. header_get h k = Inr v"
  by (auto simp: header_contains_def header_get_def)

text \<open>The body of the loop once the four checks have returned.\<close>

lemma static_item_checked:
  assumes "truthy (m_check m)" and "cfg_fitskey m item \<noteq> ''None''"
    and "header_contains h (cfg_fitskey m item)"
    and "header_get h (cfg_fitskey m item) = Inr v"
    and "try_check (m_image_out_port_1 s) ''A'' item v (it = e) (flag_a l) (status l) = Inr (a, st1, w1)"
    and "try_check (m_image_out_port_2 s) ''A'' item v (it = e) (flag_b l) st1 = Inr (b, st2, w2)"
    and "try_check (m_image_out_port_3 s) ''B'' item v (it = e) (flag_c l) st2 = Inr (c, st3, w3)"
    and "try_check (m_image_out_port_4 s) ''B'' item v (it = e) (flag_d l) st3 = Inr (d, st4, w4)"
  shows "static_item m f h it e item (l, s) =
     (case st4 of
        None \<Rightarrow> Inl (UnboundLocalError ''status'')
      | Some st \<Rightarrow>
          if st = - 1 then
            (case output_tag m of
               None \<Rightarrow> Inl (AttributeError ''output'')
             | Some t \<Rightarrow> Inr (\<lparr>flag_a = a, flag_b = b, flag_c = c, flag_d = d, status = st4\<rparr>,
                              warn [WarnStaticChanged (cfg_fitskey m item) f t]
                                (warn (w1 @ w2 @ w3 @ w4) s)))
          else Inr (\<lparr>flag_a = a, flag_b = b, flag_c = c, flag_d = d, status = st4\<rparr>,
                    if st = 1 then add_attribute_all item v (warn (w1 @ w2 @ w3 @ w4) s)
                    else warn (w1 @ w2 @ w3 @ w4) s))"
  using assms by (simp add: static_item_def Let_def split: option.splits)

lemma same_port_refl [simp]: "same_port p p"
  by (simp add: same_port_def)

lemma same_port_add_attribute [simp]: "same_port p (add_attribute q n v) = same_port p q"
  by (simp add: same_port_def add_attribute_def)

lemma same_frame_refl [simp]: "same_frame s s"
  by (simp add: same_frame_def)

lemma same_frame_warn [simp]: "same_frame s (warn ws t) = same_frame s t"
  by (simp add: same_frame_def warn_def)

lemma same_frame_add_all [simp]: "same_frame s (add_attribute_all item v t) = same_frame s t"
  by (simp add: same_frame_def add_attribute_all_def)

lemma same_frame_trans: "same_frame s s1 \<Longrightarrow> same_frame s1 s2 \<Longrightarrow> same_frame s s2"
  by (simp add: same_frame_def same_port_def)

lemma warn_fields [simp]:
  "messages (warn ws s) = messages s @ ws"
  "m_count (warn ws s) = m_count s"
  "header_out (warn ws s) = header_out s"
  "m_image_out_port_1 (warn ws s) = m_image_out_port_1 s"
  "m_image_out_port_2 (warn ws s) = m_image_out_port_2 s"
  "m_image_out_port_3 (warn ws s) = m_image_out_port_3 s"
  "m_image_out_port_4 (warn ws s) = m_image_out_port_4 s"
  by (simp_all add: warn_def)

lemma add_attribute_all_fields [simp]:
  "messages (add_attribute_all item v s) = messages s"
  "m_count (add_attribute_all item v s) = m_count s"
  "attrs (m_image_out_port_1 (add_attribute_all item v s)) = (attrs (m_image_out_port_1 s))(item \<mapsto> v)"
  "attrs (m_image_out_port_2 (add_attribute_all item v s)) = (attrs (m_image_out_port_2 s))(item \<mapsto> v)"
  "attrs (m_image_out_port_3 (add_attribute_all item v s)) = (attrs (m_image_out_port_3 s))(item \<mapsto> v)"
  "attrs (m_image_out_port_4 (add_attribute_all item v s)) = (attrs (m_image_out_port_4 s))(item \<mapsto> v)"
  by (simp_all add: add_attribute_all_def add_attribute_def)

text \<open>
  What one round of the loop of \<open>_static_attributes\<close> does when it returns: nothing, the
  warning for a key that the header lacks, or the four checks and then at most a write
  to all four ports and at most the warning for a changed value.
\<close>

lemma static_item_Inr:
  assumes "static_item m f h it e item (l, s) = Inr (l', s')"
  shows "(\<not> (truthy (m_check m) \<and> cfg_fitskey m item \<noteq> ''None'') \<and> l' = l \<and> s' = s)
       \<or> (truthy (m_check m) \<and> cfg_fitskey m item \<noteq> ''None''
            \<and> \<not> header_contains h (cfg_fitskey m item) \<and> l' = l
            \<and> s' = warn [WarnStaticNotFound item (cfg_fitskey m item)] s)
       \<or> (\<exists>v a st1 w1 b st2 w2 c st3 w3 d st w4 wc.
            truthy (m_check m) \<and> cfg_fitskey m item \<noteq> ''None''
            \<and> header_get h (cfg_fitskey m item) = Inr v
            \<and> try_check (m_image_out_port_1 s) ''A'' item v (it = e) (flag_a l) (status l)
                 = Inr (a, st1, w1)
            \<and> try_check (m_image_out_port_2 s) ''A'' item v (it = e) (flag_b l) st1
                 = Inr (b, st2, w2)
            \<and> try_check (m_image_out_port_3 s) ''B'' item v (it = e) (flag_c l) st2
                 = Inr (c, st3, w3)
            \<and> try_check (m_image_out_port_4 s) ''B'' item v (it = e) (flag_d l) st3
                 = Inr (d, Some st, w4)
            \<and> l' = \<lparr>flag_a = a, flag_b = b, flag_c = c, flag_d = d, status = Some st\<rparr>
            \<and> (\<forall>x \<in> set wc. (\<exists>t. x = WarnStaticChanged (cfg_fitskey m item) f t) \<and> st = - 1)
            \<and> s' = warn wc ((if st = 1 then add_attribute_all item v else (\<lambda>x. x))
                              (warn (w1 @ w2 @ w3 @ w4) s)))"
proof (cases "truthy (m_check m) \<and> cfg_fitskey m item \<noteq> ''None''
              \<and> header_contains h (cfg_fitskey m item)")
  case False
  with assms show ?thesis
    by (auto simp: static_item_def Let_def split: if_splits)
next
  case True
  then obtain v where v: "header_get h (cfg_fitskey m item) = Inr v"
    using header_contains_get by blast
  obtain a st1 w1 where t1:
    "try_check (m_image_out_port_1 s) ''A'' item v (it = e) (flag_a l) (status l) = Inr (a, st1, w1)"
    using try_check_Inr by blast
  obtain b st2 w2 where t2:
    "try_check (m_image_out_port_2 s) ''A'' item v (it = e) (flag_b l) st1 = Inr (b, st2, w2)"
    using try_check_Inr by blast
  obtain c st3 w3 where t3:
    "try_check (m_image_out_port_3 s) ''B'' item v (it = e) (flag_c l) st2 = Inr (c, st3, w3)"
    using try_check_Inr by blast
  obtain d st4 w4 where t4:
    "try_check (m_image_out_port_4 s) ''B'' item v (it = e) (flag_d l) st3 = Inr (d, st4, w4)"
    using try_check_Inr by blast
  from True have tr: "truthy (m_check m)" "cfg_fitskey m item \<noteq> ''None''"
    "header_contains h (cfg_fitskey m item)" by simp_all
  note eq = static_item_checked [OF tr v t1 t2 t3 t4, of f]
  from assms obtain st where st4: "st4 = Some st"
    unfolding eq by (cases st4) simp_all
  let ?s0 = "(if st = 1 then add_attribute_all item v else (\<lambda>x. x)) (warn (w1 @ w2 @ w3 @ w4) s)"
  from assms have l': "l' = \<lparr>flag_a = a, flag_b = b, flag_c = c, flag_d = d, status = Some st\<rparr>"
    unfolding eq st4 by (auto split: option.splits if_splits)
  have "\<exists>wc. (\<forall>x \<in> set wc. (\<exists>t. x = WarnStaticChanged (cfg_fitskey m item) f t) \<and> st = - 1)
            \<and> s' = warn wc ?s0"
  proof (cases "st = - 1")
    case True
    with assms obtain t where "output_tag m = Some t"
      and "s' = warn [WarnStaticChanged (cfg_fitskey m item) f t] (warn (w1 @ w2 @ w3 @ w4) s)"
      unfolding eq st4 by (cases "output_tag m") simp_all
    with True have "(\<forall>x \<in> set [WarnStaticChanged (cfg_fitskey m item) f t].
                       (\<exists>t. x = WarnStaticChanged (cfg_fitskey m item) f t) \<and> st = - 1)
                  \<and> s' = warn [WarnStaticChanged (cfg_fitskey m item) f t] ?s0"
      by simp
    then show ?thesis by (rule exI)
  next
    case False
    with assms have "s' = ?s0"
      unfolding eq st4 by (simp split: if_splits)
    then have "(\<forall>x \<in> set []. (\<exists>t. x = WarnStaticChanged (cfg_fitskey m item) f t) \<and> st = - 1)
                  \<and> s' = warn [] ?s0"
      by (simp add: warn_def)
    then show ?thesis by (rule exI)
  qed
  then obtain wc where
    wc: "\<forall>x \<in> set wc. (\<exists>t. x = WarnStaticChanged (cfg_fitskey m item) f t) \<and> st = - 1"
    and s': "s' = warn wc ?s0"
    by blast
  have "\<exists>v a st1 w1 b st2 w2 c st3 w3 d st w4 wc.
            truthy (m_check m) \<and> cfg_fitskey m item \<noteq> ''None''
            \<and> header_get h (cfg_fitskey m item) = Inr v
            \<and> try_check (m_image_out_port_1 s) ''A'' item v (it = e) (flag_a l) (status l)
                 = Inr (a, st1, w1)
            \<and> try_check (m_image_out_port_2 s) ''A'' item v (it = e) (flag_b l) st1
                 = Inr (b, st2, w2)
            \<and> try_check (m_image_out_port_3 s) ''B'' item v (it = e) (flag_c l) st2
                 = Inr (c, st3, w3)
            \<and> try_check (m_image_out_port_4 s) ''B'' item v (it = e) (flag_d l) st3
                 = Inr (d, Some st, w4)
            \<and> l' = \<lparr>flag_a = a, flag_b = b, flag_c = c, flag_d = d, status = Some st\<rparr>
            \<and> (\<forall>x \<in> set wc. (\<exists>t. x = WarnStaticChanged (cfg_fitskey m item) f t) \<and> st = - 1)
            \<and> s' = warn wc ((if st = 1 then add_attribute_all item v else (\<lambda>x. x))
                              (warn (w1 @ w2 @ w3 @ w4) s))"
    apply (rule exI [of _ v], rule exI [of _ a], rule exI [of _ st1], rule exI [of _ w1])
    apply (rule exI [of _ b], rule exI [of _ st2], rule exI [of _ w2])
    apply (rule exI [of _ c], rule exI [of _ st3], rule exI [of _ w3])
    apply (rule exI [of _ d], rule exI [of _ st], rule exI [of _ w4], rule exI [of _ wc])
    using tr v t1 t2 t3 t4 l' wc s' st4 apply simp
    done
  then show ?thesis by blast
qed

lemma try_check_msgs:
  assumes "try_check p n item v lst flag st = Inr (flag', st', w)"
  shows "\<forall>x \<in> set w. x = StdoutTagEmpty (tag p) n \<and> lst"
  using assms
  by (cases "images p") (auto simp: try_check_empty try_check_loaded split: if_splits)

text \<open>The same, with the four checks summed up in the messages they write.\<close>

lemma static_item_summary:
  assumes "static_item m f h it e item (l, s) = Inr (l', s')"
  shows "s' = s
       \<or> (truthy (m_check m) \<and> cfg_fitskey m item \<noteq> ''None''
            \<and> \<not> header_contains h (cfg_fitskey m item)
            \<and> s' = warn [WarnStaticNotFound item (cfg_fitskey m item)] s)
       \<or> (\<exists>v ws (st::int) wc.
            header_contains h (cfg_fitskey m item)
            \<and> header_get h (cfg_fitskey m item) = Inr v
            \<and> (\<forall>x \<in> set ws. (\<exists>t n. x = StdoutTagEmpty t n) \<and> it = e)
            \<and> (\<forall>x \<in> set wc. (\<exists>t. x = WarnStaticChanged (cfg_fitskey m item) f t) \<and> st = - 1)
            \<and> s' = warn wc ((if st = 1 then add_attribute_all item v else (\<lambda>x. x)) (warn ws s)))"
proof -
  from static_item_Inr [OF assms] show ?thesis
  proof (elim disjE exE conjE)
    assume "s' = s"
    then show ?thesis by simp
  next
    assume "truthy (m_check m)" "cfg_fitskey m item \<noteq> ''None''"
      "\<not> header_contains h (cfg_fitskey m item)"
      "s' = warn [WarnStaticNotFound item (cfg_fitskey m item)] s"
    then show ?thesis by simp
  next
    fix v a st1 w1 b st2 w2 c st3 w3 d st w4 wc
    assume v: "header_get h (cfg_fitskey m item) = Inr v"
      and t1: "try_check (m_image_out_port_1 s) ''A'' item v (it = e) (flag_a l) (status l)
                 = Inr (a, st1, w1)"
      and t2: "try_check (m_image_out_port_2 s) ''A'' item v (it = e) (flag_b l) st1
                 = Inr (b, st2, w2)"
      and t3: "try_check (m_image_out_port_3 s) ''B'' item v (it = e) (flag_c l) st2
                 = Inr (c, st3, w3)"
      and t4: "try_check (m_image_out_port_4 s) ''B'' item v (it = e) (flag_d l) st3
                 = Inr (d, Some st, w4)"
      and wc: "\<forall>x \<in> set wc. (\<exists>t. x = WarnStaticChanged (cfg_fitskey m item) f t) \<and> st = - 1"
      and s': "s' = warn wc ((if st = 1 then add_attribute_all item v else (\<lambda>x. x))
                              (warn (w1 @ w2 @ w3 @ w4) s))"
    have ws: "\<forall>x \<in> set (w1 @ w2 @ w3 @ w4). (\<exists>t n. x = StdoutTagEmpty t n) \<and> it = e"
      using try_check_msgs [OF t1] try_check_msgs [OF t2] try_check_msgs [OF t3]
        try_check_msgs [OF t4] by auto
    have hc: "header_contains h (cfg_fitskey m item)"
      using v by (auto simp: header_contains_def header_get_def split: option.splits)
    show ?thesis
      apply (rule disjI2, rule disjI2)
      apply (rule exI, rule exI, rule exI, rule exI)
      using hc v ws wc s' apply (intro conjI)
          apply assumption+
      done
  qed
qed

lemma static_item_frame:
  assumes "static_item m f h it e item (l, s) = Inr (l', s')"
  shows "same_frame s s'"
proof -
  from static_item_summary [OF assms] show ?thesis
  proof (elim disjE exE conjE)
    fix v ws st wc
    assume "s' = warn wc ((if st = 1 then add_attribute_all item v else (\<lambda>x. x)) (warn ws s))"
    then show ?thesis by (cases "st = 1") simp_all
  next
    assume "s' = s"
    then show ?thesis by simp
  next
    assume "s' = warn [WarnStaticNotFound item (cfg_fitskey m item)] s"
    then show ?thesis by simp
  qed
qed

lemma static_item_attrs_other:
  assumes "static_item m f h it e item (l, s) = Inr (l', s')" and "x \<noteq> item"
  shows "attrs (m_image_out_port_1 s') x = attrs (m_image_out_port_1 s) x
       \<and> attrs (m_image_out_port_2 s') x = attrs (m_image_out_port_2 s) x
       \<and> attrs (m_image_out_port_3 s') x = attrs (m_image_out_port_3 s) x
       \<and> attrs (m_image_out_port_4 s') x = attrs (m_image_out_port_4 s) x"
proof -
  from static_item_summary [OF assms(1)] show ?thesis
  proof (elim disjE exE conjE)
    fix v ws st wc
    assume "s' = warn wc ((if st = 1 then add_attribute_all item v else (\<lambda>x. x)) (warn ws s))"
    then show ?thesis using assms(2) by (cases "st = 1") simp_all
  next
    assume "s' = s"
    then show ?thesis by simp
  next
    assume "s' = warn [WarnStaticNotFound item (cfg_fitskey m item)] s"
    then show ?thesis by simp
  qed
qed

lemma static_loop_frame:
  "static_loop m f h it e items (l, s) = Inr (l', s') \<Longrightarrow> same_frame s s'"
proof (induction items arbitrary: l s)
  case Nil
  then show ?case by simp
next
  case (Cons item items)
  from Cons.prems obtain l1 s1 where
    step: "static_item m f h it e item (l, s) = Inr (l1, s1)"
    and rest: "static_loop m f h it e items (l1, s1) = Inr (l', s')"
    by (auto simp: ebind_eq_Inr)
  from static_item_frame [OF step] Cons.IH [OF rest] show ?case
    by (rule same_frame_trans)
qed

lemma static_loop_attrs_other:
  "static_loop m f h it e items (l, s) = Inr (l', s') \<Longrightarrow> x \<notin> set items \<Longrightarrow>
     attrs (m_image_out_port_1 s') x = attrs (m_image_out_port_1 s) x
     \<and> attrs (m_image_out_port_2 s') x = attrs (m_image_out_port_2 s) x
     \<and> attrs (m_image_out_port_3 s') x = attrs (m_image_out_port_3 s) x
     \<and> attrs (m_image_out_port_4 s') x = attrs (m_image_out_port_4 s) x"
proof (induction items arbitrary: l s)
  case Nil
  then show ?case by simp
next
  case (Cons item items)
  from Cons.prems(1) obtain l1 s1 where
    step: "static_item m f h it e item (l, s) = Inr (l1, s1)"
    and rest: "static_loop m f h it e items (l1, s1) = Inr (l', s')"
    by (auto simp: ebind_eq_Inr)
  from Cons.prems(2) have x: "x \<noteq> item" "x \<notin> set items" by simp_all
  from static_item_attrs_other [OF step x(1)] Cons.IH [OF rest x(2)] show ?case
    by simp
qed

text \<open>The messages of one round.\<close>

lemma static_item_count_not_found:
  assumes "static_item m f h it e item (l, s) = Inr (l', s')"
  shows "count_list (messages s') (WarnStaticNotFound x (cfg_fitskey m x))
         = count_list (messages s) (WarnStaticNotFound x (cfg_fitskey m x))
           + (if x = item \<and> truthy (m_check m) \<and> cfg_fitskey m x \<noteq> ''None''
                 \<and> \<not> header_contains h (cfg_fitskey m x) then 1 else 0)"
proof (cases "truthy (m_check m) \<and> cfg_fitskey m item \<noteq> ''None''
              \<and> \<not> header_contains h (cfg_fitskey m item)")
  case True
  with assms have "s' = warn [WarnStaticNotFound item (cfg_fitskey m item)] s"
    by (simp add: static_item_def Let_def)
  with True show ?thesis by auto
next
  case False
  from static_item_summary [OF assms] show ?thesis
  proof (elim disjE exE conjE)
    assume "s' = s"
    with False show ?thesis by auto
  next
    assume "truthy (m_check m)" "cfg_fitskey m item \<noteq> ''None''"
      "\<not> header_contains h (cfg_fitskey m item)"
    with False show ?thesis by simp
  next
    fix v ws and st :: int and wc
    assume hc: "header_contains h (cfg_fitskey m item)"
      and ws: "\<forall>x \<in> set ws. (\<exists>t n. x = StdoutTagEmpty t n) \<and> it = e"
      and wc: "\<forall>x \<in> set wc. (\<exists>t. x = WarnStaticChanged (cfg_fitskey m item) f t) \<and> st = - 1"
      and s': "s' = warn wc ((if st = 1 then add_attribute_all item v else (\<lambda>x. x)) (warn ws s))"
    have m: "messages s' = messages s @ ws @ wc"
      by (cases "st = 1") (simp_all add: s')
    have "WarnStaticNotFound x (cfg_fitskey m x) \<notin> set ws"
      "WarnStaticNotFound x (cfg_fitskey m x) \<notin> set wc"
      using ws wc by auto
    then show ?thesis using hc by (auto simp: m count_list_0_iff)
  qed
qed

lemma static_item_count_tag_empty:
  assumes "static_item m f h it e item (l, s) = Inr (l', s')" and "it \<noteq> e"
  shows "count_list (messages s') (StdoutTagEmpty t n) = count_list (messages s) (StdoutTagEmpty t n)"
proof -
  from static_item_summary [OF assms(1)] show ?thesis
  proof (elim disjE exE conjE)
    assume "s' = s"
    then show ?thesis by simp
  next
    assume "s' = warn [WarnStaticNotFound item (cfg_fitskey m item)] s"
    then show ?thesis by simp
  next
    fix v ws and st :: int and wc
    assume ws: "\<forall>x \<in> set ws. (\<exists>t n. x = StdoutTagEmpty t n) \<and> it = e"
      and wc: "\<forall>x \<in> set wc. (\<exists>t. x = WarnStaticChanged (cfg_fitskey m item) f t) \<and> st = - 1"
      and s': "s' = warn wc ((if st = 1 then add_attribute_all item v else (\<lambda>x. x)) (warn ws s))"
    have m: "messages s' = messages s @ ws @ wc"
      by (cases "st = 1") (simp_all add: s')
    from ws assms(2) have "ws = []" by (cases ws) auto
    moreover have "StdoutTagEmpty t n \<notin> set wc" using wc by auto
    ultimately show ?thesis by (simp add: m count_list_0_iff)
  qed
qed

lemma static_item_count_nod:
  assumes "static_item m f h it e item (l, s) = Inr (l', s')"
  shows "count_list (messages s') WarnNodNotAB = count_list (messages s) WarnNodNotAB"
proof -
  from static_item_summary [OF assms(1)] show ?thesis
  proof (elim disjE exE conjE)
    assume "s' = s"
    then show ?thesis by simp
  next
    assume "s' = warn [WarnStaticNotFound item (cfg_fitskey m item)] s"
    then show ?thesis by simp
  next
    fix v ws and st :: int and wc
    assume ws: "\<forall>x \<in> set ws. (\<exists>t n. x = StdoutTagEmpty t n) \<and> it = e"
      and wc: "\<forall>x \<in> set wc. (\<exists>t. x = WarnStaticChanged (cfg_fitskey m item) f t) \<and> st = - 1"
      and s': "s' = warn wc ((if st = 1 then add_attribute_all item v else (\<lambda>x. x)) (warn ws s))"
    have m: "messages s' = messages s @ ws @ wc"
      by (cases "st = 1") (simp_all add: s')
    have "WarnNodNotAB \<notin> set ws" "WarnNodNotAB \<notin> set wc" using ws wc by auto
    then show ?thesis by (simp add: m count_list_0_iff)
  qed
qed

lemma static_loop_count_not_found:
  "static_loop m f h it e items (l, s) = Inr (l', s') \<Longrightarrow>
     count_list (messages s') (WarnStaticNotFound x (cfg_fitskey m x))
       = count_list (messages s) (WarnStaticNotFound x (cfg_fitskey m x))
         + (if truthy (m_check m) \<and> cfg_fitskey m x \<noteq> ''None''
               \<and> \<not> header_contains h (cfg_fitskey m x) then count_list items x else 0)"
proof (induction items arbitrary: l s)
  case Nil
  then show ?case by simp
next
  case (Cons item items)
  from Cons.prems obtain l1 s1 where
    step: "static_item m f h it e item (l, s) = Inr (l1, s1)"
    and rest: "static_loop m f h it e items (l1, s1) = Inr (l', s')"
    by (auto simp: ebind_eq_Inr)
  from static_item_count_not_found [OF step, of x] Cons.IH [OF rest] show ?case
    by auto
qed

lemma static_loop_count_tag_empty:
  "static_loop m f h it e items (l, s) = Inr (l', s') \<Longrightarrow> it \<noteq> e \<Longrightarrow>
     count_list (messages s') (StdoutTagEmpty t n) = count_list (messages s) (StdoutTagEmpty t n)"
proof (induction items arbitrary: l s)
  case Nil
  then show ?case by simp
next
  case (Cons item items)
  from Cons.prems(1) obtain l1 s1 where
    step: "static_item m f h it e item (l, s) = Inr (l1, s1)"
    and rest: "static_loop m f h it e items (l1, s1) = Inr (l', s')"
    by (auto simp: ebind_eq_Inr)
  from static_item_count_tag_empty [OF step Cons.prems(2)] Cons.IH [OF rest Cons.prems(2)]
  show ?case by simp
qed

lemma static_loop_count_nod:
  "static_loop m f h it e items (l, s) = Inr (l', s') \<Longrightarrow>
     count_list (messages s') WarnNodNotAB = count_list (messages s) WarnNodNotAB"
proof (induction items arbitrary: l s)
  case Nil
  then show ?case by simp
next
  case (Cons item items)
  from Cons.prems(1) obtain l1 s1 where
    step: "static_item m f h it e item (l, s) = Inr (l1, s1)"
    and rest: "static_loop m f h it e items (l1, s1) = Inr (l', s')"
    by (auto simp: ebind_eq_Inr)
  from static_item_count_nod [OF step] Cons.IH [OF rest]
  show ?case by simp
qed

lemma warn_Nil [simp]: "warn [] s = s"
  by (simp add: warn_def)

lemma try_check_budget:
  assumes "try_check p n' item v lst flag st = Inr (flag', st', w)"
  shows "count_list w (StdoutTagEmpty t n) + (if flag' = 0 \<and> tag p = t \<and> n' = n then 1 else 0)
           \<le> (if flag = 0 \<and> tag p = t \<and> n' = n then (1::nat) else 0)"
  using assms
  by (cases "images p") (auto simp: try_check_empty try_check_loaded split: if_splits)

lemma same_frame_tags:
  assumes "same_frame s s'"
  shows "tag_budget l s' t n = tag_budget l s t n"
  using assms by (simp add: same_frame_def same_port_def tag_budget_def)

lemma static_item_budget:
  assumes "static_item m f h it e item (l, s) = Inr (l', s')"
  shows "count_list (messages s') (StdoutTagEmpty t n) + tag_budget l' s' t n
           \<le> count_list (messages s) (StdoutTagEmpty t n) + tag_budget l s t n"
proof -
  have tb: "tag_budget l' s' t n = tag_budget l' s t n"
    using same_frame_tags [OF static_item_frame [OF assms]] .
  from static_item_Inr [OF assms] show ?thesis
  proof (elim disjE exE conjE)
    assume "l' = l" "s' = s"
    then show ?thesis by simp
  next
    assume "l' = l" "s' = warn [WarnStaticNotFound item (cfg_fitskey m item)] s"
    then show ?thesis using tb by simp
  next
    fix v a st1 w1 b st2 w2 c st3 w3 d and st :: int and w4 wc
    assume t1: "try_check (m_image_out_port_1 s) ''A'' item v (it = e) (flag_a l) (status l)
                 = Inr (a, st1, w1)"
      and t2: "try_check (m_image_out_port_2 s) ''A'' item v (it = e) (flag_b l) st1
                 = Inr (b, st2, w2)"
      and t3: "try_check (m_image_out_port_3 s) ''B'' item v (it = e) (flag_c l) st2
                 = Inr (c, st3, w3)"
      and t4: "try_check (m_image_out_port_4 s) ''B'' item v (it = e) (flag_d l) st3
                 = Inr (d, Some st, w4)"
      and l': "l' = \<lparr>flag_a = a, flag_b = b, flag_c = c, flag_d = d, status = Some st\<rparr>"
      and wc: "\<forall>x \<in> set wc. (\<exists>t. x = WarnStaticChanged (cfg_fitskey m item) f t) \<and> st = - 1"
      and s': "s' = warn wc ((if st = 1 then add_attribute_all item v else (\<lambda>x. x))
                              (warn (w1 @ w2 @ w3 @ w4) s))"
    have m: "messages s' = messages s @ (w1 @ w2 @ w3 @ w4) @ wc"
      by (cases "st = 1") (simp_all add: s')
    have c0: "count_list wc (StdoutTagEmpty t n) = 0"
      using wc by (auto simp: count_list_0_iff)
    have cnt: "count_list (messages s') (StdoutTagEmpty t n)
                = count_list (messages s) (StdoutTagEmpty t n)
                  + count_list w1 (StdoutTagEmpty t n) + count_list w2 (StdoutTagEmpty t n)
                  + count_list w3 (StdoutTagEmpty t n) + count_list w4 (StdoutTagEmpty t n)"
      by (simp add: m c0)
    have b': "tag_budget l' s t n =
        (if a = 0 \<and> tag (m_image_out_port_1 s) = t \<and> ''A'' = n then 1 else 0)
        + (if b = 0 \<and> tag (m_image_out_port_2 s) = t \<and> ''A'' = n then 1 else 0)
        + (if c = 0 \<and> tag (m_image_out_port_3 s) = t \<and> ''B'' = n then 1 else 0)
        + (if d = 0 \<and> tag (m_image_out_port_4 s) = t \<and> ''B'' = n then 1 else 0)"
      by (simp add: tag_budget_def l' eq_commute [of n])
    have b0: "tag_budget l s t n =
        (if flag_a l = 0 \<and> tag (m_image_out_port_1 s) = t \<and> ''A'' = n then 1 else 0)
        + (if flag_b l = 0 \<and> tag (m_image_out_port_2 s) = t \<and> ''A'' = n then 1 else 0)
        + (if flag_c l = 0 \<and> tag (m_image_out_port_3 s) = t \<and> ''B'' = n then 1 else 0)
        + (if flag_d l = 0 \<and> tag (m_image_out_port_4 s) = t \<and> ''B'' = n then 1 else 0)"
      by (simp add: tag_budget_def eq_commute [of n])
    from try_check_budget [OF t1, of t n] try_check_budget [OF t2, of t n]
      try_check_budget [OF t3, of t n] try_check_budget [OF t4, of t n]
    show ?thesis
      unfolding tb cnt b' b0 by linarith
  qed
qed

lemma static_loop_budget:
  "static_loop m f h it e items (l, s) = Inr (l', s') \<Longrightarrow>
     count_list (messages s') (StdoutTagEmpty t n) + tag_budget l' s' t n
       \<le> count_list (messages s) (StdoutTagEmpty t n) + tag_budget l s t n"
proof (induction items arbitrary: l s)
  case Nil
  then show ?case by simp
next
  case (Cons item items)
  from Cons.prems(1) obtain l1 s1 where
    step: "static_item m f h it e item (l, s) = Inr (l1, s1)"
    and rest: "static_loop m f h it e items (l1, s1) = Inr (l', s')"
    by (auto simp: ebind_eq_Inr)
  from static_item_budget [OF step, of t n] Cons.IH [OF rest]
  show ?case by linarith
qed

lemma static_item_loaded:
  assumes "truthy (m_check m)" and "cfg_fitskey m item \<noteq> ''None''"
    and v: "header_get h (cfg_fitskey m item) = Inr v"
    and p1: "images (m_image_out_port_1 s) \<noteq> None"
    and p2: "images (m_image_out_port_2 s) \<noteq> None"
    and p3: "images (m_image_out_port_3 s) \<noteq> None"
    and p4: "images (m_image_out_port_4 s) \<noteq> None"
    and new: "attrs (m_image_out_port_4 s) item = None"
  shows "\<exists>l'. static_item m f h it e item (l, s) = Inr (l', add_attribute_all item v s)"
proof -
  have hc: "header_contains h (cfg_fitskey m item)"
    using v by (auto simp: header_contains_def header_get_def split: option.splits)
  from p1 obtain f1 where f1: "images (m_image_out_port_1 s) = Some f1" by auto
  from p2 obtain f2 where f2: "images (m_image_out_port_2 s) = Some f2" by auto
  from p3 obtain f3 where f3: "images (m_image_out_port_3 s) = Some f3" by auto
  from p4 obtain f4 where f4: "images (m_image_out_port_4 s) = Some f4" by auto
  note t1 = try_check_loaded [OF f1, of "''A''" item v "it = e" "flag_a l" "status l"]
  note t2 = try_check_loaded [OF f2, of "''A''" item v "it = e" "flag_b l"]
  note t3 = try_check_loaded [OF f3, of "''B''" item v "it = e" "flag_c l"]
  note t4 = try_check_loaded [OF f4, of "''B''" item v "it = e" "flag_d l"]
  show ?thesis
    by (simp add: static_item_checked [OF assms(1,2) hc v t1 t2 t3 t4] new)
qed

lemma static_loop_writes:
  assumes "static_loop m f h it e items (l, s) = Inr (l', s')"
    and "distinct items" and "item \<in> set items"
    and "truthy (m_check m)" and "cfg_fitskey m item \<noteq> ''None''"
    and "header_get h (cfg_fitskey m item) = Inr v"
    and "images (m_image_out_port_1 s) \<noteq> None" and "images (m_image_out_port_2 s) \<noteq> None"
    and "images (m_image_out_port_3 s) \<noteq> None" and "images (m_image_out_port_4 s) \<noteq> None"
    and "attrs (m_image_out_port_4 s) item = None"
  shows "attrs (m_image_out_port_1 s') item = Some v
       \<and> attrs (m_image_out_port_2 s') item = Some v
       \<and> attrs (m_image_out_port_3 s') item = Some v
       \<and> attrs (m_image_out_port_4 s') item = Some v"
  using assms
proof (induction items arbitrary: l s)
  case Nil
  then show ?case by simp
next
  case (Cons x xs)
  from Cons.prems(1) obtain l1 s1 where
    step: "static_item m f h it e x (l, s) = Inr (l1, s1)"
    and rest: "static_loop m f h it e xs (l1, s1) = Inr (l', s')"
    by (auto simp: ebind_eq_Inr)
  show ?case
  proof (cases "x = item")
    case True
    from static_item_loaded [OF Cons.prems(4-11), of f it e l] step True
    have s1: "s1 = add_attribute_all item v s" by auto
    from Cons.prems(2) True have "item \<notin> set xs" by simp
    from static_loop_attrs_other [OF rest this] show ?thesis
      by (simp add: s1)
  next
    case False
    with Cons.prems(2,3) have d: "distinct xs" "item \<in> set xs" by simp_all
    from static_item_frame [OF step] have fr: "same_frame s s1" .
    from static_item_attrs_other [OF step, of item] False
    have a4: "attrs (m_image_out_port_4 s1) item = attrs (m_image_out_port_4 s) item"
      by simp
    from fr Cons.prems(7-10) have im:
      "images (m_image_out_port_1 s1) \<noteq> None" "images (m_image_out_port_2 s1) \<noteq> None"
      "images (m_image_out_port_3 s1) \<noteq> None" "images (m_image_out_port_4 s1) \<noteq> None"
      by (simp_all add: same_frame_def same_port_def)
    from Cons.IH [OF rest d Cons.prems(4-6) im] a4 Cons.prems(11) show ?thesis
      by simp
  qed
qed

subsection \<open>The warning for a missing header key\<close>

text \<open>
  C8, as stated, fails: \<open>_static_attributes\<close> called for the first of two files
  (iteration 0, last iteration 1), with a header that lacks the key INSTRUME of the
  configured static attribute INSTRUMENT, writes the warning for the missing key.
\<close>

theorem missing_key_warning_before_last_file:
  "(0::nat) \<noteq> 1
   \<and> \<not> header_contains (ex_head [(''ESO DET NDIT'', HInt 7)]) ''INSTRUME''
   \<and> \<not> isl (static_attributes (ex_module (HBool True) (HBool True)) ''e.fits''
              (ex_head [(''ESO DET NDIT'', HInt 7)]) 0 1 ex_loaded)
   \<and> count_list (messages (projr (static_attributes (ex_module (HBool True) (HBool True))
              ''e.fits'' (ex_head [(''ESO DET NDIT'', HInt 7)]) 0 1 ex_loaded)))
        (WarnStaticNotFound ''INSTRUMENT'' ''INSTRUME'') = 1"
  by code_simp

text \<open>
  C8, amended. A call of \<open>_static_attributes\<close> that returns has written the warning
  for a configured static attribute whose key is not the sentinel and is absent from
  the header once for every occurrence of the attribute in the configured list,
  whatever the iteration (check flag true). What is held back until the last file is
  the line "The output tag ... is empty": a call for another iteration writes none, and
  with four distinct tags a call writes it at most once for a port.
\<close>

theorem missing_key_warning_on_every_file:
  assumes "static_attributes m fits_file header iteration end_it s = Inr s'"
  shows "(truthy (m_check m) \<and> cfg_fitskey m item \<noteq> ''None''
            \<and> \<not> header_contains header (cfg_fitskey m item)
          \<longrightarrow> count_list (messages s') (WarnStaticNotFound item (cfg_fitskey m item))
                = count_list (messages s) (WarnStaticNotFound item (cfg_fitskey m item))
                  + count_list (m_static m) item)
       \<and> (iteration \<noteq> end_it
          \<longrightarrow> count_list (messages s') (StdoutTagEmpty t n)
                = count_list (messages s) (StdoutTagEmpty t n))
       \<and> (distinct [tag (m_image_out_port_1 s), tag (m_image_out_port_2 s),
                     tag (m_image_out_port_3 s), tag (m_image_out_port_4 s)]
          \<longrightarrow> count_list (messages s') (StdoutTagEmpty t n)
                \<le> count_list (messages s) (StdoutTagEmpty t n) + 1)"
proof -
  let ?l0 = "\<lparr>flag_a = 0, flag_b = 0, flag_c = 0, flag_d = 0, status = None\<rparr>"
  from assms obtain l' where
    loop: "static_loop m fits_file header iteration end_it (m_static m) (?l0, s) = Inr (l', s')"
    by (auto simp: static_attributes_def ebind_eq_Inr)
  have a: "truthy (m_check m) \<and> cfg_fitskey m item \<noteq> ''None''
            \<and> \<not> header_contains header (cfg_fitskey m item)
          \<longrightarrow> count_list (messages s') (WarnStaticNotFound item (cfg_fitskey m item))
                = count_list (messages s) (WarnStaticNotFound item (cfg_fitskey m item))
                  + count_list (m_static m) item"
    using static_loop_count_not_found [OF loop, of item] by simp
  have b: "iteration \<noteq> end_it
          \<longrightarrow> count_list (messages s') (StdoutTagEmpty t n)
                = count_list (messages s) (StdoutTagEmpty t n)"
    using static_loop_count_tag_empty [OF loop] by simp
  have c: "distinct [tag (m_image_out_port_1 s), tag (m_image_out_port_2 s),
                     tag (m_image_out_port_3 s), tag (m_image_out_port_4 s)]
          \<longrightarrow> count_list (messages s') (StdoutTagEmpty t n)
                \<le> count_list (messages s) (StdoutTagEmpty t n) + 1"
  proof
    assume d: "distinct [tag (m_image_out_port_1 s), tag (m_image_out_port_2 s),
                     tag (m_image_out_port_3 s), tag (m_image_out_port_4 s)]"
    then have "tag_budget ?l0 s t n \<le> 1"
      by (auto simp: tag_budget_def)
    with static_loop_budget [OF loop, of t n] show
      "count_list (messages s') (StdoutTagEmpty t n)
         \<le> count_list (messages s) (StdoutTagEmpty t n) + 1"
      by linarith
  qed
  from a b c show ?thesis by blast
qed

theorem missing_key_warning_on_every_file_witness:
  "count_list (messages (projr (static_attributes (ex_module (HBool True) (HBool True)) ''e.fits''
       (ex_head [(''ESO DET NDIT'', HInt 7)]) 0 1 ex_loaded)))
     (WarnStaticNotFound ''INSTRUMENT'' ''INSTRUME'') = 1
   \<and> count_list (messages (projr (static_attributes (ex_module (HBool True) (HBool True)) ''e.fits''
       (ex_head [(''ESO DET NDIT'', HInt 7)]) 0 1 ex_loaded)))
     (StdoutTagEmpty ''noda_chopa'' ''A'') = 0"
proof -
  let ?m = "ex_module (HBool True) (HBool True)"
  let ?h = "ex_head [(''ESO DET NDIT'', HInt 7)]"
  let ?r = "static_attributes ?m ''e.fits'' ?h 0 1 ex_loaded"
  have "isl ?r = False" by code_simp
  then have eq: "?r = Inr (projr ?r)" by (cases ?r) simp_all
  have h1: "truthy (m_check ?m) \<and> cfg_fitskey ?m ''INSTRUMENT'' \<noteq> ''None''
            \<and> \<not> header_contains ?h (cfg_fitskey ?m ''INSTRUMENT'')"
    by code_simp
  have h2: "(0::nat) \<noteq> 1" by simp
  have h3: "distinct [tag (m_image_out_port_1 ex_loaded), tag (m_image_out_port_2 ex_loaded),
                      tag (m_image_out_port_3 ex_loaded), tag (m_image_out_port_4 ex_loaded)]"
    by code_simp
  have v: "cfg_fitskey ?m ''INSTRUMENT'' = ''INSTRUME''"
    "count_list (m_static ?m) ''INSTRUMENT'' = 1" "messages ex_loaded = []"
    by code_simp+
  from missing_key_warning_on_every_file
         [OF eq, of "''INSTRUMENT''" "''noda_chopa''" "''A''"] h1 h2 h3 v
  show ?thesis by simp
qed

subsection \<open>\<open>_non_static_attributes\<close>\<close>

lemma append_all_fields [simp]:
  "messages (append_all item v s) = messages s"
  "m_count (append_all item v s) = m_count s"
  "header_out (append_all item v s) = header_out s"
  "header_data (m_image_out_port_1 (append_all item v s))
     = (header_data (m_image_out_port_1 s))(item := header_data (m_image_out_port_1 s) item @ [v])"
  "header_data (m_image_out_port_2 (append_all item v s))
     = (header_data (m_image_out_port_2 s))(item := header_data (m_image_out_port_2 s) item @ [v])"
  "header_data (m_image_out_port_3 (append_all item v s))
     = (header_data (m_image_out_port_3 s))(item := header_data (m_image_out_port_3 s) item @ [v])"
  "header_data (m_image_out_port_4 (append_all item v s))
     = (header_data (m_image_out_port_4 s))(item := header_data (m_image_out_port_4 s) item @ [v])"
  by (simp_all add: append_all_def append_attribute_data_def)

lemma same_static_refl [simp]: "same_static s s"
  by (simp add: same_static_def)

lemma same_static_trans: "same_static s s1 \<Longrightarrow> same_static s1 s2 \<Longrightarrow> same_static s s2"
  by (simp add: same_static_def)

lemma same_static_append_all [simp]: "same_static s (append_all item v s)"
  by (simp add: same_static_def append_all_def append_attribute_data_def)

lemma non_static_value_length: "length (non_static_value m h item) \<le> 1"
  by (simp add: non_static_value_def split: sum.splits option.splits)

lemma non_static_item_Inr:
  assumes "non_static_item m h item s = Inr s'"
  shows "s' = (case non_static_value m h item of [] \<Rightarrow> s | v # vs \<Rightarrow> append_all item v s)"
proof (cases "truthy (m_check m)")
  case False
  with assms show ?thesis
    by (simp add: non_static_item_def non_static_value_def)
next
  case True
  show ?thesis
  proof (cases "header_contains h item")
    case hc: True
    then obtain v where v: "header_get h item = Inr v"
      using header_contains_get by blast
    with assms True hc show ?thesis
      by (simp add: non_static_item_def non_static_value_def)
  next
    case nhc: False
    from assms True nhc obtain info where
      info: "map_of (m_attributes m) item = Some info"
      by (auto simp: non_static_item_def attributes_get_def ebind_eq_Inr split: option.splits)
    show ?thesis
    proof (cases "attr_config info = ''header'' \<and> cfg_fitskey m item \<noteq> ''None''
                  \<and> header_contains h (cfg_fitskey m item)")
      case c: True
      then obtain v where v: "header_get h (cfg_fitskey m item) = Inr v"
        using header_contains_get by blast
      with assms True nhc info c show ?thesis
        by (simp add: non_static_item_def non_static_value_def attributes_get_def Let_def)
    next
      case c: False
      with assms True nhc info show ?thesis
        by (auto simp: non_static_item_def non_static_value_def attributes_get_def Let_def
            split: if_splits)
    qed
  qed
qed

lemma non_static_item_frame:
  assumes "non_static_item m h item s = Inr s'"
  shows "same_static s s'"
  by (subst non_static_item_Inr [OF assms]) (simp split: list.splits)

lemma non_static_item_header_data:
  assumes "non_static_item m h item s = Inr s'"
  shows "header_data (m_image_out_port_1 s') x
           = header_data (m_image_out_port_1 s) x @ (if x = item then non_static_value m h item else [])
       \<and> header_data (m_image_out_port_2 s') x
           = header_data (m_image_out_port_2 s) x @ (if x = item then non_static_value m h item else [])
       \<and> header_data (m_image_out_port_3 s') x
           = header_data (m_image_out_port_3 s) x @ (if x = item then non_static_value m h item else [])
       \<and> header_data (m_image_out_port_4 s') x
           = header_data (m_image_out_port_4 s) x @ (if x = item then non_static_value m h item else [])"
proof (cases "non_static_value m h item")
  case Nil
  then show ?thesis by (simp add: non_static_item_Inr [OF assms])
next
  case (Cons v vs)
  from non_static_value_length [of m h item] Cons have "vs = []" by simp
  with Cons show ?thesis by (simp add: non_static_item_Inr [OF assms])
qed

lemma non_static_loop_frame:
  "non_static_loop m h items s = Inr s' \<Longrightarrow> same_static s s'"
proof (induction items arbitrary: s)
  case Nil
  then show ?case by simp
next
  case (Cons item items)
  from Cons.prems obtain s1 where
    step: "non_static_item m h item s = Inr s1"
    and rest: "non_static_loop m h items s1 = Inr s'"
    by (auto simp: ebind_eq_Inr)
  from non_static_item_frame [OF step] Cons.IH [OF rest] show ?case
    by (rule same_static_trans)
qed

lemma non_static_loop_header_data:
  "non_static_loop m h items s = Inr s' \<Longrightarrow> distinct items \<Longrightarrow>
     header_data (m_image_out_port_1 s') x
       = header_data (m_image_out_port_1 s) x @ (if x \<in> set items then non_static_value m h x else [])
   \<and> header_data (m_image_out_port_2 s') x
       = header_data (m_image_out_port_2 s) x @ (if x \<in> set items then non_static_value m h x else [])
   \<and> header_data (m_image_out_port_3 s') x
       = header_data (m_image_out_port_3 s) x @ (if x \<in> set items then non_static_value m h x else [])
   \<and> header_data (m_image_out_port_4 s') x
       = header_data (m_image_out_port_4 s) x @ (if x \<in> set items then non_static_value m h x else [])"
proof (induction items arbitrary: s)
  case Nil
  then show ?case by simp
next
  case (Cons item items)
  from Cons.prems(1) obtain s1 where
    step: "non_static_item m h item s = Inr s1"
    and rest: "non_static_loop m h items s1 = Inr s'"
    by (auto simp: ebind_eq_Inr)
  from Cons.prems(2) have d: "distinct items" "item \<notin> set items" by simp_all
  from non_static_item_header_data [OF step, of x] Cons.IH [OF rest d(1)] d(2)
  show ?case by auto
qed

subsection \<open>\<open>_extra_attributes\<close>\<close>

lemma foldl_append_index_other:
  "nod \<noteq> HStr ''A'' \<Longrightarrow> nod \<noteq> HStr ''B'' \<Longrightarrow> foldl (append_index nod) s idx = s"
  by (induction idx arbitrary: s) (simp_all add: append_index_def)

lemma append_index_frame:
  "same_static s (append_index nod s item)"
  by (simp add: same_static_def append_index_def append_attribute_data_def)

lemma append_index_header_data:
  "x \<noteq> ''INDEX'' \<Longrightarrow>
     header_data (m_image_out_port_1 (append_index nod s item)) x = header_data (m_image_out_port_1 s) x
   \<and> header_data (m_image_out_port_2 (append_index nod s item)) x = header_data (m_image_out_port_2 s) x
   \<and> header_data (m_image_out_port_3 (append_index nod s item)) x = header_data (m_image_out_port_3 s) x
   \<and> header_data (m_image_out_port_4 (append_index nod s item)) x = header_data (m_image_out_port_4 s) x"
  by (simp add: append_index_def append_attribute_data_def)

lemma foldl_append_index_frame:
  "same_static s (foldl (append_index nod) s idx)"
proof (induction idx arbitrary: s)
  case Nil
  show ?case by simp
next
  case (Cons i idx)
  from append_index_frame [of s nod i] Cons [of "append_index nod s i"] show ?case
    by (simp add: same_static_trans)
qed

lemma foldl_append_index_header_data:
  "x \<noteq> ''INDEX'' \<Longrightarrow>
     header_data (m_image_out_port_1 (foldl (append_index nod) s idx)) x = header_data (m_image_out_port_1 s) x
   \<and> header_data (m_image_out_port_2 (foldl (append_index nod) s idx)) x = header_data (m_image_out_port_2 s) x
   \<and> header_data (m_image_out_port_3 (foldl (append_index nod) s idx)) x = header_data (m_image_out_port_3 s) x
   \<and> header_data (m_image_out_port_4 (foldl (append_index nod) s idx)) x = header_data (m_image_out_port_4 s) x"
proof (induction idx arbitrary: s)
  case Nil
  show ?case by simp
next
  case (Cons i idx)
  from append_index_header_data [OF Cons.prems, of nod s i] Cons.IH [OF Cons.prems, of "append_index nod s i"]
  show ?case by simp
qed

lemma extra_attributes_Inr:
  assumes "extra_attributes m f loc shape nod s = Inr s'"
  shows "\<exists>s1. same_static s s1
           \<and> (\<forall>x. x \<noteq> ''INDEX'' \<longrightarrow>
                 header_data (m_image_out_port_1 s1) x = header_data (m_image_out_port_1 s) x
               \<and> header_data (m_image_out_port_2 s1) x = header_data (m_image_out_port_2 s) x
               \<and> header_data (m_image_out_port_3 s1) x = header_data (m_image_out_port_3 s) x
               \<and> header_data (m_image_out_port_4 s1) x = header_data (m_image_out_port_4 s) x)
           \<and> (nod \<noteq> HStr ''A'' \<and> nod \<noteq> HStr ''B'' \<longrightarrow> s1 = s)
           \<and> s' = (if nod = HStr ''A'' then
                  s1\<lparr>m_image_out_port_1 :=
                       add_attribute (append_attribute_data (m_image_out_port_1 s1) ''FILES''
                                        (HStr (loc @ f))) ''PIXSCALE'' (cfg_pixscale m),
                     m_image_out_port_2 :=
                       add_attribute (append_attribute_data (m_image_out_port_2 s1) ''FILES''
                                        (HStr (loc @ f))) ''PIXSCALE'' (cfg_pixscale m)\<rparr>
                else if nod = HStr ''B'' then
                  s1\<lparr>m_image_out_port_3 :=
                       add_attribute (append_attribute_data (m_image_out_port_3 s1) ''FILES''
                                        (HStr (loc @ f))) ''PIXSCALE'' (cfg_pixscale m),
                     m_image_out_port_4 :=
                       add_attribute (append_attribute_data (m_image_out_port_4 s1) ''FILES''
                                        (HStr (loc @ f))) ''PIXSCALE'' (cfg_pixscale m)\<rparr>
                else warn [WarnNodNotAB] s1)
               \<lparr>m_count := m_count s1 + (if length shape = 2 then 1 else shape ! 0)\<rparr>"
proof -
  let ?n = "if length shape = 2 then 1 else shape ! 0"
  let ?s1 = "foldl (append_index nod) s [m_count s ..< m_count s + ?n]"
  from assms have ok: "\<not> (length shape \<noteq> 2 \<and> length shape \<noteq> 3)"
    by (auto simp: extra_attributes_def Let_def split: if_splits)
  have mc: "m_count ?s1 = m_count s"
    using foldl_append_index_frame [of s nod "[m_count s ..< m_count s + ?n]"]
    by (simp add: same_static_def)
  from assms ok have s': "s' = (if nod = HStr ''A'' then
                  ?s1\<lparr>m_image_out_port_1 :=
                       add_attribute (append_attribute_data (m_image_out_port_1 ?s1) ''FILES''
                                        (HStr (loc @ f))) ''PIXSCALE'' (cfg_pixscale m),
                     m_image_out_port_2 :=
                       add_attribute (append_attribute_data (m_image_out_port_2 ?s1) ''FILES''
                                        (HStr (loc @ f))) ''PIXSCALE'' (cfg_pixscale m)\<rparr>
                else if nod = HStr ''B'' then
                  ?s1\<lparr>m_image_out_port_3 :=
                       add_attribute (append_attribute_data (m_image_out_port_3 ?s1) ''FILES''
                                        (HStr (loc @ f))) ''PIXSCALE'' (cfg_pixscale m),
                     m_image_out_port_4 :=
                       add_attribute (append_attribute_data (m_image_out_port_4 ?s1) ''FILES''
                                        (HStr (loc @ f))) ''PIXSCALE'' (cfg_pixscale m)\<rparr>
                else warn [WarnNodNotAB] ?s1)
               \<lparr>m_count := m_count ?s1 + ?n\<rparr>"
    by (simp add: extra_attributes_def Let_def warn_def split: if_splits)
  have a: "same_static s ?s1" by (rule foldl_append_index_frame)
  have b: "\<forall>x. x \<noteq> ''INDEX'' \<longrightarrow>
                 header_data (m_image_out_port_1 ?s1) x = header_data (m_image_out_port_1 s) x
               \<and> header_data (m_image_out_port_2 ?s1) x = header_data (m_image_out_port_2 s) x
               \<and> header_data (m_image_out_port_3 ?s1) x = header_data (m_image_out_port_3 s) x
               \<and> header_data (m_image_out_port_4 ?s1) x = header_data (m_image_out_port_4 s) x"
    using foldl_append_index_header_data by blast
  have c: "nod \<noteq> HStr ''A'' \<and> nod \<noteq> HStr ''B'' \<longrightarrow> ?s1 = s"
    using foldl_append_index_other by blast
  show ?thesis
    apply (rule exI [of _ ?s1])
    using a b c s' apply (intro conjI)
       apply assumption+
    done
qed

lemma extra_attributes_count:
  assumes "extra_attributes m f loc shape nod s = Inr s'"
  shows "m_count s' = m_count s + (if length shape = 2 then 1 else shape ! 0)"
proof -
  from extra_attributes_Inr [OF assms] obtain s1 where
    fr: "same_static s s1" and s': "m_count s' = m_count s1 + (if length shape = 2 then 1 else shape ! 0)"
    by (elim exE conjE) (simp split: if_splits)
  from fr s' show ?thesis by (simp add: same_static_def)
qed

lemma extra_attributes_other_nod:
  assumes "extra_attributes m f loc shape nod s = Inr s'"
    and "nod \<noteq> HStr ''A''" and "nod \<noteq> HStr ''B''"
  shows "s' = (warn [WarnNodNotAB] s)\<lparr>m_count := m_count s + (if length shape = 2 then 1 else shape ! 0)\<rparr>"
  using extra_attributes_Inr [OF assms(1)] assms(2,3) by (elim exE conjE) simp

lemma extra_attributes_frame:
  assumes "extra_attributes m f loc shape nod s = Inr s'"
  shows "images (m_image_out_port_1 s') = images (m_image_out_port_1 s)
       \<and> images (m_image_out_port_2 s') = images (m_image_out_port_2 s)
       \<and> images (m_image_out_port_3 s') = images (m_image_out_port_3 s)
       \<and> images (m_image_out_port_4 s') = images (m_image_out_port_4 s)
       \<and> flushes (m_image_out_port_1 s') = flushes (m_image_out_port_1 s)
       \<and> flushes (m_image_out_port_2 s') = flushes (m_image_out_port_2 s)
       \<and> flushes (m_image_out_port_3 s') = flushes (m_image_out_port_3 s)
       \<and> flushes (m_image_out_port_4 s') = flushes (m_image_out_port_4 s)"
  using extra_attributes_Inr [OF assms]
  by (elim exE conjE)
     (simp add: same_static_def add_attribute_def append_attribute_data_def split: if_splits)

lemma extra_attributes_header_data:
  assumes "extra_attributes m f loc shape nod s = Inr s'"
    and "x \<noteq> ''INDEX''" and "x \<noteq> ''FILES''"
  shows "header_data (m_image_out_port_1 s') x = header_data (m_image_out_port_1 s) x
       \<and> header_data (m_image_out_port_2 s') x = header_data (m_image_out_port_2 s) x
       \<and> header_data (m_image_out_port_3 s') x = header_data (m_image_out_port_3 s) x
       \<and> header_data (m_image_out_port_4 s') x = header_data (m_image_out_port_4 s) x"
  using extra_attributes_Inr [OF assms(1)] assms(2,3)
  by (elim exE conjE)
     (simp add: add_attribute_def append_attribute_data_def split: if_splits)

subsection \<open>The loop body of \<open>run\<close>\<close>

lemma static_attributes_Inr:
  assumes "static_attributes m f h it e s = Inr s'"
  shows "\<exists>l'. static_loop m f h it e (m_static m)
               (\<lparr>flag_a = 0, flag_b = 0, flag_c = 0, flag_d = 0, status = None\<rparr>, s) = Inr (l', s')"
  using assms by (auto simp: static_attributes_def ebind_eq_Inr)

lemma static_attributes_frame:
  assumes "static_attributes m f h it e s = Inr s'"
  shows "same_frame s s'"
  using static_attributes_Inr [OF assms] static_loop_frame by blast

lemma append_images_fields [simp]:
  "m_count (append_images nod ca cb s) = m_count s"
  "messages (append_images nod ca cb s) = messages s"
  "header_data (m_image_out_port_1 (append_images nod ca cb s)) = header_data (m_image_out_port_1 s)"
  "header_data (m_image_out_port_2 (append_images nod ca cb s)) = header_data (m_image_out_port_2 s)"
  "header_data (m_image_out_port_3 (append_images nod ca cb s)) = header_data (m_image_out_port_3 s)"
  "header_data (m_image_out_port_4 (append_images nod ca cb s)) = header_data (m_image_out_port_4 s)"
  "flushes (m_image_out_port_1 (append_images nod ca cb s)) = flushes (m_image_out_port_1 s)"
  "flushes (m_image_out_port_2 (append_images nod ca cb s)) = flushes (m_image_out_port_2 s)"
  "flushes (m_image_out_port_3 (append_images nod ca cb s)) = flushes (m_image_out_port_3 s)"
  "flushes (m_image_out_port_4 (append_images nod ca cb s)) = flushes (m_image_out_port_4 s)"
  "attrs (m_image_out_port_1 (append_images nod ca cb s)) = attrs (m_image_out_port_1 s)"
  "attrs (m_image_out_port_2 (append_images nod ca cb s)) = attrs (m_image_out_port_2 s)"
  "attrs (m_image_out_port_3 (append_images nod ca cb s)) = attrs (m_image_out_port_3 s)"
  "attrs (m_image_out_port_4 (append_images nod ca cb s)) = attrs (m_image_out_port_4 s)"
  by (simp_all add: append_images_def Let_def port_append_def)

lemma append_images_other [simp]:
  "nod \<noteq> HStr ''A'' \<Longrightarrow> nod \<noteq> HStr ''B'' \<Longrightarrow> append_images nod ca cb s = s"
  by (simp add: append_images_def)

lemma flush_ports_fields [simp]:
  "m_count (flush_ports nod s) = m_count s"
  "messages (flush_ports nod s) = messages s"
  "header_data (m_image_out_port_1 (flush_ports nod s)) = header_data (m_image_out_port_1 s)"
  "header_data (m_image_out_port_2 (flush_ports nod s)) = header_data (m_image_out_port_2 s)"
  "header_data (m_image_out_port_3 (flush_ports nod s)) = header_data (m_image_out_port_3 s)"
  "header_data (m_image_out_port_4 (flush_ports nod s)) = header_data (m_image_out_port_4 s)"
  "images (m_image_out_port_1 (flush_ports nod s)) = images (m_image_out_port_1 s)"
  "images (m_image_out_port_2 (flush_ports nod s)) = images (m_image_out_port_2 s)"
  "images (m_image_out_port_3 (flush_ports nod s)) = images (m_image_out_port_3 s)"
  "images (m_image_out_port_4 (flush_ports nod s)) = images (m_image_out_port_4 s)"
  "attrs (m_image_out_port_1 (flush_ports nod s)) = attrs (m_image_out_port_1 s)"
  "attrs (m_image_out_port_2 (flush_ports nod s)) = attrs (m_image_out_port_2 s)"
  "attrs (m_image_out_port_3 (flush_ports nod s)) = attrs (m_image_out_port_3 s)"
  "attrs (m_image_out_port_4 (flush_ports nod s)) = attrs (m_image_out_port_4 s)"
  by (simp_all add: flush_ports_def Let_def flush_def)

lemma flush_ports_other [simp]:
  "nod \<noteq> HStr ''A'' \<Longrightarrow> nod \<noteq> HStr ''B'' \<Longrightarrow> flush_ports nod s = s"
  by (simp add: flush_ports_def)

text \<open>The five steps of the loop body of \<open>run\<close>.\<close>

lemma run_file_Inr:
  assumes "run_file m fs loc e i im s = Inr s'"
  shows "\<exists>ca cb nod header shape s0 s2 s3 s4.
           open_fit m fs loc im i s = Inr ((ca, cb, nod, header, shape), s0)
           \<and> static_attributes m im header i e (append_images nod ca cb s0) = Inr s2
           \<and> non_static_attributes m header s2 = Inr s3
           \<and> extra_attributes m im loc shape nod s3 = Inr s4
           \<and> s' = flush_ports nod s4"
  using assms
  by (simp add: run_file_def ebind_eq_Inr Let_def split: prod.splits) blast

lemma run_file_steps:
  assumes "run_file m fs loc e i im s = Inr s'"
    and "open_fit m fs loc im i s = Inr ((ca, cb, nod, header, shape), s0)"
  shows "\<exists>s2 s3 s4.
           static_attributes m im header i e (append_images nod ca cb s0) = Inr s2
           \<and> non_static_attributes m header s2 = Inr s3
           \<and> extra_attributes m im loc shape nod s3 = Inr s4
           \<and> s' = flush_ports nod s4"
  using run_file_Inr [OF assms(1)] assms(2) by auto

lemma run_file_count:
  assumes "run_file m fs loc e i im s = Inr s'"
  shows "m_count s' = m_count s + nframes fs (loc @ im)"
proof -
  from run_file_Inr [OF assms] obtain ca cb nod header shape s0 s2 s3 s4 where
    o: "open_fit m fs loc im i s = Inr ((ca, cb, nod, header, shape), s0)"
    and st: "static_attributes m im header i e (append_images nod ca cb s0) = Inr s2"
    and ns: "non_static_attributes m header s2 = Inr s3"
    and ex: "extra_attributes m im loc shape nod s3 = Inr s4"
    and s': "s' = flush_ports nod s4"
    by blast
  from open_fit_shape [OF o] obtain hdulist where
    h: "fs (loc @ im) = Some hdulist"
    and sh: "shape = [length hdulist - 2, shape0 (hdu_data (hdulist ! 1)),
                      shape1 (hdu_data (hdulist ! 1))]"
    by blast
  have c0: "m_count s0 = m_count s" by (rule open_fit_frame(1) [OF o])
  have c2: "m_count s2 = m_count s0"
    using static_attributes_frame [OF st] by (simp add: same_frame_def)
  have c3: "m_count s3 = m_count s2"
    using non_static_loop_frame [of m header "m_non_static m" s2 s3] ns
    by (simp add: non_static_attributes_def same_static_def)
  have c4: "m_count s4 = m_count s3 + (length hdulist - 2)"
    using extra_attributes_count [OF ex] by (simp add: sh)
  show ?thesis
    by (simp add: s' c4 c3 c2 c0 nframes_def h)
qed

lemma run_files_count:
  "run_files m fs loc e i files s = Inr s' \<Longrightarrow>
     m_count s' = m_count s + sum_list (map (\<lambda>im. nframes fs (loc @ im)) files)"
proof (induction files arbitrary: i s)
  case Nil
  then show ?case by simp
next
  case (Cons im files)
  from Cons.prems obtain s1 where
    step: "run_file m fs loc e i im s = Inr s1"
    and rest: "run_files m fs loc e (Suc i) files s1 = Inr s'"
    by (auto simp: ebind_eq_Inr)
  from run_file_count [OF step] Cons.IH [OF rest] show ?case by simp
qed

lemma run_files_append:
  "run_files m fs loc e i (xs @ ys) s
     = ebind (run_files m fs loc e i xs s) (run_files m fs loc e (i + length xs) ys)"
proof (induction xs arbitrary: i s)
  case Nil
  show ?case by simp
next
  case (Cons x xs)
  show ?case
    by (cases "run_file m fs loc e i x s") (simp_all add: Cons)
qed

lemma determine_nod_messages:
  "\<forall>w \<in> set (snd (determine_nod scheme h n)). w = WarnNodposMissing scheme"
  by (simp add: determine_nod_def Let_def split: sum.splits)

lemma check_header_messages_all:
  "check_header h = Inr ws \<Longrightarrow>
     \<forall>w \<in> set ws. w = WarnChopDisabled \<or> w = WarnAveraged \<or> (\<exists>k. w = WarnCycskip k)"
  by (auto simp: check_header_def ebind_eq_Inr Let_def split: if_splits)

lemma open_fit_count_nod:
  assumes "open_fit m fs loc im i s = Inr ((ca, cb, nod, header, shape), s0)"
  shows "count_list (messages s0) WarnNodNotAB = count_list (messages s) WarnNodNotAB"
proof -
  from open_fit_messages [OF assms] obtain w1 ws where
    chk: "check_header header = Inr w1"
    and msgs: "messages s0 = messages s @ snd (determine_nod (m_scheme m) header i) @ w1 @ ws"
    and ws: "\<forall>w \<in> set ws. (\<exists>j. w = WarnChopNotFound j) \<or> w = WarnChopUnequal"
    by blast
  have "WarnNodNotAB \<notin> set (snd (determine_nod (m_scheme m) header i))"
    using determine_nod_messages [of "m_scheme m" header i] by auto
  moreover have "WarnNodNotAB \<notin> set w1"
    using check_header_messages_all [OF chk] by auto
  moreover have "WarnNodNotAB \<notin> set ws"
    using ws by auto
  ultimately show ?thesis by (simp add: msgs count_list_0_iff)
qed

subsection \<open>Nod inference\<close>

text \<open>
  The nod is bound under either scheme, and the warning of the nod is written for the
  first file only, and only if the header has no key.
\<close>

lemma determine_nod_bound:
  assumes "scheme = ''ABBA'' \<or> scheme = ''ABAB''"
  shows "\<exists>nod. fst (determine_nod scheme h n) = Some nod"
proof (cases "header_get h ''ESO SEQ NODPOS''")
  case (Inl e)
  have m4: "n mod 4 = 0 \<or> n mod 4 = 1 \<or> n mod 4 = 2 \<or> n mod 4 = 3" by arith
  have m2: "n mod 2 = 0 \<or> n mod 2 = 1" by arith
  from assms m4 m2 Inl show ?thesis by (auto simp: determine_nod_def Let_def)
next
  case (Inr v)
  then show ?thesis by (simp add: determine_nod_def)
qed

lemma determine_nod_warnings:
  "snd (determine_nod scheme h n)
     = (if n = 0 \<and> \<not> header_contains h ''ESO SEQ NODPOS'' then [WarnNodposMissing scheme] else [])"
proof (cases "header_contains h ''ESO SEQ NODPOS''")
  case True
  from header_contains_get [OF True] obtain v where "header_get h ''ESO SEQ NODPOS'' = Inr v" ..
  then show ?thesis using True by (simp add: determine_nod_def)
next
  case False
  from determine_nod_fallback(3) [OF False] show ?thesis using False by simp
qed


text \<open>
  The steps of \<open>open_fit\<close> raise KeyError, ValueError or IndexError; only its
  \<open>return\<close> can raise UnboundLocalError, for the nod.
\<close>

lemma ebind_error:
  "r \<noteq> Inl e \<Longrightarrow> (\<And>y. f y \<noteq> Inl e) \<Longrightarrow> ebind r f \<noteq> Inl e"
  by (cases r) simp_all

lemma header_get_error: "header_get h k \<noteq> Inl (UnboundLocalError x)"
  by (simp add: header_get_def split: option.splits)

lemma py_int_error: "py_int v \<noteq> Inl (UnboundLocalError x)"
  by (cases v) (simp_all split: option.splits)

lemma compose_header_error: "compose_header n h hs \<noteq> Inl (UnboundLocalError x)"
  unfolding compose_header_def
  by (intro ebind_error header_get_error py_int_error) simp

lemma check_header_error: "check_header h \<noteq> Inl (UnboundLocalError x)"
  unfolding check_header_def Let_def
  by (intro ebind_error header_get_error py_int_error) simp

lemma load_images_error: "load_images h w xs \<noteq> Inl (UnboundLocalError x)"
proof (induction xs)
  case Nil
  show ?case by simp
next
  case (Cons a xs)
  have b: "broadcast_to h w (hdu_data a) \<noteq> Inl (UnboundLocalError x)"
    by (simp add: broadcast_to_def)
  show ?case
    by (simp only: load_images.simps) (intro ebind_error b Cons, simp)
qed

lemma buf_write_error: "buf_write buf n f \<noteq> Inl (UnboundLocalError x)"
  by (simp add: buf_write_def)

lemma classify_error: "classify i xs acc \<noteq> Inl (UnboundLocalError x)"
proof (induction xs arbitrary: i acc)
  case Nil
  show ?case by simp
next
  case (Cons a xs)
  obtain hs im where a: "a = (hs, im)" by (cases a)
  have b1: "ebind (buf_write (chopa acc) (count_im_1 acc) im) (\<lambda>buf.
               classify (Suc i) xs (acc\<lparr>chopa := buf, count_im_1 := Suc (count_im_1 acc)\<rparr>))
             \<noteq> Inl (UnboundLocalError x)"
    by (intro ebind_error buf_write_error Cons)
  have b2: "ebind (buf_write (chopb acc) (count_im_2 acc) im) (\<lambda>buf.
               classify (Suc i) xs (acc\<lparr>chopb := buf, count_im_2 := Suc (count_im_2 acc)\<rparr>))
             \<noteq> Inl (UnboundLocalError x)"
    by (intro ebind_error buf_write_error Cons)
  show ?case
    unfolding a classify.simps
    by (intro ebind_error header_get_error) (simp add: b1 b2 Cons)
qed

lemma trim_error: "trim h w buf \<noteq> Inl (UnboundLocalError x)"
  by (simp add: trim_def)

lemma dump_header_error: "dump_header h keys \<noteq> Inl (UnboundLocalError x)"
proof (induction keys)
  case Nil
  show ?case by simp
next
  case (Cons k keys)
  show ?case
    by (simp only: dump_header.simps) (intro ebind_error header_get_error Cons, simp)
qed

lemma open_fit_nod_bound:
  assumes "m_scheme m = ''ABBA'' \<or> m_scheme m = ''ABAB''"
  shows "open_fit m fs location image_file number s \<noteq> Inl (UnboundLocalError ''nod'')"
proof (cases "fs (location @ image_file)")
  case None
  then show ?thesis by (simp add: open_fit_def)
next
  case (Some hdulist)
  show ?thesis
  proof (cases "length hdulist < 2")
    case True
    then show ?thesis by (simp add: open_fit_def Some)
  next
    case False
    have fin: "\<And>h r. (case fst (determine_nod (m_scheme m) h number) of
                       None \<Rightarrow> Inl (UnboundLocalError ''nod'') | Some nod \<Rightarrow> Inr (r nod))
                    \<noteq> Inl (UnboundLocalError ''nod'')"
      using determine_nod_bound [OF assms] by (metis option.simps(5) sum.distinct(1))
    show ?thesis
      unfolding open_fit_def Let_def
      apply (simp only: Some option.simps False if_False)
      apply (intro ebind_error compose_header_error check_header_error load_images_error
          classify_error trim_error dump_header_error)
      apply (rule fin)
      done
  qed
qed

text \<open>
  The warning of the nod and the frame stacks over one round of the loop of \<open>run\<close>,
  and the round of the file at position \<open>k\<close>.
\<close>

lemma open_fit_count_nodpos:
  assumes "open_fit m fs loc im i s = Inr ((ca, cb, nod, header, shape), s0)"
  shows "count_list (messages s0) (WarnNodposMissing x)
           = count_list (messages s) (WarnNodposMissing x)
             + (if i = 0 \<and> \<not> header_contains header ''ESO SEQ NODPOS'' \<and> x = m_scheme m
                then 1 else 0)"
proof -
  from open_fit_messages [OF assms] obtain w1 ws where
    chk: "check_header header = Inr w1"
    and msgs: "messages s0 = messages s @ snd (determine_nod (m_scheme m) header i) @ w1 @ ws"
    and ws: "\<forall>w \<in> set ws. (\<exists>j. w = WarnChopNotFound j) \<or> w = WarnChopUnequal"
    by blast
  have c1: "WarnNodposMissing x \<notin> set w1"
    using check_header_messages [OF chk] .
  have c2: "WarnNodposMissing x \<notin> set ws"
    using ws by auto
  show ?thesis
    using c1 c2 by (simp add: msgs determine_nod_warnings count_list_0_iff)
qed

lemma static_item_count_nodpos:
  assumes "static_item m f h it e item (l, s) = Inr (l', s')"
  shows "count_list (messages s') (WarnNodposMissing x)
           = count_list (messages s) (WarnNodposMissing x)"
proof -
  from static_item_summary [OF assms(1)] show ?thesis
  proof (elim disjE exE conjE)
    assume "s' = s"
    then show ?thesis by simp
  next
    assume "s' = warn [WarnStaticNotFound item (cfg_fitskey m item)] s"
    then show ?thesis by simp
  next
    fix v ws and st :: int and wc
    assume ws: "\<forall>x \<in> set ws. (\<exists>t n. x = StdoutTagEmpty t n) \<and> it = e"
      and wc: "\<forall>x \<in> set wc. (\<exists>t. x = WarnStaticChanged (cfg_fitskey m item) f t) \<and> st = - 1"
      and s': "s' = warn wc ((if st = 1 then add_attribute_all item v else (\<lambda>x. x)) (warn ws s))"
    have m: "messages s' = messages s @ ws @ wc"
      by (cases "st = 1") (simp_all add: s')
    have "WarnNodposMissing x \<notin> set ws" "WarnNodposMissing x \<notin> set wc" using ws wc by auto
    then show ?thesis by (simp add: m count_list_0_iff)
  qed
qed

lemma static_loop_count_nodpos:
  "static_loop m f h it e items (l, s) = Inr (l', s') \<Longrightarrow>
     count_list (messages s') (WarnNodposMissing x) = count_list (messages s) (WarnNodposMissing x)"
proof (induction items arbitrary: l s)
  case Nil
  then show ?case by simp
next
  case (Cons item items)
  from Cons.prems(1) obtain l1 s1 where
    step: "static_item m f h it e item (l, s) = Inr (l1, s1)"
    and rest: "static_loop m f h it e items (l1, s1) = Inr (l', s')"
    by (auto simp: ebind_eq_Inr)
  from static_item_count_nodpos [OF step] Cons.IH [OF rest]
  show ?case by simp
qed

lemma extra_attributes_count_nodpos:
  assumes "extra_attributes m f loc shape nod s = Inr s'"
  shows "count_list (messages s') (WarnNodposMissing x) = count_list (messages s) (WarnNodposMissing x)"
  using extra_attributes_Inr [OF assms]
  by (elim exE conjE) (simp add: same_static_def warn_def split: if_splits)

lemma run_file_count_nodpos:
  assumes "run_file m fs loc e i im s = Inr s'"
    and "open_fit m fs loc im i s = Inr ((ca, cb, nod, header, shape), s0)"
  shows "count_list (messages s') (WarnNodposMissing x)
           = count_list (messages s) (WarnNodposMissing x)
             + (if i = 0 \<and> \<not> header_contains header ''ESO SEQ NODPOS'' \<and> x = m_scheme m
                then 1 else 0)"
proof -
  from run_file_steps [OF assms] obtain s2 s3 s4 where
    st: "static_attributes m im header i e (append_images nod ca cb s0) = Inr s2"
    and ns: "non_static_attributes m header s2 = Inr s3"
    and ex: "extra_attributes m im loc shape nod s3 = Inr s4"
    and s': "s' = flush_ports nod s4"
    by blast
  from static_attributes_Inr [OF st] obtain l' where
    "static_loop m im header i e (m_static m)
       (\<lparr>flag_a = 0, flag_b = 0, flag_c = 0, flag_d = 0, status = None\<rparr>,
        append_images nod ca cb s0) = Inr (l', s2)" ..
  from static_loop_count_nodpos [OF this]
  have c2: "count_list (messages s2) (WarnNodposMissing x)
              = count_list (messages s0) (WarnNodposMissing x)"
    by simp
  have c3: "messages s3 = messages s2"
    using non_static_loop_frame [of m header "m_non_static m" s2 s3] ns
    by (simp add: non_static_attributes_def same_static_def)
  have c4: "count_list (messages s4) (WarnNodposMissing x)
              = count_list (messages s3) (WarnNodposMissing x)"
    by (rule extra_attributes_count_nodpos [OF ex])
  show ?thesis
    by (simp add: s' c4 c3 c2 open_fit_count_nodpos [OF assms(2)])
qed

lemma run_file_images:
  assumes "run_file m fs loc e i im s = Inr s'"
    and "open_fit m fs loc im i s = Inr ((ca, cb, nod, header, shape), s0)"
  shows "images (m_image_out_port_1 s')
           = images (if nod = HStr ''A'' then port_append (m_image_out_port_1 s) ca
                     else m_image_out_port_1 s)"
    and "images (m_image_out_port_2 s')
           = images (if nod = HStr ''A'' then port_append (m_image_out_port_2 s) cb
                     else m_image_out_port_2 s)"
    and "images (m_image_out_port_3 s')
           = images (if nod = HStr ''B'' then port_append (m_image_out_port_3 s) ca
                     else m_image_out_port_3 s)"
    and "images (m_image_out_port_4 s')
           = images (if nod = HStr ''B'' then port_append (m_image_out_port_4 s) cb
                     else m_image_out_port_4 s)"
proof -
  from run_file_steps [OF assms] obtain s2 s3 s4 where
    st: "static_attributes m im header i e (append_images nod ca cb s0) = Inr s2"
    and ns: "non_static_attributes m header s2 = Inr s3"
    and ex: "extra_attributes m im loc shape nod s3 = Inr s4"
    and s': "s' = flush_ports nod s4"
    by blast
  note f2 = static_attributes_frame [OF st, unfolded same_frame_def same_port_def]
  have f3: "same_static s2 s3"
    using non_static_loop_frame [of m header "m_non_static m" s2 s3] ns
    by (simp add: non_static_attributes_def)
  note f4 = extra_attributes_frame [OF ex]
  note p = open_fit_frame(2-5) [OF assms(2)]
  have i1: "images (m_image_out_port_1 s') = images (m_image_out_port_1 (append_images nod ca cb s0))"
    using f2 f3 f4 by (simp add: s' same_static_def)
  have i2: "images (m_image_out_port_2 s') = images (m_image_out_port_2 (append_images nod ca cb s0))"
    using f2 f3 f4 by (simp add: s' same_static_def)
  have i3: "images (m_image_out_port_3 s') = images (m_image_out_port_3 (append_images nod ca cb s0))"
    using f2 f3 f4 by (simp add: s' same_static_def)
  have i4: "images (m_image_out_port_4 s') = images (m_image_out_port_4 (append_images nod ca cb s0))"
    using f2 f3 f4 by (simp add: s' same_static_def)
  show "images (m_image_out_port_1 s')
           = images (if nod = HStr ''A'' then port_append (m_image_out_port_1 s) ca
                     else m_image_out_port_1 s)"
    by (simp add: i1 append_images_def p)
  show "images (m_image_out_port_2 s')
           = images (if nod = HStr ''A'' then port_append (m_image_out_port_2 s) cb
                     else m_image_out_port_2 s)"
    by (simp add: i2 append_images_def p)
  show "images (m_image_out_port_3 s')
           = images (if nod = HStr ''B'' then port_append (m_image_out_port_3 s) ca
                     else m_image_out_port_3 s)"
    by (simp add: i3 append_images_def p)
  show "images (m_image_out_port_4 s')
           = images (if nod = HStr ''B'' then port_append (m_image_out_port_4 s) cb
                     else m_image_out_port_4 s)"
    by (simp add: i4 append_images_def p)
qed

lemma run_files_nth:
  assumes "run_files m fs loc e i files s = Inr s'" and "k < length files"
  shows "\<exists>sk sk'. run_files m fs loc e i (take k files) s = Inr sk
           \<and> run_file m fs loc e (i + k) (files ! k) sk = Inr sk'
           \<and> run_files m fs loc e i (take (Suc k) files) s = Inr sk'"
proof -
  have sp: "files = take k files @ (files ! k # drop (Suc k) files)"
    using assms(2) by (simp add: id_take_nth_drop [symmetric])
  have len: "length (take k files) = k" using assms(2) by simp
  have "run_files m fs loc e i (take k files @ (files ! k # drop (Suc k) files)) s = Inr s'"
    using assms(1) sp by simp
  then obtain sk where
    a: "run_files m fs loc e i (take k files) s = Inr sk"
    and b: "run_files m fs loc e (i + k) (files ! k # drop (Suc k) files) sk = Inr s'"
    unfolding run_files_append len by (auto simp: ebind_eq_Inr)
  from b obtain sk' where c: "run_file m fs loc e (i + k) (files ! k) sk = Inr sk'"
    by (auto simp: ebind_eq_Inr)
  have "run_files m fs loc e i (take (Suc k) files) s
          = run_files m fs loc e i (take k files @ [files ! k]) s"
    using assms(2) by (simp add: take_Suc_conv_app_nth)
  also have "\<dots> = Inr sk'"
    unfolding run_files_append len by (simp add: a c)
  finally show ?thesis using a c by blast
qed

lemma run_files_count_nodpos:
  "run_files m fs loc e i files s = Inr s' \<Longrightarrow>
     count_list (messages s') (WarnNodposMissing x)
       \<le> count_list (messages s) (WarnNodposMissing x) + (if i = 0 then 1 else 0)"
proof (induction files arbitrary: i s)
  case Nil
  then show ?case by simp
next
  case (Cons im files)
  from Cons.prems obtain s1 where
    step: "run_file m fs loc e i im s = Inr s1"
    and rest: "run_files m fs loc e (Suc i) files s1 = Inr s'"
    by (auto simp: ebind_eq_Inr)
  from run_file_Inr [OF step] obtain ca cb nod header shape s0 where
    o: "open_fit m fs loc im i s = Inr ((ca, cb, nod, header, shape), s0)"
    by blast
  from run_file_count_nodpos [OF step o, of x] Cons.IH [OF rest] show ?case
    by (simp split: if_splits)
qed

lemma initialize_Inr:
  assumes "initialize m s = Inr s1"
  shows "m_scheme m = ''ABBA'' \<or> m_scheme m = ''ABAB''" and "messages s1 = messages s"
  using assms by (auto simp: initialize_def ebind_eq_Inr split: if_splits)

lemma run_Inr:
  assumes "run m listing fs s = Inr s_end"
  shows "\<exists>s1 s2. initialize m s = Inr s1
           \<and> run_files m fs (join_dir (m_im_dir m))
                (length (sort (filter (\<lambda>filename. endswith filename ''.fits'') listing)) - 1) 0
                (sort (filter (\<lambda>filename. endswith filename ''.fits'') listing)) s1 = Inr s2
           \<and> s_end = finish s2"
  using assms by (auto simp: run_def ebind_eq_Inr Let_def split: if_splits)

text \<open>
  C4. The nod of a file whose composite header has no key ESO SEQ NODPOS is inferred
  from the index of the file in the sequence.

  \<^item> The rule, for every index and every header without the key: under the scheme ABBA
    the nod is A for an index that is 0 or 3 modulo 4 and B otherwise, under ABAB it is
    A for an even index and B for an odd one; the warning that names the scheme is
    written if the index is 0 and not otherwise.

  \<^item> Under either scheme \<open>open_fit\<close> never raises UnboundLocalError for the nod, at
    any index. The nod that it returns is the nod of the rule for its index, and it
    writes the warning once if the index is 0 and the header has no key, and not at all
    otherwise.

  \<^item> In a run that returns, the scheme is ABBA or ABAB, and the file at position \<open>k\<close> of
    the sorted list of the names that end in .fits is opened with the index \<open>k\<close>, in the
    state left by the \<open>k\<close> files before it. If its composite header has no key, its nod
    is the nod of the rule for \<open>k\<close>; its round of the loop writes the warning once if
    \<open>k\<close> is 0 and the header has no key, and not at all otherwise; its two chop stacks
    are appended to the two ports of nod A if the nod is A and to the two ports of nod B
    if it is B, and the frames of the other ports stay as they are. The whole run
    writes the warning at most once.
\<close>

theorem nod_inferred_from_file_index:
  "(\<not> header_contains header ''ESO SEQ NODPOS'' \<longrightarrow>
       determine_nod ''ABBA'' header number
         = (Some (if number mod 4 = 0 \<or> number mod 4 = 3 then HStr ''A'' else HStr ''B''),
            if number = 0 then [WarnNodposMissing ''ABBA''] else [])
     \<and> determine_nod ''ABAB'' header number
         = (Some (if number mod 2 = 0 then HStr ''A'' else HStr ''B''),
            if number = 0 then [WarnNodposMissing ''ABAB''] else []))
   \<and> (m_scheme m = ''ABBA'' \<or> m_scheme m = ''ABAB'' \<longrightarrow>
        open_fit m fs location image_file number s \<noteq> Inl (UnboundLocalError ''nod''))
   \<and> (open_fit m fs location image_file number s = Inr ((ca, cb, nod, hdr, shape), s') \<longrightarrow>
        fst (determine_nod (m_scheme m) hdr number) = Some nod
        \<and> (\<forall>x. count_list (messages s') (WarnNodposMissing x)
                = count_list (messages s) (WarnNodposMissing x)
                  + (if number = 0 \<and> \<not> header_contains hdr ''ESO SEQ NODPOS'' \<and> x = m_scheme m
                     then 1 else 0)))
   \<and> (run m listing fs s = Inr s_end \<longrightarrow>
        (let files = sort (filter (\<lambda>filename. endswith filename ''.fits'') listing);
             loc = join_dir (m_im_dir m)
         in (m_scheme m = ''ABBA'' \<or> m_scheme m = ''ABAB'')
            \<and> (\<forall>x. count_list (messages s_end) (WarnNodposMissing x)
                    \<le> count_list (messages s) (WarnNodposMissing x) + 1)
            \<and> (\<exists>s1. initialize m s = Inr s1
                 \<and> (\<forall>k < length files. \<exists>hdulist h c1 c2 n sh sk s0 sk'.
                        run_files m fs loc (length files - 1) 0 (take k files) s1 = Inr sk
                      \<and> fs (loc @ files ! k) = Some hdulist
                      \<and> compose_header (length hdulist - 2) (hdu_header (hdulist ! 0))
                           (hdu_header (hdulist ! 1)) = Inr h
                      \<and> open_fit m fs loc (files ! k) k sk = Inr ((c1, c2, n, h, sh), s0)
                      \<and> run_files m fs loc (length files - 1) 0 (take (Suc k) files) s1 = Inr sk'
                      \<and> (\<not> header_contains h ''ESO SEQ NODPOS'' \<longrightarrow>
                           (m_scheme m = ''ABBA'' \<longrightarrow>
                              n = (if k mod 4 = 0 \<or> k mod 4 = 3 then HStr ''A'' else HStr ''B''))
                         \<and> (m_scheme m = ''ABAB'' \<longrightarrow>
                              n = (if k mod 2 = 0 then HStr ''A'' else HStr ''B'')))
                      \<and> (\<forall>x. count_list (messages sk') (WarnNodposMissing x)
                              = count_list (messages sk) (WarnNodposMissing x)
                                + (if k = 0 \<and> \<not> header_contains h ''ESO SEQ NODPOS''
                                      \<and> x = m_scheme m then 1 else 0))
                      \<and> images (m_image_out_port_1 sk')
                          = images (if n = HStr ''A'' then port_append (m_image_out_port_1 sk) c1
                                    else m_image_out_port_1 sk)
                      \<and> images (m_image_out_port_2 sk')
                          = images (if n = HStr ''A'' then port_append (m_image_out_port_2 sk) c2
                                    else m_image_out_port_2 sk)
                      \<and> images (m_image_out_port_3 sk')
                          = images (if n = HStr ''B'' then port_append (m_image_out_port_3 sk) c1
                                    else m_image_out_port_3 sk)
                      \<and> images (m_image_out_port_4 sk')
                          = images (if n = HStr ''B'' then port_append (m_image_out_port_4 sk) c2
                                    else m_image_out_port_4 sk)))))"
proof -
  let ?files = "sort (filter (\<lambda>filename. endswith filename ''.fits'') listing)"
  let ?loc = "join_dir (m_im_dir m)"
  have p1: "\<not> header_contains header ''ESO SEQ NODPOS'' \<longrightarrow>
       determine_nod ''ABBA'' header number
         = (Some (if number mod 4 = 0 \<or> number mod 4 = 3 then HStr ''A'' else HStr ''B''),
            if number = 0 then [WarnNodposMissing ''ABBA''] else [])
     \<and> determine_nod ''ABAB'' header number
         = (Some (if number mod 2 = 0 then HStr ''A'' else HStr ''B''),
            if number = 0 then [WarnNodposMissing ''ABAB''] else [])"
    using determine_nod_fallback(1,2) [of header number] by blast
  have p2: "m_scheme m = ''ABBA'' \<or> m_scheme m = ''ABAB'' \<longrightarrow>
        open_fit m fs location image_file number s \<noteq> Inl (UnboundLocalError ''nod'')"
    using open_fit_nod_bound by blast
  have p3: "open_fit m fs location image_file number s = Inr ((ca, cb, nod, hdr, shape), s') \<longrightarrow>
        fst (determine_nod (m_scheme m) hdr number) = Some nod
        \<and> (\<forall>x. count_list (messages s') (WarnNodposMissing x)
                = count_list (messages s) (WarnNodposMissing x)
                  + (if number = 0 \<and> \<not> header_contains hdr ''ESO SEQ NODPOS'' \<and> x = m_scheme m
                     then 1 else 0))"
  proof
    assume o: "open_fit m fs location image_file number s = Inr ((ca, cb, nod, hdr, shape), s')"
    show "fst (determine_nod (m_scheme m) hdr number) = Some nod
        \<and> (\<forall>x. count_list (messages s') (WarnNodposMissing x)
                = count_list (messages s) (WarnNodposMissing x)
                  + (if number = 0 \<and> \<not> header_contains hdr ''ESO SEQ NODPOS'' \<and> x = m_scheme m
                     then 1 else 0))"
      by (intro conjI allI) (rule open_fit_nod [OF o], rule open_fit_count_nodpos [OF o])
  qed
  have p4: "(m_scheme m = ''ABBA'' \<or> m_scheme m = ''ABAB'')
            \<and> (\<forall>x. count_list (messages s_end) (WarnNodposMissing x)
                    \<le> count_list (messages s) (WarnNodposMissing x) + 1)
            \<and> (\<exists>s1. initialize m s = Inr s1
                 \<and> (\<forall>k < length ?files. \<exists>hdulist h c1 c2 n sh sk s0 sk'.
                        run_files m fs ?loc (length ?files - 1) 0 (take k ?files) s1 = Inr sk
                      \<and> fs (?loc @ ?files ! k) = Some hdulist
                      \<and> compose_header (length hdulist - 2) (hdu_header (hdulist ! 0))
                           (hdu_header (hdulist ! 1)) = Inr h
                      \<and> open_fit m fs ?loc (?files ! k) k sk = Inr ((c1, c2, n, h, sh), s0)
                      \<and> run_files m fs ?loc (length ?files - 1) 0 (take (Suc k) ?files) s1 = Inr sk'
                      \<and> (\<not> header_contains h ''ESO SEQ NODPOS'' \<longrightarrow>
                           (m_scheme m = ''ABBA'' \<longrightarrow>
                              n = (if k mod 4 = 0 \<or> k mod 4 = 3 then HStr ''A'' else HStr ''B''))
                         \<and> (m_scheme m = ''ABAB'' \<longrightarrow>
                              n = (if k mod 2 = 0 then HStr ''A'' else HStr ''B'')))
                      \<and> (\<forall>x. count_list (messages sk') (WarnNodposMissing x)
                              = count_list (messages sk) (WarnNodposMissing x)
                                + (if k = 0 \<and> \<not> header_contains h ''ESO SEQ NODPOS''
                                      \<and> x = m_scheme m then 1 else 0))
                      \<and> images (m_image_out_port_1 sk')
                          = images (if n = HStr ''A'' then port_append (m_image_out_port_1 sk) c1
                                    else m_image_out_port_1 sk)
                      \<and> images (m_image_out_port_2 sk')
                          = images (if n = HStr ''A'' then port_append (m_image_out_port_2 sk) c2
                                    else m_image_out_port_2 sk)
                      \<and> images (m_image_out_port_3 sk')
                          = images (if n = HStr ''B'' then port_append (m_image_out_port_3 sk) c1
                                    else m_image_out_port_3 sk)
                      \<and> images (m_image_out_port_4 sk')
                          = images (if n = HStr ''B'' then port_append (m_image_out_port_4 sk) c2
                                    else m_image_out_port_4 sk)))"
    if r: "run m listing fs s = Inr s_end"
  proof -
    from run_Inr [OF r] obtain s1 s2 where
      ini: "initialize m s = Inr s1"
      and rf: "run_files m fs ?loc (length ?files - 1) 0 ?files s1 = Inr s2"
      and e: "s_end = finish s2"
      by blast
    have sch: "m_scheme m = ''ABBA'' \<or> m_scheme m = ''ABAB''"
      by (rule initialize_Inr(1) [OF ini])
    have m1: "messages s1 = messages s"
      by (rule initialize_Inr(2) [OF ini])
    have me: "messages s_end = messages s2"
      by (simp add: e finish_def)
    have cnt: "\<forall>x. count_list (messages s_end) (WarnNodposMissing x)
                    \<le> count_list (messages s) (WarnNodposMissing x) + 1"
      using run_files_count_nodpos [OF rf] by (simp add: me m1)
    have each: "\<exists>hdulist h c1 c2 n sh sk s0 sk'.
                        run_files m fs ?loc (length ?files - 1) 0 (take k ?files) s1 = Inr sk
                      \<and> fs (?loc @ ?files ! k) = Some hdulist
                      \<and> compose_header (length hdulist - 2) (hdu_header (hdulist ! 0))
                           (hdu_header (hdulist ! 1)) = Inr h
                      \<and> open_fit m fs ?loc (?files ! k) k sk = Inr ((c1, c2, n, h, sh), s0)
                      \<and> run_files m fs ?loc (length ?files - 1) 0 (take (Suc k) ?files) s1 = Inr sk'
                      \<and> (\<not> header_contains h ''ESO SEQ NODPOS'' \<longrightarrow>
                           (m_scheme m = ''ABBA'' \<longrightarrow>
                              n = (if k mod 4 = 0 \<or> k mod 4 = 3 then HStr ''A'' else HStr ''B''))
                         \<and> (m_scheme m = ''ABAB'' \<longrightarrow>
                              n = (if k mod 2 = 0 then HStr ''A'' else HStr ''B'')))
                      \<and> (\<forall>x. count_list (messages sk') (WarnNodposMissing x)
                              = count_list (messages sk) (WarnNodposMissing x)
                                + (if k = 0 \<and> \<not> header_contains h ''ESO SEQ NODPOS''
                                      \<and> x = m_scheme m then 1 else 0))
                      \<and> images (m_image_out_port_1 sk')
                          = images (if n = HStr ''A'' then port_append (m_image_out_port_1 sk) c1
                                    else m_image_out_port_1 sk)
                      \<and> images (m_image_out_port_2 sk')
                          = images (if n = HStr ''A'' then port_append (m_image_out_port_2 sk) c2
                                    else m_image_out_port_2 sk)
                      \<and> images (m_image_out_port_3 sk')
                          = images (if n = HStr ''B'' then port_append (m_image_out_port_3 sk) c1
                                    else m_image_out_port_3 sk)
                      \<and> images (m_image_out_port_4 sk')
                          = images (if n = HStr ''B'' then port_append (m_image_out_port_4 sk) c2
                                    else m_image_out_port_4 sk)"
      if k: "k < length ?files" for k
    proof -
      from run_files_nth [OF rf k] obtain sk sk' where
        a: "run_files m fs ?loc (length ?files - 1) 0 (take k ?files) s1 = Inr sk"
        and b: "run_file m fs ?loc (length ?files - 1) k (?files ! k) sk = Inr sk'"
        and c: "run_files m fs ?loc (length ?files - 1) 0 (take (Suc k) ?files) s1 = Inr sk'"
        by auto
      from run_file_Inr [OF b] obtain c1 c2 n h sh s0 where
        o: "open_fit m fs ?loc (?files ! k) k sk = Inr ((c1, c2, n, h, sh), s0)"
        by blast
      from open_fit_Inr [OF o] obtain hdulist where
        f: "fs (?loc @ ?files ! k) = Some hdulist"
        and ch: "compose_header (length hdulist - 2) (hdu_header (hdulist ! 0))
                   (hdu_header (hdulist ! 1)) = Inr h"
        by blast
      have nd: "fst (determine_nod (m_scheme m) h k) = Some n"
        by (rule open_fit_nod [OF o])
      have nrule: "\<not> header_contains h ''ESO SEQ NODPOS'' \<longrightarrow>
                           (m_scheme m = ''ABBA'' \<longrightarrow>
                              n = (if k mod 4 = 0 \<or> k mod 4 = 3 then HStr ''A'' else HStr ''B''))
                         \<and> (m_scheme m = ''ABAB'' \<longrightarrow>
                              n = (if k mod 2 = 0 then HStr ''A'' else HStr ''B''))"
        using determine_nod_fallback(1,2) [of h k] nd by auto
      have w: "\<forall>x. count_list (messages sk') (WarnNodposMissing x)
                              = count_list (messages sk) (WarnNodposMissing x)
                                + (if k = 0 \<and> \<not> header_contains h ''ESO SEQ NODPOS''
                                      \<and> x = m_scheme m then 1 else 0)"
        by (intro allI) (rule run_file_count_nodpos [OF b o])
      note im = run_file_images [OF b o]
      show ?thesis
        apply (rule exI [of _ hdulist], rule exI [of _ h], rule exI [of _ c1],
               rule exI [of _ c2], rule exI [of _ n], rule exI [of _ sh], rule exI [of _ sk],
               rule exI [of _ s0], rule exI [of _ sk'])
        using a f ch o c nrule w im apply (intro conjI)
                  apply assumption+
        done
    qed
    from sch cnt ini each show ?thesis by blast
  qed
  show ?thesis
    unfolding Let_def
    apply (intro conjI)
       apply (rule p1)
      apply (rule p2)
     apply (rule p3)
    apply (rule impI)
    apply (erule p4)
    done
qed

theorem nod_inferred_from_file_index_witness:
  "determine_nod ''ABBA''
     (fst (snd (snd (snd (fst (projr (open_fit (ex_seq_module ''ABBA'') ex_seq_fs
        ''im_in/'' ''n3.fits'' 3 ex_state))))))) 3 = (Some (HStr ''A''), [])
   \<and> determine_nod ''ABAB''
     (fst (snd (snd (snd (fst (projr (open_fit (ex_seq_module ''ABBA'') ex_seq_fs
        ''im_in/'' ''n3.fits'' 3 ex_state))))))) 3 = (Some (HStr ''B''), [])
   \<and> open_fit (ex_seq_module ''ABBA'') ex_seq_fs ''im_in/'' ''n3.fits'' 3 ex_state
       \<noteq> Inl (UnboundLocalError ''nod'')
   \<and> fst (snd (snd (fst (projr (open_fit (ex_seq_module ''ABBA'') ex_seq_fs
        ''im_in/'' ''n3.fits'' 3 ex_state))))) = HStr ''A''
   \<and> count_list (messages (snd (projr (open_fit (ex_seq_module ''ABBA'') ex_seq_fs
        ''im_in/'' ''n3.fits'' 3 ex_state)))) (WarnNodposMissing ''ABBA'') = 0
   \<and> count_list (messages (projr (run (ex_seq_module ''ABBA'')
        [''n2.fits'', ''n0.fits'', ''notes.txt'', ''n3.fits'', ''n1.fits''] ex_seq_fs ex_state)))
        (WarnNodposMissing ''ABBA'') \<le> 1
   \<and> (\<exists>sk c1 c2 h sh s0 sk'.
        run_files (ex_seq_module ''ABBA'') ex_seq_fs ''im_in/'' 3 0 [''n0.fits'', ''n1.fits'', ''n2.fits'']
          (projr (initialize (ex_seq_module ''ABBA'') ex_state)) = Inr sk
      \<and> open_fit (ex_seq_module ''ABBA'') ex_seq_fs ''im_in/'' ''n3.fits'' 3 sk
          = Inr ((c1, c2, HStr ''A'', h, sh), s0)
      \<and> run_files (ex_seq_module ''ABBA'') ex_seq_fs ''im_in/'' 3 0
          [''n0.fits'', ''n1.fits'', ''n2.fits'', ''n3.fits'']
          (projr (initialize (ex_seq_module ''ABBA'') ex_state)) = Inr sk'
      \<and> count_list (messages sk') (WarnNodposMissing ''ABBA'')
          = count_list (messages sk) (WarnNodposMissing ''ABBA'')
      \<and> images (m_image_out_port_1 sk') = images (port_append (m_image_out_port_1 sk) c1)
      \<and> images (m_image_out_port_2 sk') = images (port_append (m_image_out_port_2 sk) c2)
      \<and> images (m_image_out_port_3 sk') = images (m_image_out_port_3 sk)
      \<and> images (m_image_out_port_4 sk') = images (m_image_out_port_4 sk))
   \<and> (\<exists>sk c1 c2 h sh s0 sk'.
        run_files (ex_seq_module ''ABAB'') ex_seq_fs ''im_in/'' 3 0 [''n0.fits'', ''n1.fits'', ''n2.fits'']
          (projr (initialize (ex_seq_module ''ABAB'') ex_state)) = Inr sk
      \<and> open_fit (ex_seq_module ''ABAB'') ex_seq_fs ''im_in/'' ''n3.fits'' 3 sk
          = Inr ((c1, c2, HStr ''B'', h, sh), s0)
      \<and> run_files (ex_seq_module ''ABAB'') ex_seq_fs ''im_in/'' 3 0
          [''n0.fits'', ''n1.fits'', ''n2.fits'', ''n3.fits'']
          (projr (initialize (ex_seq_module ''ABAB'') ex_state)) = Inr sk'
      \<and> count_list (messages sk') (WarnNodposMissing ''ABAB'')
          = count_list (messages sk) (WarnNodposMissing ''ABAB'')
      \<and> images (m_image_out_port_1 sk') = images (m_image_out_port_1 sk)
      \<and> images (m_image_out_port_2 sk') = images (m_image_out_port_2 sk)
      \<and> images (m_image_out_port_3 sk') = images (port_append (m_image_out_port_3 sk) c1)
      \<and> images (m_image_out_port_4 sk') = images (port_append (m_image_out_port_4 sk) c2))"
proof -
  let ?L = "[''n2.fits'', ''n0.fits'', ''notes.txt'', ''n3.fits'', ''n1.fits'']"
  let ?F = "[''n0.fits'', ''n1.fits'', ''n2.fits'', ''n3.fits'']"
  let ?C = "compose_header (length (the (ex_seq_fs ''im_in/n3.fits'')) - 2)
              (hdu_header (the (ex_seq_fs ''im_in/n3.fits'') ! 0))
              (hdu_header (the (ex_seq_fs ''im_in/n3.fits'') ! 1))"
  have fl: "sort (filter (\<lambda>filename. endswith filename ''.fits'') ?L) = ?F" by code_simp
  have chh: "\<not> header_contains (projr ?C) ''ESO SEQ NODPOS''" by code_simp
  have m0: "messages ex_state = []" by (simp add: ex_state_def)
  have k: "(3::nat) < length ?F" by simp
  have e1: "length ?F - 1 = 3" "take 3 ?F = [''n0.fits'', ''n1.fits'', ''n2.fits'']"
    "?F ! 3 = ''n3.fits''" "take (Suc 3) ?F = ?F" "''im_in/'' @ ''n3.fits'' = ''im_in/n3.fits''"
    by simp_all
  let ?M = "ex_seq_module ''ABBA''"
  let ?o = "open_fit ?M ex_seq_fs ''im_in/'' ''n3.fits'' 3 ex_state"
  let ?H = "fst (snd (snd (snd (fst (projr ?o)))))"
  let ?r = "run ?M ?L ex_seq_fs ex_state"
  have oi: "\<not> isl ?o" by code_simp
  have oh: "\<not> header_contains ?H ''ESO SEQ NODPOS''" by code_simp
  have ri: "\<not> isl ?r" by code_simp
  have jd: "join_dir (m_im_dir ?M) = ''im_in/''" by code_simp
  have sch: "m_scheme ?M = ''ABBA''" by (simp add: ex_seq_module_def near_init_def)
  from oi have oeq: "?o = Inr ((fst (fst (projr ?o)), fst (snd (fst (projr ?o))),
                       fst (snd (snd (fst (projr ?o)))), ?H,
                       snd (snd (snd (snd (fst (projr ?o)))))), snd (projr ?o))"
    by (cases ?o) simp_all
  from ri have req: "?r = Inr (projr ?r)" by (cases ?r) simp_all
  note T = nod_inferred_from_file_index [where header = ?H and number = 3 and m = ?M
      and fs = ex_seq_fs and location = "''im_in/''" and image_file = "''n3.fits''"
      and s = ex_state and ca = "fst (fst (projr ?o))" and cb = "fst (snd (fst (projr ?o)))"
      and nod = "fst (snd (snd (fst (projr ?o))))" and hdr = ?H
      and shape = "snd (snd (snd (snd (fst (projr ?o)))))" and s' = "snd (projr ?o)"
      and listing = ?L and s_end = "projr ?r"]
  note T1 = T [THEN conjunct1, THEN mp, OF oh]
  note T2 = T [THEN conjunct2, THEN conjunct1, THEN mp, OF disjI1, OF sch]
  note T3 = T [THEN conjunct2, THEN conjunct2, THEN conjunct1, THEN mp, OF oeq]
  note T4 = T [THEN conjunct2, THEN conjunct2, THEN conjunct2, THEN mp, OF req,
               unfolded Let_def fl jd]
  have a1: "determine_nod ''ABBA'' ?H 3 = (Some (HStr ''A''), [])"
    using T1 [THEN conjunct1] by simp
  have a2: "determine_nod ''ABAB'' ?H 3 = (Some (HStr ''B''), [])"
    using T1 [THEN conjunct2] by simp
  have a3: "fst (snd (snd (fst (projr ?o)))) = HStr ''A''"
    using T3 [THEN conjunct1] a1 by (simp add: sch)
  have a4: "count_list (messages (snd (projr ?o))) (WarnNodposMissing ''ABBA'') = 0"
    using T3 [THEN conjunct2, rule_format, of "''ABBA''"] by (simp add: m0)
  have a5: "count_list (messages (projr ?r)) (WarnNodposMissing ''ABBA'') \<le> 1"
    using T4 [THEN conjunct2, THEN conjunct1, rule_format, of "''ABBA''"] by (simp add: m0)
  have abba: "(\<exists>sk c1 c2 h sh s0 sk'.
        run_files (ex_seq_module ''ABBA'') ex_seq_fs ''im_in/'' 3 0 [''n0.fits'', ''n1.fits'', ''n2.fits'']
          (projr (initialize (ex_seq_module ''ABBA'') ex_state)) = Inr sk
      \<and> open_fit (ex_seq_module ''ABBA'') ex_seq_fs ''im_in/'' ''n3.fits'' 3 sk
          = Inr ((c1, c2, HStr ''A'', h, sh), s0)
      \<and> run_files (ex_seq_module ''ABBA'') ex_seq_fs ''im_in/'' 3 0
          [''n0.fits'', ''n1.fits'', ''n2.fits'', ''n3.fits'']
          (projr (initialize (ex_seq_module ''ABBA'') ex_state)) = Inr sk'
      \<and> count_list (messages sk') (WarnNodposMissing ''ABBA'')
          = count_list (messages sk) (WarnNodposMissing ''ABBA'')
      \<and> images (m_image_out_port_1 sk') = images (port_append (m_image_out_port_1 sk) c1)
      \<and> images (m_image_out_port_2 sk') = images (port_append (m_image_out_port_2 sk) c2)
      \<and> images (m_image_out_port_3 sk') = images (m_image_out_port_3 sk)
      \<and> images (m_image_out_port_4 sk') = images (m_image_out_port_4 sk))"
  proof -
    let ?M = "ex_seq_module ''ABBA''"
    let ?o = "open_fit ?M ex_seq_fs ''im_in/'' ''n3.fits'' 3 ex_state"
    let ?r = "run ?M ?L ex_seq_fs ex_state"
    note T4 = nod_inferred_from_file_index [where m = ?M and fs = ex_seq_fs and s = ex_state
        and listing = ?L and s_end = "projr ?r",
        THEN conjunct2, THEN conjunct2, THEN conjunct2, THEN mp, OF req, unfolded Let_def fl jd]
    from T4 [THEN conjunct2, THEN conjunct2] obtain s1 where
      ini: "initialize ?M ex_state = Inr s1"
      and each: "\<forall>k<length ?F. \<exists>hdulist h c1 c2 n sh sk s0 sk'.
          run_files ?M ex_seq_fs ''im_in/'' (length ?F - 1) 0 (take k ?F) s1 = Inr sk
        \<and> ex_seq_fs (''im_in/'' @ ?F ! k) = Some hdulist
        \<and> compose_header (length hdulist - 2) (hdu_header (hdulist ! 0))
             (hdu_header (hdulist ! 1)) = Inr h
        \<and> open_fit ?M ex_seq_fs ''im_in/'' (?F ! k) k sk = Inr ((c1, c2, n, h, sh), s0)
        \<and> run_files ?M ex_seq_fs ''im_in/'' (length ?F - 1) 0 (take (Suc k) ?F) s1 = Inr sk'
        \<and> (\<not> header_contains h ''ESO SEQ NODPOS'' \<longrightarrow>
             (m_scheme ?M = ''ABBA'' \<longrightarrow>
                n = (if k mod 4 = 0 \<or> k mod 4 = 3 then HStr ''A'' else HStr ''B''))
           \<and> (m_scheme ?M = ''ABAB'' \<longrightarrow>
                n = (if k mod 2 = 0 then HStr ''A'' else HStr ''B'')))
        \<and> (\<forall>x. count_list (messages sk') (WarnNodposMissing x)
                = count_list (messages sk) (WarnNodposMissing x)
                  + (if k = 0 \<and> \<not> header_contains h ''ESO SEQ NODPOS''
                        \<and> x = m_scheme ?M then 1 else 0))
        \<and> images (m_image_out_port_1 sk')
            = images (if n = HStr ''A'' then port_append (m_image_out_port_1 sk) c1
                      else m_image_out_port_1 sk)
        \<and> images (m_image_out_port_2 sk')
            = images (if n = HStr ''A'' then port_append (m_image_out_port_2 sk) c2
                      else m_image_out_port_2 sk)
        \<and> images (m_image_out_port_3 sk')
            = images (if n = HStr ''B'' then port_append (m_image_out_port_3 sk) c1
                      else m_image_out_port_3 sk)
        \<and> images (m_image_out_port_4 sk')
            = images (if n = HStr ''B'' then port_append (m_image_out_port_4 sk) c2
                      else m_image_out_port_4 sk)"
      by blast
    have s1: "s1 = projr (initialize ?M ex_state)" using ini by simp
    from each [rule_format, OF k, unfolded e1] obtain hdulist h c1 c2 n sh sk s0 sk' where
      b1: "run_files ?M ex_seq_fs ''im_in/'' 3 0 [''n0.fits'', ''n1.fits'', ''n2.fits''] s1 = Inr sk"
      and b2: "ex_seq_fs ''im_in/n3.fits'' = Some hdulist"
      and b3: "compose_header (length hdulist - 2) (hdu_header (hdulist ! 0))
                 (hdu_header (hdulist ! 1)) = Inr h"
      and b4: "open_fit ?M ex_seq_fs ''im_in/'' ''n3.fits'' 3 sk = Inr ((c1, c2, n, h, sh), s0)"
      and b5: "run_files ?M ex_seq_fs ''im_in/'' 3 0 ?F s1 = Inr sk'"
      and b6: "\<not> header_contains h ''ESO SEQ NODPOS'' \<longrightarrow>
             (m_scheme ?M = ''ABBA'' \<longrightarrow>
                n = (if (3::nat) mod 4 = 0 \<or> (3::nat) mod 4 = 3 then HStr ''A'' else HStr ''B''))
           \<and> (m_scheme ?M = ''ABAB'' \<longrightarrow>
                n = (if (3::nat) mod 2 = 0 then HStr ''A'' else HStr ''B''))"
      and b7: "\<forall>x. count_list (messages sk') (WarnNodposMissing x)
                = count_list (messages sk) (WarnNodposMissing x)
                  + (if (3::nat) = 0 \<and> \<not> header_contains h ''ESO SEQ NODPOS''
                        \<and> x = m_scheme ?M then 1 else 0)"
      and b8: "images (m_image_out_port_1 sk')
            = images (if n = HStr ''A'' then port_append (m_image_out_port_1 sk) c1
                      else m_image_out_port_1 sk)"
      and b9: "images (m_image_out_port_2 sk')
            = images (if n = HStr ''A'' then port_append (m_image_out_port_2 sk) c2
                      else m_image_out_port_2 sk)"
      and b10: "images (m_image_out_port_3 sk')
            = images (if n = HStr ''B'' then port_append (m_image_out_port_3 sk) c1
                      else m_image_out_port_3 sk)"
      and b11: "images (m_image_out_port_4 sk')
            = images (if n = HStr ''B'' then port_append (m_image_out_port_4 sk) c2
                      else m_image_out_port_4 sk)"
      by blast
    have hl: "hdulist = the (ex_seq_fs ''im_in/n3.fits'')" using b2 by simp
    have h: "h = projr ?C" using b3 unfolding hl by simp
    have nh: "\<not> header_contains h ''ESO SEQ NODPOS''" unfolding h by (rule chh)
    have n: "n = HStr ''A''" using b6 nh sch by simp
    have c: "count_list (messages sk') (WarnNodposMissing ''ABBA'')
            = count_list (messages sk) (WarnNodposMissing ''ABBA'')"
      using b7 [rule_format, of "''ABBA''"] by simp
    show ?thesis
      apply (rule exI [of _ sk], rule exI [of _ c1], rule exI [of _ c2], rule exI [of _ h],
             rule exI [of _ sh], rule exI [of _ s0], rule exI [of _ sk'])
      using b1 b4 b5 c b8 b9 b10 b11 unfolding n s1 by simp
  qed
  have abab: "(\<exists>sk c1 c2 h sh s0 sk'.
        run_files (ex_seq_module ''ABAB'') ex_seq_fs ''im_in/'' 3 0 [''n0.fits'', ''n1.fits'', ''n2.fits'']
          (projr (initialize (ex_seq_module ''ABAB'') ex_state)) = Inr sk
      \<and> open_fit (ex_seq_module ''ABAB'') ex_seq_fs ''im_in/'' ''n3.fits'' 3 sk
          = Inr ((c1, c2, HStr ''B'', h, sh), s0)
      \<and> run_files (ex_seq_module ''ABAB'') ex_seq_fs ''im_in/'' 3 0
          [''n0.fits'', ''n1.fits'', ''n2.fits'', ''n3.fits'']
          (projr (initialize (ex_seq_module ''ABAB'') ex_state)) = Inr sk'
      \<and> count_list (messages sk') (WarnNodposMissing ''ABAB'')
          = count_list (messages sk) (WarnNodposMissing ''ABAB'')
      \<and> images (m_image_out_port_1 sk') = images (m_image_out_port_1 sk)
      \<and> images (m_image_out_port_2 sk') = images (m_image_out_port_2 sk)
      \<and> images (m_image_out_port_3 sk') = images (port_append (m_image_out_port_3 sk) c1)
      \<and> images (m_image_out_port_4 sk') = images (port_append (m_image_out_port_4 sk) c2))"
  proof -
    let ?M = "ex_seq_module ''ABAB''"
    let ?o = "open_fit ?M ex_seq_fs ''im_in/'' ''n3.fits'' 3 ex_state"
    let ?r = "run ?M ?L ex_seq_fs ex_state"
    have ri: "\<not> isl ?r" by code_simp
    have jd: "join_dir (m_im_dir ?M) = ''im_in/''" by code_simp
    have sch: "m_scheme ?M = ''ABAB''" by (simp add: ex_seq_module_def near_init_def)
    from ri have req: "?r = Inr (projr ?r)" by (cases ?r) simp_all
    note T4 = nod_inferred_from_file_index [where m = ?M and fs = ex_seq_fs and s = ex_state
        and listing = ?L and s_end = "projr ?r",
        THEN conjunct2, THEN conjunct2, THEN conjunct2, THEN mp, OF req, unfolded Let_def fl jd]
    from T4 [THEN conjunct2, THEN conjunct2] obtain s1 where
      ini: "initialize ?M ex_state = Inr s1"
      and each: "\<forall>k<length ?F. \<exists>hdulist h c1 c2 n sh sk s0 sk'.
          run_files ?M ex_seq_fs ''im_in/'' (length ?F - 1) 0 (take k ?F) s1 = Inr sk
        \<and> ex_seq_fs (''im_in/'' @ ?F ! k) = Some hdulist
        \<and> compose_header (length hdulist - 2) (hdu_header (hdulist ! 0))
             (hdu_header (hdulist ! 1)) = Inr h
        \<and> open_fit ?M ex_seq_fs ''im_in/'' (?F ! k) k sk = Inr ((c1, c2, n, h, sh), s0)
        \<and> run_files ?M ex_seq_fs ''im_in/'' (length ?F - 1) 0 (take (Suc k) ?F) s1 = Inr sk'
        \<and> (\<not> header_contains h ''ESO SEQ NODPOS'' \<longrightarrow>
             (m_scheme ?M = ''ABBA'' \<longrightarrow>
                n = (if k mod 4 = 0 \<or> k mod 4 = 3 then HStr ''A'' else HStr ''B''))
           \<and> (m_scheme ?M = ''ABAB'' \<longrightarrow>
                n = (if k mod 2 = 0 then HStr ''A'' else HStr ''B'')))
        \<and> (\<forall>x. count_list (messages sk') (WarnNodposMissing x)
                = count_list (messages sk) (WarnNodposMissing x)
                  + (if k = 0 \<and> \<not> header_contains h ''ESO SEQ NODPOS''
                        \<and> x = m_scheme ?M then 1 else 0))
        \<and> images (m_image_out_port_1 sk')
            = images (if n = HStr ''A'' then port_append (m_image_out_port_1 sk) c1
                      else m_image_out_port_1 sk)
        \<and> images (m_image_out_port_2 sk')
            = images (if n = HStr ''A'' then port_append (m_image_out_port_2 sk) c2
                      else m_image_out_port_2 sk)
        \<and> images (m_image_out_port_3 sk')
            = images (if n = HStr ''B'' then port_append (m_image_out_port_3 sk) c1
                      else m_image_out_port_3 sk)
        \<and> images (m_image_out_port_4 sk')
            = images (if n = HStr ''B'' then port_append (m_image_out_port_4 sk) c2
                      else m_image_out_port_4 sk)"
      by blast
    have s1: "s1 = projr (initialize ?M ex_state)" using ini by simp
    from each [rule_format, OF k, unfolded e1] obtain hdulist h c1 c2 n sh sk s0 sk' where
      b1: "run_files ?M ex_seq_fs ''im_in/'' 3 0 [''n0.fits'', ''n1.fits'', ''n2.fits''] s1 = Inr sk"
      and b2: "ex_seq_fs ''im_in/n3.fits'' = Some hdulist"
      and b3: "compose_header (length hdulist - 2) (hdu_header (hdulist ! 0))
                 (hdu_header (hdulist ! 1)) = Inr h"
      and b4: "open_fit ?M ex_seq_fs ''im_in/'' ''n3.fits'' 3 sk = Inr ((c1, c2, n, h, sh), s0)"
      and b5: "run_files ?M ex_seq_fs ''im_in/'' 3 0 ?F s1 = Inr sk'"
      and b6: "\<not> header_contains h ''ESO SEQ NODPOS'' \<longrightarrow>
             (m_scheme ?M = ''ABBA'' \<longrightarrow>
                n = (if (3::nat) mod 4 = 0 \<or> (3::nat) mod 4 = 3 then HStr ''A'' else HStr ''B''))
           \<and> (m_scheme ?M = ''ABAB'' \<longrightarrow>
                n = (if (3::nat) mod 2 = 0 then HStr ''A'' else HStr ''B''))"
      and b7: "\<forall>x. count_list (messages sk') (WarnNodposMissing x)
                = count_list (messages sk) (WarnNodposMissing x)
                  + (if (3::nat) = 0 \<and> \<not> header_contains h ''ESO SEQ NODPOS''
                        \<and> x = m_scheme ?M then 1 else 0)"
      and b8: "images (m_image_out_port_1 sk')
            = images (if n = HStr ''A'' then port_append (m_image_out_port_1 sk) c1
                      else m_image_out_port_1 sk)"
      and b9: "images (m_image_out_port_2 sk')
            = images (if n = HStr ''A'' then port_append (m_image_out_port_2 sk) c2
                      else m_image_out_port_2 sk)"
      and b10: "images (m_image_out_port_3 sk')
            = images (if n = HStr ''B'' then port_append (m_image_out_port_3 sk) c1
                      else m_image_out_port_3 sk)"
      and b11: "images (m_image_out_port_4 sk')
            = images (if n = HStr ''B'' then port_append (m_image_out_port_4 sk) c2
                      else m_image_out_port_4 sk)"
      by blast
    have hl: "hdulist = the (ex_seq_fs ''im_in/n3.fits'')" using b2 by simp
    have h: "h = projr ?C" using b3 unfolding hl by simp
    have nh: "\<not> header_contains h ''ESO SEQ NODPOS''" unfolding h by (rule chh)
    have n: "n = HStr ''B''" using b6 nh sch by simp
    have c: "count_list (messages sk') (WarnNodposMissing ''ABAB'')
            = count_list (messages sk) (WarnNodposMissing ''ABAB'')"
      using b7 [rule_format, of "''ABAB''"] by simp
    show ?thesis
      apply (rule exI [of _ sk], rule exI [of _ c1], rule exI [of _ c2], rule exI [of _ h],
             rule exI [of _ sh], rule exI [of _ s0], rule exI [of _ sk'])
      using b1 b4 b5 c b8 b9 b10 b11 unfolding n s1 by simp
  qed
  from a1 a2 T2 a3 a4 a5 abba abab show ?thesis
    by (intro conjI)
qed

subsection \<open>The frame counter\<close>

text \<open>
  C1, as stated, fails: the file \<open>a.fits\<close> has two frames tagged HCYCLE1 and one frame
  with an unrecognised tag. After the file the two chop buffers hold two frames, and
  the counter is 3: the frame that was excluded has advanced it.
\<close>

theorem counter_advances_on_unclassified_frame:
  "map (\<lambda>h. header_get (hdu_header h) ''HIERARCH ESO DET FRAM TYPE'')
       (take 3 (tl (the (ex_fs ''im_in/a.fits''))))
     = [Inr (HStr ''HCYCLE1''), Inr (HStr ''HCYCLE1''), Inr (HStr ''OTHER'')]
   \<and> \<not> isl (run_files (ex_module (HBool True) (HBool True)) ex_fs ''im_in/'' 0 0 [''a.fits'']
              ex_state)
   \<and> m_count (projr (run_files (ex_module (HBool True) (HBool True)) ex_fs ''im_in/'' 0 0
                       [''a.fits''] ex_state)) = 3
   \<and> images (m_image_out_port_1 (projr (run_files (ex_module (HBool True) (HBool True)) ex_fs
                       ''im_in/'' 0 0 [''a.fits''] ex_state))) = Some [[[1, 2]], [[3, 4]]]
   \<and> images (m_image_out_port_2 (projr (run_files (ex_module (HBool True) (HBool True)) ex_fs
                       ''im_in/'' 0 0 [''a.fits''] ex_state))) = Some []"
  by code_simp

text \<open>
  C1, amended. When the loop over the files returns, it has returned after every
  prefix of the files as well, and the counter after the first \<open>k\<close> files is its
  initial value plus the number of frames, \<open>len(hdulist) - 2\<close>, of these files, whatever
  their chop tags; so the counter never decreases, and it increases over a file that
  has a frame.
\<close>

theorem counter_counts_all_frames:
  assumes "run_files m fs location end_it i files s = Inr s'" and "k \<le> length files"
  shows "\<exists>sk. run_files m fs location end_it i (take k files) s = Inr sk
           \<and> m_count sk = m_count s
               + sum_list (map (\<lambda>im. nframes fs (location @ im)) (take k files))
           \<and> m_count s \<le> m_count sk \<and> m_count sk \<le> m_count s'"
proof -
  have "run_files m fs location end_it i (take k files @ drop k files) s = Inr s'"
    using assms(1) by simp
  then obtain sk where
    a: "run_files m fs location end_it i (take k files) s = Inr sk"
    and b: "run_files m fs location end_it (i + length (take k files)) (drop k files) sk = Inr s'"
    unfolding run_files_append by (auto simp: ebind_eq_Inr)
  from run_files_count [OF a] run_files_count [OF b] a show ?thesis
    by auto
qed

theorem counter_counts_all_frames_witness:
  "\<exists>sk. run_files (ex_module (HBool True) (HBool True)) ex_fs ''im_in/'' 1 0 [''a.fits'']
           ex_state = Inr sk
         \<and> m_count sk = 3
         \<and> m_count sk \<le> m_count (projr (run_files (ex_module (HBool True) (HBool True)) ex_fs
                                   ''im_in/'' 1 0 [''a.fits'', ''c.fits''] ex_state))"
proof -
  let ?r = "run_files (ex_module (HBool True) (HBool True)) ex_fs ''im_in/'' 1 0
              [''a.fits'', ''c.fits''] ex_state"
  have "\<not> isl ?r" by code_simp
  then have eq: "?r = Inr (projr ?r)" by (cases ?r) simp_all
  have k: "(1::nat) \<le> length [''a.fits'', ''c.fits'']" by simp
  have n: "nframes ex_fs ''im_in/a.fits'' = 3" by code_simp
  have c: "m_count ex_state = 0" by (simp add: ex_state_def)
  from counter_counts_all_frames [OF eq k] n c show ?thesis by simp
qed

subsection \<open>Non-static attributes of a file\<close>

text \<open>
  C2, as stated, fails: \<open>a.fits\<close> has nod A and two frames routed to the stream nod A,
  chop A; one value of NDIT is appended to that stream, not two, and one value is
  appended to the stream nod B, chop A as well, which the nod does not select.
\<close>

theorem one_value_per_file_not_per_frame:
  "\<not> isl (run_file (ex_module (HBool True) (HBool True)) ex_fs ''im_in/'' 0 0 ''a.fits'' ex_state)
   \<and> images (m_image_out_port_1 (projr (run_file (ex_module (HBool True) (HBool True)) ex_fs
               ''im_in/'' 0 0 ''a.fits'' ex_state))) = Some [[[1, 2]], [[3, 4]]]
   \<and> header_data (m_image_out_port_1 (projr (run_file (ex_module (HBool True) (HBool True)) ex_fs
               ''im_in/'' 0 0 ''a.fits'' ex_state))) ''NDIT'' = [HInt 7]
   \<and> images (m_image_out_port_3 (projr (run_file (ex_module (HBool True) (HBool True)) ex_fs
               ''im_in/'' 0 0 ''a.fits'' ex_state))) = None
   \<and> header_data (m_image_out_port_3 (projr (run_file (ex_module (HBool True) (HBool True)) ex_fs
               ''im_in/'' 0 0 ''a.fits'' ex_state))) ''NDIT'' = [HInt 7]"
  by code_simp

text \<open>
  C2, amended. For a file of nod A or B and a configured non-static attribute other
  than INDEX and FILES (the configured names being distinct), the loop body appends to
  the attribute of each of the two streams of that nod the values of
  \<open>non_static_value\<close>: at most one value for the file, read from the composite header,
  and none when the check flag is false or the header has neither the name nor its
  configured key. The attribute is aligned with the files, not with the frames.
\<close>

theorem non_static_value_once_per_file:
  assumes rf: "run_file m fs location end_it i im s = Inr s'"
    and o: "open_fit m fs location im i s = Inr ((ca, cb, nod, header, shape), s0)"
    and d: "distinct (m_non_static m)" and it: "item \<in> set (m_non_static m)"
    and n1: "item \<noteq> ''INDEX''" and n2: "item \<noteq> ''FILES''"
  shows "(nod = HStr ''A'' \<longrightarrow>
            header_data (m_image_out_port_1 s') item
              = header_data (m_image_out_port_1 s) item @ non_static_value m header item
          \<and> header_data (m_image_out_port_2 s') item
              = header_data (m_image_out_port_2 s) item @ non_static_value m header item)
       \<and> (nod = HStr ''B'' \<longrightarrow>
            header_data (m_image_out_port_3 s') item
              = header_data (m_image_out_port_3 s) item @ non_static_value m header item
          \<and> header_data (m_image_out_port_4 s') item
              = header_data (m_image_out_port_4 s) item @ non_static_value m header item)
       \<and> length (non_static_value m header item) \<le> 1"
proof -
  from run_file_steps [OF rf o] obtain s2 s3 s4 where
    st: "static_attributes m im header i end_it (append_images nod ca cb s0) = Inr s2"
    and ns: "non_static_attributes m header s2 = Inr s3"
    and ex: "extra_attributes m im location shape nod s3 = Inr s4"
    and s': "s' = flush_ports nod s4"
    by blast
  note f0 = open_fit_frame [OF o]
  from static_attributes_frame [OF st] have f2:
    "header_data (m_image_out_port_1 s2) = header_data (m_image_out_port_1 s)"
    "header_data (m_image_out_port_2 s2) = header_data (m_image_out_port_2 s)"
    "header_data (m_image_out_port_3 s2) = header_data (m_image_out_port_3 s)"
    "header_data (m_image_out_port_4 s2) = header_data (m_image_out_port_4 s)"
    by (simp_all add: same_frame_def same_port_def f0)
  from ns have loop: "non_static_loop m header (m_non_static m) s2 = Inr s3"
    by (simp add: non_static_attributes_def)
  note f3 = non_static_loop_header_data [OF loop d, of item]
  note f4 = extra_attributes_header_data [OF ex n1 n2]
  have all: "header_data (m_image_out_port_1 s') item
              = header_data (m_image_out_port_1 s) item @ non_static_value m header item
          \<and> header_data (m_image_out_port_2 s') item
              = header_data (m_image_out_port_2 s) item @ non_static_value m header item
          \<and> header_data (m_image_out_port_3 s') item
              = header_data (m_image_out_port_3 s) item @ non_static_value m header item
          \<and> header_data (m_image_out_port_4 s') item
              = header_data (m_image_out_port_4 s) item @ non_static_value m header item"
    using f3 f4 it by (simp add: s' f2)
  with non_static_value_length [of m header item] show ?thesis by simp
qed

theorem non_static_value_once_per_file_witness:
  "header_data (m_image_out_port_1 (projr (run_file (ex_module (HBool True) (HBool True)) ex_fs
       ''im_in/'' 0 0 ''a.fits'' ex_state))) ''NDIT'' = [HInt 7]
   \<and> header_data (m_image_out_port_2 (projr (run_file (ex_module (HBool True) (HBool True)) ex_fs
       ''im_in/'' 0 0 ''a.fits'' ex_state))) ''NDIT'' = [HInt 7]"
proof -
  let ?m = "ex_module (HBool True) (HBool True)"
  let ?r = "run_file ?m ex_fs ''im_in/'' 0 0 ''a.fits'' ex_state"
  let ?o = "open_fit ?m ex_fs ''im_in/'' ''a.fits'' 0 ex_state"
  let ?h = "fst (snd (snd (snd (fst (projr ?o)))))"
  have "\<not> isl ?r" by code_simp
  then have rf: "?r = Inr (projr ?r)" by (cases ?r) simp_all
  have "\<not> isl ?o" by code_simp
  then have o: "?o = Inr ((fst (fst (projr ?o)), fst (snd (fst (projr ?o))),
                       fst (snd (snd (fst (projr ?o)))), ?h,
                       snd (snd (snd (snd (fst (projr ?o)))))), snd (projr ?o))"
    by (cases ?o) simp_all
  have d: "distinct (m_non_static ?m)" by code_simp
  have it: "''NDIT'' \<in> set (m_non_static ?m)" by code_simp
  have n: "''NDIT'' \<noteq> ''INDEX''" "''NDIT'' \<noteq> ''FILES''" by simp_all
  have nod: "fst (snd (snd (fst (projr ?o)))) = HStr ''A''" by code_simp
  have v: "non_static_value ?m ?h ''NDIT'' = [HInt 7]" by code_simp
  have e: "header_data (m_image_out_port_1 ex_state) ''NDIT'' = []"
    "header_data (m_image_out_port_2 ex_state) ''NDIT'' = []"
    by (simp_all add: ex_state_def ex_port_def)
  from non_static_value_once_per_file [OF rf o d it n] nod v e show ?thesis by simp
qed

subsection \<open>A file whose nod is neither A nor B\<close>

text \<open>
  C10. The claim: for any file whose nod is neither A nor B the run still emits the
  warning of \<open>_extra_attributes\<close>, still writes the attributes and still advances the
  counter. The code on \<open>d.fits\<close>, whose nod is C, as the first file of a run (no port
  holds a frame stack yet): nothing is appended, so each of the four checks of
  \<open>_static_attributes\<close> raises KeyError, \<open>status\<close> is never assigned, and the loop
  body raises UnboundLocalError before \<open>_extra_attributes\<close> is reached.
\<close>

theorem unknown_nod_on_empty_streams_raises:
  "\<not> isl (open_fit (ex_module (HBool True) (HBool True)) ex_fs ''im_in/'' ''d.fits'' 0 ex_state)
   \<and> fst (snd (snd (fst (projr (open_fit (ex_module (HBool True) (HBool True)) ex_fs ''im_in/''
          ''d.fits'' 0 ex_state))))) = HStr ''C''
   \<and> images (m_image_out_port_1 ex_state) = None \<and> images (m_image_out_port_2 ex_state) = None
   \<and> images (m_image_out_port_3 ex_state) = None \<and> images (m_image_out_port_4 ex_state) = None
   \<and> isl (run_file (ex_module (HBool True) (HBool True)) ex_fs ''im_in/'' 0 0 ''d.fits'' ex_state)
   \<and> projl (run_file (ex_module (HBool True) (HBool True)) ex_fs ''im_in/'' 0 0 ''d.fits''
              ex_state) = UnboundLocalError ''status''"
  by code_simp

text \<open>
  What the claim says holds whenever the loop body returns for such a file (one of the
  ports holds a frame stack, or no static key is checked): the frame stacks and the
  flush counts of the four ports are unchanged; the warning of \<open>_extra_attributes\<close> is
  written once; the counter has advanced by the number of frames of the file; every
  non-static attribute of every port has grown by exactly the values that
  \<open>_non_static_attributes\<close> appends for the file, so INDEX and FILES get no entry from
  \<open>_extra_attributes\<close>; and a configured static attribute found in the header that the
  fourth port does not hold yet is written to all four ports (all four holding a frame
  stack).
\<close>

theorem file_with_unknown_nod:
  assumes rf: "run_file m fs location end_it i im s = Inr s'"
    and o: "open_fit m fs location im i s = Inr ((ca, cb, nod, header, shape), s0)"
    and na: "nod \<noteq> HStr ''A''" and nb: "nod \<noteq> HStr ''B''"
  shows "images (m_image_out_port_1 s') = images (m_image_out_port_1 s)
       \<and> images (m_image_out_port_2 s') = images (m_image_out_port_2 s)
       \<and> images (m_image_out_port_3 s') = images (m_image_out_port_3 s)
       \<and> images (m_image_out_port_4 s') = images (m_image_out_port_4 s)
       \<and> flushes (m_image_out_port_1 s') = flushes (m_image_out_port_1 s)
       \<and> flushes (m_image_out_port_2 s') = flushes (m_image_out_port_2 s)
       \<and> flushes (m_image_out_port_3 s') = flushes (m_image_out_port_3 s)
       \<and> flushes (m_image_out_port_4 s') = flushes (m_image_out_port_4 s)
       \<and> count_list (messages s') WarnNodNotAB = count_list (messages s) WarnNodNotAB + 1
       \<and> m_count s' = m_count s + nframes fs (location @ im)
       \<and> (distinct (m_non_static m) \<longrightarrow>
            (\<forall>x. header_data (m_image_out_port_1 s') x
                   = header_data (m_image_out_port_1 s) x
                     @ (if x \<in> set (m_non_static m) then non_static_value m header x else [])
               \<and> header_data (m_image_out_port_2 s') x
                   = header_data (m_image_out_port_2 s) x
                     @ (if x \<in> set (m_non_static m) then non_static_value m header x else [])
               \<and> header_data (m_image_out_port_3 s') x
                   = header_data (m_image_out_port_3 s) x
                     @ (if x \<in> set (m_non_static m) then non_static_value m header x else [])
               \<and> header_data (m_image_out_port_4 s') x
                   = header_data (m_image_out_port_4 s) x
                     @ (if x \<in> set (m_non_static m) then non_static_value m header x else [])))
       \<and> (distinct (m_static m) \<and> item \<in> set (m_static m) \<and> truthy (m_check m)
            \<and> cfg_fitskey m item \<noteq> ''None''
            \<and> header_get header (cfg_fitskey m item) = Inr v
            \<and> images (m_image_out_port_1 s) \<noteq> None \<and> images (m_image_out_port_2 s) \<noteq> None
            \<and> images (m_image_out_port_3 s) \<noteq> None \<and> images (m_image_out_port_4 s) \<noteq> None
            \<and> attrs (m_image_out_port_4 s) item = None
          \<longrightarrow> attrs (m_image_out_port_1 s') item = Some v
              \<and> attrs (m_image_out_port_2 s') item = Some v
              \<and> attrs (m_image_out_port_3 s') item = Some v
              \<and> attrs (m_image_out_port_4 s') item = Some v)"
proof -
  from run_file_steps [OF rf o] obtain s2 s3 s4 where
    st0: "static_attributes m im header i end_it (append_images nod ca cb s0) = Inr s2"
    and ns: "non_static_attributes m header s2 = Inr s3"
    and ex: "extra_attributes m im location shape nod s3 = Inr s4"
    and s'0: "s' = flush_ports nod s4"
    by blast
  from st0 na nb have st: "static_attributes m im header i end_it s0 = Inr s2" by simp
  from s'0 na nb have s': "s' = s4" by simp
  note f0 = open_fit_frame [OF o]
  from static_attributes_Inr [OF st] obtain l' where
    sl: "static_loop m im header i end_it (m_static m)
           (\<lparr>flag_a = 0, flag_b = 0, flag_c = 0, flag_d = 0, status = None\<rparr>, s0) = Inr (l', s2)"
    by blast
  from static_loop_frame [OF sl] have f2: "same_frame s0 s2" .
  from ns have loop: "non_static_loop m header (m_non_static m) s2 = Inr s3"
    by (simp add: non_static_attributes_def)
  from non_static_loop_frame [OF loop] have f3: "same_static s2 s3" .
  note e4 = extra_attributes_other_nod [OF ex na nb]
  have img: "images (m_image_out_port_1 s') = images (m_image_out_port_1 s)
       \<and> images (m_image_out_port_2 s') = images (m_image_out_port_2 s)
       \<and> images (m_image_out_port_3 s') = images (m_image_out_port_3 s)
       \<and> images (m_image_out_port_4 s') = images (m_image_out_port_4 s)"
    using f2 f3 by (simp add: s' e4 same_frame_def same_port_def same_static_def f0)
  have fl: "flushes (m_image_out_port_1 s') = flushes (m_image_out_port_1 s)
       \<and> flushes (m_image_out_port_2 s') = flushes (m_image_out_port_2 s)
       \<and> flushes (m_image_out_port_3 s') = flushes (m_image_out_port_3 s)
       \<and> flushes (m_image_out_port_4 s') = flushes (m_image_out_port_4 s)"
    using f2 f3 by (simp add: s' e4 same_frame_def same_port_def same_static_def f0)
  have msg: "count_list (messages s') WarnNodNotAB = count_list (messages s) WarnNodNotAB + 1"
    using open_fit_count_nod [OF o] static_loop_count_nod [OF sl] f3
    by (simp add: s' e4 same_static_def)
  have cnt: "m_count s' = m_count s + nframes fs (location @ im)"
    by (rule run_file_count [OF rf])
  have hd: "distinct (m_non_static m) \<longrightarrow>
            (\<forall>x. header_data (m_image_out_port_1 s') x
                   = header_data (m_image_out_port_1 s) x
                     @ (if x \<in> set (m_non_static m) then non_static_value m header x else [])
               \<and> header_data (m_image_out_port_2 s') x
                   = header_data (m_image_out_port_2 s) x
                     @ (if x \<in> set (m_non_static m) then non_static_value m header x else [])
               \<and> header_data (m_image_out_port_3 s') x
                   = header_data (m_image_out_port_3 s) x
                     @ (if x \<in> set (m_non_static m) then non_static_value m header x else [])
               \<and> header_data (m_image_out_port_4 s') x
                   = header_data (m_image_out_port_4 s) x
                     @ (if x \<in> set (m_non_static m) then non_static_value m header x else []))"
  proof (intro impI allI)
    fix x
    assume d: "distinct (m_non_static m)"
    from f2 have h2:
      "header_data (m_image_out_port_1 s2) = header_data (m_image_out_port_1 s)"
      "header_data (m_image_out_port_2 s2) = header_data (m_image_out_port_2 s)"
      "header_data (m_image_out_port_3 s2) = header_data (m_image_out_port_3 s)"
      "header_data (m_image_out_port_4 s2) = header_data (m_image_out_port_4 s)"
      by (simp_all add: same_frame_def same_port_def f0)
    from non_static_loop_header_data [OF loop d, of x]
    show "header_data (m_image_out_port_1 s') x
                   = header_data (m_image_out_port_1 s) x
                     @ (if x \<in> set (m_non_static m) then non_static_value m header x else [])
               \<and> header_data (m_image_out_port_2 s') x
                   = header_data (m_image_out_port_2 s) x
                     @ (if x \<in> set (m_non_static m) then non_static_value m header x else [])
               \<and> header_data (m_image_out_port_3 s') x
                   = header_data (m_image_out_port_3 s) x
                     @ (if x \<in> set (m_non_static m) then non_static_value m header x else [])
               \<and> header_data (m_image_out_port_4 s') x
                   = header_data (m_image_out_port_4 s) x
                     @ (if x \<in> set (m_non_static m) then non_static_value m header x else [])"
      by (simp add: s' e4 h2)
  qed
  have at: "distinct (m_static m) \<and> item \<in> set (m_static m) \<and> truthy (m_check m)
            \<and> cfg_fitskey m item \<noteq> ''None''
            \<and> header_get header (cfg_fitskey m item) = Inr v
            \<and> images (m_image_out_port_1 s) \<noteq> None \<and> images (m_image_out_port_2 s) \<noteq> None
            \<and> images (m_image_out_port_3 s) \<noteq> None \<and> images (m_image_out_port_4 s) \<noteq> None
            \<and> attrs (m_image_out_port_4 s) item = None
          \<longrightarrow> attrs (m_image_out_port_1 s') item = Some v
              \<and> attrs (m_image_out_port_2 s') item = Some v
              \<and> attrs (m_image_out_port_3 s') item = Some v
              \<and> attrs (m_image_out_port_4 s') item = Some v"
  proof
    assume h: "distinct (m_static m) \<and> item \<in> set (m_static m) \<and> truthy (m_check m)
            \<and> cfg_fitskey m item \<noteq> ''None''
            \<and> header_get header (cfg_fitskey m item) = Inr v
            \<and> images (m_image_out_port_1 s) \<noteq> None \<and> images (m_image_out_port_2 s) \<noteq> None
            \<and> images (m_image_out_port_3 s) \<noteq> None \<and> images (m_image_out_port_4 s) \<noteq> None
            \<and> attrs (m_image_out_port_4 s) item = None"
    then have pre: "distinct (m_static m)" "item \<in> set (m_static m)" "truthy (m_check m)"
      "cfg_fitskey m item \<noteq> ''None''" "header_get header (cfg_fitskey m item) = Inr v"
      "images (m_image_out_port_1 s0) \<noteq> None" "images (m_image_out_port_2 s0) \<noteq> None"
      "images (m_image_out_port_3 s0) \<noteq> None" "images (m_image_out_port_4 s0) \<noteq> None"
      "attrs (m_image_out_port_4 s0) item = None"
      by (simp_all add: f0)
    from static_loop_writes [OF sl pre] f3
    show "attrs (m_image_out_port_1 s') item = Some v
              \<and> attrs (m_image_out_port_2 s') item = Some v
              \<and> attrs (m_image_out_port_3 s') item = Some v
              \<and> attrs (m_image_out_port_4 s') item = Some v"
      by (simp add: s' e4 same_static_def)
  qed
  from img fl msg cnt hd at show ?thesis by blast
qed

theorem file_with_unknown_nod_witness:
  "images (m_image_out_port_1 (projr (run_file (ex_module (HBool True) (HBool True)) ex_fs
       ''im_in/'' 0 0 ''d.fits'' ex_loaded))) = Some []
   \<and> flushes (m_image_out_port_1 (projr (run_file (ex_module (HBool True) (HBool True)) ex_fs
       ''im_in/'' 0 0 ''d.fits'' ex_loaded))) = 0
   \<and> count_list (messages (projr (run_file (ex_module (HBool True) (HBool True)) ex_fs
       ''im_in/'' 0 0 ''d.fits'' ex_loaded))) WarnNodNotAB = 1
   \<and> m_count (projr (run_file (ex_module (HBool True) (HBool True)) ex_fs
       ''im_in/'' 0 0 ''d.fits'' ex_loaded)) = 2
   \<and> header_data (m_image_out_port_1 (projr (run_file (ex_module (HBool True) (HBool True)) ex_fs
       ''im_in/'' 0 0 ''d.fits'' ex_loaded))) ''NDIT'' = [HInt 7]
   \<and> header_data (m_image_out_port_1 (projr (run_file (ex_module (HBool True) (HBool True)) ex_fs
       ''im_in/'' 0 0 ''d.fits'' ex_loaded))) ''INDEX'' = []
   \<and> header_data (m_image_out_port_1 (projr (run_file (ex_module (HBool True) (HBool True)) ex_fs
       ''im_in/'' 0 0 ''d.fits'' ex_loaded))) ''FILES'' = []
   \<and> attrs (m_image_out_port_1 (projr (run_file (ex_module (HBool True) (HBool True)) ex_fs
       ''im_in/'' 0 0 ''d.fits'' ex_loaded))) ''INSTRUMENT'' = Some (HStr ''VISIR'')
   \<and> attrs (m_image_out_port_4 (projr (run_file (ex_module (HBool True) (HBool True)) ex_fs
       ''im_in/'' 0 0 ''d.fits'' ex_loaded))) ''INSTRUMENT'' = Some (HStr ''VISIR'')"
proof -
  let ?m = "ex_module (HBool True) (HBool True)"
  let ?r = "run_file ?m ex_fs ''im_in/'' 0 0 ''d.fits'' ex_loaded"
  let ?o = "open_fit ?m ex_fs ''im_in/'' ''d.fits'' 0 ex_loaded"
  let ?h = "fst (snd (snd (snd (fst (projr ?o)))))"
  let ?nod = "fst (snd (snd (fst (projr ?o))))"
  have "\<not> isl ?r" by code_simp
  then have rf: "?r = Inr (projr ?r)" by (cases ?r) simp_all
  have "\<not> isl ?o" by code_simp
  then have o: "?o = Inr ((fst (fst (projr ?o)), fst (snd (fst (projr ?o))), ?nod, ?h,
                       snd (snd (snd (snd (fst (projr ?o)))))), snd (projr ?o))"
    by (cases ?o) simp_all
  have na: "?nod \<noteq> HStr ''A''" and nb: "?nod \<noteq> HStr ''B''" by code_simp+
  have d: "distinct (m_non_static ?m)" by code_simp
  have st: "distinct (m_static ?m) \<and> ''INSTRUMENT'' \<in> set (m_static ?m) \<and> truthy (m_check ?m)
            \<and> cfg_fitskey ?m ''INSTRUMENT'' \<noteq> ''None''"
    by code_simp
  have hv: "header_get ?h (cfg_fitskey ?m ''INSTRUMENT'') = Inr (HStr ''VISIR'')" by code_simp
  have ld: "images (m_image_out_port_1 ex_loaded) \<noteq> None \<and> images (m_image_out_port_2 ex_loaded) \<noteq> None
            \<and> images (m_image_out_port_3 ex_loaded) \<noteq> None \<and> images (m_image_out_port_4 ex_loaded) \<noteq> None
            \<and> attrs (m_image_out_port_4 ex_loaded) ''INSTRUMENT'' = None"
    by (simp add: ex_loaded_def ex_state_def ex_port_def)
  have v: "non_static_value ?m ?h ''NDIT'' = [HInt 7]" "non_static_value ?m ?h ''INDEX'' = []"
    "non_static_value ?m ?h ''FILES'' = []"
    by code_simp+
  have e: "images (m_image_out_port_1 ex_loaded) = Some []" "flushes (m_image_out_port_1 ex_loaded) = 0"
    "messages ex_loaded = []" "m_count ex_loaded = 0"
    "header_data (m_image_out_port_1 ex_loaded) = (\<lambda>name. [])"
    by (simp_all add: ex_loaded_def ex_state_def ex_port_def)
  have n: "nframes ex_fs ''im_in/d.fits'' = 2" by code_simp
  have mem: "''NDIT'' \<in> set (m_non_static ?m)" by code_simp
  note t = file_with_unknown_nod [OF rf o na nb, of "''INSTRUMENT''" "HStr ''VISIR''"]
  from t d st hv ld v e n mem show ?thesis by simp
qed

end
